theory Spec2Isabelle
  imports Main
begin

section \<open>Values of the plugin framework\<close>

text \<open>
  The provider stores every attribute in one of the framework's value types
  (\<open>types.String\<close>, \<open>types.Int64\<close>, \<open>types.Bool\<close>, \<open>types.List\<close>). Each of them
  is null, unknown or known. \<open>IsNull\<close> and \<open>IsUnknown\<close> test the state, the
  \<open>Value...\<close> accessors return the zero value of the Go type for a null or unknown
  value. The zero value of the Go struct of each type is the null value. An \<open>int64\<close>
  is modelled by the integer it denotes. No list attribute of this provider is both
  optional and computed, so a list is null or known whenever an operation runs.
\<close>

datatype tf_string = StringNull | StringUnknown | StringValue string
datatype tf_int64 = Int64Null | Int64Unknown | Int64Value int
datatype tf_bool = BoolNull | BoolUnknown | BoolValue bool
datatype 'a tf_list = ListNull | ListValue "'a list"

fun String_IsNull :: "tf_string \<Rightarrow> bool" where
  "String_IsNull StringNull = True"
| "String_IsNull _ = False"

fun String_IsUnknown :: "tf_string \<Rightarrow> bool" where
  "String_IsUnknown StringUnknown = True"
| "String_IsUnknown _ = False"

fun ValueString :: "tf_string \<Rightarrow> string" where
  "ValueString (StringValue s) = s"
| "ValueString _ = []"

fun Int64_IsNull :: "tf_int64 \<Rightarrow> bool" where
  "Int64_IsNull Int64Null = True"
| "Int64_IsNull _ = False"

fun Int64_IsUnknown :: "tf_int64 \<Rightarrow> bool" where
  "Int64_IsUnknown Int64Unknown = True"
| "Int64_IsUnknown _ = False"

fun ValueInt64 :: "tf_int64 \<Rightarrow> int" where
  "ValueInt64 (Int64Value i) = i"
| "ValueInt64 _ = 0"

fun Bool_IsNull :: "tf_bool \<Rightarrow> bool" where
  "Bool_IsNull BoolNull = True"
| "Bool_IsNull _ = False"

fun Bool_IsUnknown :: "tf_bool \<Rightarrow> bool" where
  "Bool_IsUnknown BoolUnknown = True"
| "Bool_IsUnknown _ = False"

fun ValueBool :: "tf_bool \<Rightarrow> bool" where
  "ValueBool (BoolValue b) = b"
| "ValueBool _ = False"

fun List_IsNull :: "'a tf_list \<Rightarrow> bool" where
  "List_IsNull ListNull = True"
| "List_IsNull _ = False"

text \<open>
  \<open>ElementsAs\<close> into a Go \<open>[]string\<close>; the provider calls it on lists that are
  not null. The lists of the model hold known strings only: what the framework's
  reflection does with a null or unknown element is not decided by this repository.
\<close>

fun ElementsAs :: "string tf_list \<Rightarrow> string list" where
  "ElementsAs (ListValue xs) = xs"
| "ElementsAs _ = []"

section \<open>Decoded JSON\<close>

text \<open>
  A value decoded by \<open>encoding/json\<close> into \<open>interface{}\<close>. A JSON number arrives as
  a \<open>float64\<close>, and the provider uses it only through \<open>int64(...)\<close>: \<open>JNum n\<close>
  stands for a number whose conversion is \<open>n\<close>. A Go \<open>map[string]interface{}\<close> is
  an association list read with \<open>jget\<close>; a missing key reads as the nil interface,
  on which every type assertion fails, as on \<open>JNull\<close>.
\<close>

datatype json = JNull | JBool bool | JNum int | JStr string | JArr "json list"
  | JObj "(string \<times> json) list"

type_synonym jmap = "(string \<times> json) list"

definition jget :: "jmap \<Rightarrow> string \<Rightarrow> json" where
  "jget m k = (case map_of m k of None \<Rightarrow> JNull | Some v \<Rightarrow> v)"

definition jset :: "string \<Rightarrow> json \<Rightarrow> jmap \<Rightarrow> jmap" where
  "jset k v m = (k, v) # m"

definition keys :: "jmap \<Rightarrow> string set" where
  "keys m = fst ` set m"

fun as_string :: "json \<Rightarrow> string option" where
  "as_string (JStr s) = Some s"
| "as_string _ = None"

fun as_float64 :: "json \<Rightarrow> int option" where
  "as_float64 (JNum n) = Some n"
| "as_float64 _ = None"

fun as_bool :: "json \<Rightarrow> bool option" where
  "as_bool (JBool b) = Some b"
| "as_bool _ = None"

fun as_array :: "json \<Rightarrow> json list option" where
  "as_array (JArr xs) = Some xs"
| "as_array _ = None"

text \<open>
  The loop that fills a \<open>[]attr.Value\<close> from a decoded array leaves the slot of a
  non-string element nil, and \<open>types.ListValueMust\<close> panics on a nil element.
  \<open>None\<close> is that panic.
\<close>

fun string_elements :: "json list \<Rightarrow> string list option" where
  "string_elements [] = Some []"
| "string_elements (x # xs) =
     (case as_string x of
        None \<Rightarrow> None
      | Some s \<Rightarrow> (case string_elements xs of None \<Rightarrow> None | Some ss \<Rightarrow> Some (s # ss)))"

section \<open>Formatting and parsing of integers\<close>

definition digit_char :: "nat \<Rightarrow> char" where
  "digit_char n = ''0123456789'' ! (n mod 10)"

fun digits :: "nat \<Rightarrow> string" where
  "digits n = (if n < 10 then [digit_char n] else digits (n div 10) @ [digit_char n])"

text \<open>The verb \<open>%d\<close> of \<open>fmt.Sprintf\<close>.\<close>

definition fmt_d :: "int \<Rightarrow> string" where
  "fmt_d i = (if i < 0 then CHR ''-'' # digits (nat (- i)) else digits (nat i))"

section \<open>The transport\<close>

text \<open>
  A request carries the JSON map that was marshalled into its body. What lies outside
  the provider is a parameter: whether \<open>http.NewRequest\<close> accepts a method and URL,
  what the HTTP client answers, and what \<open>json.Decoder.Decode\<close> makes of a body at
  the two target types the provider decodes into. An \<open>Inl\<close> is the text of the Go
  error. Header names keep the spelling of the source (\<open>net/http\<close> stores them
  in canonical form); no property below reads them.
\<close>

record request =
  Method :: string
  URL :: string
  Header :: "(string \<times> string) list"
  ReqBody :: "jmap option"

record response =
  StatusCode :: int
  Body :: string

record world =
  NewRequest_error :: "string \<Rightarrow> string \<Rightarrow> string option"
  HTTPClient_Do :: "request \<Rightarrow> string + response"
  DecodeObject :: "string \<Rightarrow> string + jmap"
  DecodeList :: "string \<Rightarrow> string + jmap list"

record ClientConfig =
  BaseURL :: string
  APIKey :: string

definition StatusOK :: int where "StatusOK = 200"
definition StatusNoContent :: int where "StatusNoContent = 204"
definition StatusNotFound :: int where "StatusNotFound = 404"

definition NewRequest :: "world \<Rightarrow> string \<Rightarrow> string \<Rightarrow> jmap option \<Rightarrow> string + request" where
  "NewRequest w m url body =
     (case NewRequest_error w m url of
        Some err \<Rightarrow> Inl err
      | None \<Rightarrow> Inr \<lparr>Method = m, URL = url, Header = [], ReqBody = body\<rparr>)"

definition Header_Set :: "string \<Rightarrow> string \<Rightarrow> (string \<times> string) list \<Rightarrow> (string \<times> string) list" where
  "Header_Set k v h = (k, v) # filter (\<lambda>p. fst p \<noteq> k) h"

definition ClientConfig_Do :: "ClientConfig \<Rightarrow> world \<Rightarrow> request \<Rightarrow> request \<times> (string + response)" where
  "ClientConfig_Do c w req =
     (let req = req\<lparr>Header := Header_Set ''X-API-KEY'' (APIKey c) (Header req)\<rparr>;
          req = req\<lparr>Header := Header_Set ''Content-Type'' ''application/json'' (Header req)\<rparr>
      in (req, HTTPClient_Do w req))"

text \<open>
  Every call site builds the request and sends it, and reports a failure of either
  step with the same message. \<open>send\<close> is that pair: it returns the requests that
  reached the client and the error text or the response.
\<close>

definition send :: "ClientConfig \<Rightarrow> world \<Rightarrow> string \<Rightarrow> string \<Rightarrow> jmap option
    \<Rightarrow> request list \<times> (string + response)" where
  "send c w m url body =
     (case NewRequest w m url body of
        Inl err \<Rightarrow> ([], Inl err)
      | Inr req \<Rightarrow> (case ClientConfig_Do c w req of (req', r) \<Rightarrow> ([req'], r)))"

text \<open>
  How an operation ends: a panic; one error diagnostic (summary, detail) and no write
  to the state; \<open>State.RemoveResource\<close>; or \<open>State.Set\<close> of the model. No
  operation adds a warning, and none writes the state after an error.
\<close>

datatype 'm ending = Panic | Failed string string | Removed | Saved 'm

section \<open>Provider configuration\<close>

record trmmProviderModel =
  pm_Endpoint :: tf_string
  pm_APIKey :: tf_string

text \<open>
  The input of \<open>Configure\<close> is the configuration block together with the process
  environment the provider runs in. The provider holds no call of \<open>os.Getenv\<close>, so
  the body below never reads \<open>Environ\<close>.
\<close>

record ConfigureRequest =
  Config :: trmmProviderModel
  Environ :: "string \<Rightarrow> string option"

datatype ConfigureResponse = ConfigureError string string | ConfigureData ClientConfig

definition Missing_API_Key_detail :: string where
  "Missing_API_Key_detail =
     ''The provider cannot create the Tactical RMM API client as there is a missing or empty value for the API key. ''
     @ ''Set the api_key value in the configuration or use the TRMM_API_KEY environment variable. ''
     @ ''If either is already set, ensure the value is not empty.''"

definition trmmProvider_Configure :: "ConfigureRequest \<Rightarrow> ConfigureResponse" where
  "trmmProvider_Configure req =
     (let config = Config req;
          endpoint = ValueString (pm_Endpoint config);
          apiKey = ValueString (pm_APIKey config);
          endpoint = (if endpoint = [] then ''https://api.tactical-rmm.com'' else endpoint)
      in if apiKey = [] then ConfigureError ''Missing API Key'' Missing_API_Key_detail
         else ConfigureData \<lparr>BaseURL = endpoint, APIKey = apiKey\<rparr>)"

section \<open>Script resource\<close>

record ScriptResourceModel =
  sr_Id :: tf_int64
  sr_Name :: tf_string
  sr_Description :: tf_string
  sr_Shell :: tf_string
  sr_ScriptType :: tf_string
  sr_Category :: tf_string
  sr_ScriptBody :: tf_string
  sr_DefaultTimeout :: tf_int64
  sr_Favorite :: tf_bool
  sr_Hidden :: tf_bool
  sr_RunAsUser :: tf_bool
  sr_Args :: "string tf_list"
  sr_EnvVars :: "string tf_list"
  sr_SupportedPlatforms :: "string tf_list"
  sr_Syntax :: tf_string

definition strings_json :: "string list \<Rightarrow> json" where
  "strings_json xs = JArr (map JStr xs)"

definition ScriptResource_Create_body :: "ScriptResourceModel \<Rightarrow> jmap" where
  "ScriptResource_Create_body data =
     (let body = [(''name'', JStr (ValueString (sr_Name data))),
                  (''shell'', JStr (ValueString (sr_Shell data))),
                  (''script_body'', JStr (ValueString (sr_ScriptBody data))),
                  (''script_type'', JStr ''userdefined'')];
          body = (if \<not> String_IsNull (sr_Description data)
                  then jset ''description'' (JStr (ValueString (sr_Description data))) body else body);
          body = (if \<not> String_IsNull (sr_Category data)
                  then jset ''category'' (JStr (ValueString (sr_Category data))) body else body);
          body = (if \<not> Int64_IsNull (sr_DefaultTimeout data)
                  then jset ''default_timeout'' (JNum (ValueInt64 (sr_DefaultTimeout data))) body
                  else jset ''default_timeout'' (JNum 90) body);
          body = (if \<not> Bool_IsNull (sr_Favorite data)
                  then jset ''favorite'' (JBool (ValueBool (sr_Favorite data))) body else body);
          body = (if \<not> Bool_IsNull (sr_Hidden data)
                  then jset ''hidden'' (JBool (ValueBool (sr_Hidden data))) body else body);
          body = (if \<not> Bool_IsNull (sr_RunAsUser data)
                  then jset ''run_as_user'' (JBool (ValueBool (sr_RunAsUser data))) body else body);
          body = (if \<not> String_IsNull (sr_Syntax data)
                  then jset ''syntax'' (JStr (ValueString (sr_Syntax data))) body else body);
          body = (if \<not> List_IsNull (sr_Args data)
                  then jset ''args'' (strings_json (ElementsAs (sr_Args data))) body else body);
          body = (if \<not> List_IsNull (sr_EnvVars data)
                  then jset ''env_vars'' (strings_json (ElementsAs (sr_EnvVars data))) body else body);
          body = (if \<not> List_IsNull (sr_SupportedPlatforms data)
                  then jset ''supported_platforms'' (strings_json (ElementsAs (sr_SupportedPlatforms data))) body
                  else body)
      in body)"

text \<open>
  The scan of a listing for the first entry whose \<open>name\<close> is a string equal to the
  wanted one; \<open>None\<close> is the nil map the loop leaves behind when nothing matches.
\<close>

fun find_by_name :: "string \<Rightarrow> jmap list \<Rightarrow> jmap option" where
  "find_by_name n [] = None"
| "find_by_name n (s # ss) =
     (if as_string (jget s ''name'') = Some n then Some s else find_by_name n ss)"

text \<open>
  Create fills each of the three lists from the created record only when the plan's
  list was not null (\<open>argsWasNull\<close>, \<open>envVarsWasNull\<close>, \<open>platformsWasNull\<close>).
\<close>

definition created_list :: "bool \<Rightarrow> json \<Rightarrow> string tf_list \<Rightarrow> string tf_list option" where
  "created_list wasNull v old =
     (if \<not> wasNull then
        (case as_array v of
           Some xs \<Rightarrow> map_option ListValue (string_elements xs)
         | None \<Rightarrow> Some (ListValue []))
      else Some old)"

definition ScriptResource_Create_computed :: "ScriptResourceModel \<Rightarrow> jmap \<Rightarrow> ScriptResourceModel" where
  "ScriptResource_Create_computed data createdScript =
     (let data = (case as_float64 (jget createdScript ''id'') of
                    Some i \<Rightarrow> data\<lparr>sr_Id := Int64Value i\<rparr> | None \<Rightarrow> data);
          data = (case as_string (jget createdScript ''script_type'') of
                    Some t \<Rightarrow> data\<lparr>sr_ScriptType := StringValue t\<rparr>
                  | None \<Rightarrow> data\<lparr>sr_ScriptType := StringValue ''userdefined''\<rparr>);
          data = (case as_float64 (jget createdScript ''default_timeout'') of
                    Some t \<Rightarrow> data\<lparr>sr_DefaultTimeout := Int64Value t\<rparr>
                  | None \<Rightarrow>
                      if Int64_IsNull (sr_DefaultTimeout data) \<or> Int64_IsUnknown (sr_DefaultTimeout data)
                      then data\<lparr>sr_DefaultTimeout := Int64Value 90\<rparr> else data);
          data = (case as_bool (jget createdScript ''favorite'') of
                    Some b \<Rightarrow> data\<lparr>sr_Favorite := BoolValue b\<rparr>
                  | None \<Rightarrow> data\<lparr>sr_Favorite := BoolValue False\<rparr>);
          data = (case as_bool (jget createdScript ''hidden'') of
                    Some b \<Rightarrow> data\<lparr>sr_Hidden := BoolValue b\<rparr>
                  | None \<Rightarrow> data\<lparr>sr_Hidden := BoolValue False\<rparr>);
          data = (case as_bool (jget createdScript ''run_as_user'') of
                    Some b \<Rightarrow> data\<lparr>sr_RunAsUser := BoolValue b\<rparr>
                  | None \<Rightarrow> data\<lparr>sr_RunAsUser := BoolValue False\<rparr>)
      in data)"

definition ScriptResource_Create_state :: "ScriptResourceModel \<Rightarrow> jmap \<Rightarrow> ScriptResourceModel option" where
  "ScriptResource_Create_state data createdScript =
     (let argsWasNull = List_IsNull (sr_Args data);
          envVarsWasNull = List_IsNull (sr_EnvVars data);
          platformsWasNull = List_IsNull (sr_SupportedPlatforms data);
          data = ScriptResource_Create_computed data createdScript
      in case created_list argsWasNull (jget createdScript ''args'') (sr_Args data) of
           None \<Rightarrow> None
         | Some args \<Rightarrow>
        (case created_list envVarsWasNull (jget createdScript ''env_vars'') (sr_EnvVars data) of
           None \<Rightarrow> None
         | Some envVars \<Rightarrow>
        (case created_list platformsWasNull (jget createdScript ''supported_platforms'')
                (sr_SupportedPlatforms data) of
           None \<Rightarrow> None
         | Some platforms \<Rightarrow>
             Some (data\<lparr>sr_Args := args, sr_EnvVars := envVars, sr_SupportedPlatforms := platforms\<rparr>))))"

definition ScriptResource_Create :: "ClientConfig \<Rightarrow> world \<Rightarrow> ScriptResourceModel
    \<Rightarrow> request list \<times> ScriptResourceModel ending" where
  "ScriptResource_Create c w data =
     (case send c w ''POST'' (BaseURL c @ ''/scripts/'') (Some (ScriptResource_Create_body data)) of
        (sent, Inl err) \<Rightarrow>
          (sent, Failed ''Client Error'' (''Unable to create script, got error: '' @ err))
      | (sent, Inr httpResp) \<Rightarrow>
          if StatusCode httpResp \<noteq> StatusOK then
            (sent, Failed ''Client Error''
               (''Unable to create script, status code: '' @ fmt_d (StatusCode httpResp)))
          else
            (case send c w ''GET'' (BaseURL c @ ''/scripts/'') None of
               (sent2, Inl err) \<Rightarrow>
                 (sent @ sent2, Failed ''Client Error'' (''Unable to list scripts, got error: '' @ err))
             | (sent2, Inr listResp) \<Rightarrow>
                 (case DecodeList w (Body listResp) of
                    Inl err \<Rightarrow>
                      (sent @ sent2,
                       Failed ''Client Error'' (''Unable to parse scripts list, got error: '' @ err))
                  | Inr scripts \<Rightarrow>
                      (case find_by_name (ValueString (sr_Name data)) scripts of
                         None \<Rightarrow>
                           (sent @ sent2, Failed ''Client Error'' ''Unable to find created script'')
                       | Some createdScript \<Rightarrow>
                           (case ScriptResource_Create_state data createdScript of
                              None \<Rightarrow> (sent @ sent2, Panic)
                            | Some data' \<Rightarrow> (sent @ sent2, Saved data'))))))"

text \<open>
  Read replaces each of the three lists only by a non-empty array of the fetched record.
\<close>

definition read_list :: "json \<Rightarrow> string tf_list \<Rightarrow> string tf_list option" where
  "read_list v old =
     (case as_array v of
        Some xs \<Rightarrow> if length xs > 0 then map_option ListValue (string_elements xs) else Some old
      | None \<Rightarrow> Some old)"

definition ScriptResource_Read_scalars :: "ScriptResourceModel \<Rightarrow> jmap \<Rightarrow> ScriptResourceModel" where
  "ScriptResource_Read_scalars data result =
     (let data = (case as_string (jget result ''name'') of
                    Some v \<Rightarrow> data\<lparr>sr_Name := StringValue v\<rparr> | None \<Rightarrow> data);
          data = (case as_string (jget result ''description'') of
                    Some v \<Rightarrow> data\<lparr>sr_Description := StringValue v\<rparr> | None \<Rightarrow> data);
          data = (case as_string (jget result ''shell'') of
                    Some v \<Rightarrow> data\<lparr>sr_Shell := StringValue v\<rparr> | None \<Rightarrow> data);
          data = (case as_string (jget result ''script_type'') of
                    Some v \<Rightarrow> data\<lparr>sr_ScriptType := StringValue v\<rparr> | None \<Rightarrow> data);
          data = (case as_string (jget result ''category'') of
                    Some v \<Rightarrow> if v \<noteq> [] then data\<lparr>sr_Category := StringValue v\<rparr> else data
                  | None \<Rightarrow> data);
          data = (case as_string (jget result ''script_body'') of
                    Some v \<Rightarrow> data\<lparr>sr_ScriptBody := StringValue v\<rparr> | None \<Rightarrow> data);
          data = (case as_float64 (jget result ''default_timeout'') of
                    Some v \<Rightarrow> data\<lparr>sr_DefaultTimeout := Int64Value v\<rparr> | None \<Rightarrow> data);
          data = (case as_bool (jget result ''favorite'') of
                    Some v \<Rightarrow> data\<lparr>sr_Favorite := BoolValue v\<rparr> | None \<Rightarrow> data);
          data = (case as_bool (jget result ''hidden'') of
                    Some v \<Rightarrow> data\<lparr>sr_Hidden := BoolValue v\<rparr> | None \<Rightarrow> data);
          data = (case as_bool (jget result ''run_as_user'') of
                    Some v \<Rightarrow> data\<lparr>sr_RunAsUser := BoolValue v\<rparr> | None \<Rightarrow> data);
          data = (case as_string (jget result ''syntax'') of
                    Some v \<Rightarrow> if v \<noteq> [] then data\<lparr>sr_Syntax := StringValue v\<rparr> else data
                  | None \<Rightarrow> data)
      in data)"

definition ScriptResource_Read_state :: "ScriptResourceModel \<Rightarrow> jmap \<Rightarrow> ScriptResourceModel option" where
  "ScriptResource_Read_state data result =
     (let data = ScriptResource_Read_scalars data result
      in case read_list (jget result ''args'') (sr_Args data) of
           None \<Rightarrow> None
         | Some args \<Rightarrow>
        (case read_list (jget result ''env_vars'') (sr_EnvVars data) of
           None \<Rightarrow> None
         | Some envVars \<Rightarrow>
        (case read_list (jget result ''supported_platforms'') (sr_SupportedPlatforms data) of
           None \<Rightarrow> None
         | Some platforms \<Rightarrow>
             Some (data\<lparr>sr_Args := args, sr_EnvVars := envVars, sr_SupportedPlatforms := platforms\<rparr>))))"

definition ScriptResource_url :: "ClientConfig \<Rightarrow> int \<Rightarrow> string" where
  "ScriptResource_url c i = BaseURL c @ ''/scripts/'' @ fmt_d i @ ''/''"

definition ScriptResource_Read :: "ClientConfig \<Rightarrow> world \<Rightarrow> ScriptResourceModel
    \<Rightarrow> request list \<times> ScriptResourceModel ending" where
  "ScriptResource_Read c w data =
     (case send c w ''GET'' (ScriptResource_url c (ValueInt64 (sr_Id data))) None of
        (sent, Inl err) \<Rightarrow>
          (sent, Failed ''Client Error'' (''Unable to read script, got error: '' @ err))
      | (sent, Inr httpResp) \<Rightarrow>
          if StatusCode httpResp = StatusNotFound then (sent, Removed)
          else if StatusCode httpResp \<noteq> StatusOK then
            (sent, Failed ''Client Error''
               (''Unable to read script, status code: '' @ fmt_d (StatusCode httpResp)))
          else
            (case DecodeObject w (Body httpResp) of
               Inl err \<Rightarrow>
                 (sent, Failed ''Client Error'' (''Unable to parse response, got error: '' @ err))
             | Inr result \<Rightarrow>
                 (case ScriptResource_Read_state data result of
                    None \<Rightarrow> (sent, Panic)
                  | Some data' \<Rightarrow> (sent, Saved data'))))"

subsection \<open>Update of a script\<close>

definition ScriptResource_Update_body :: "ScriptResourceModel \<Rightarrow> jmap" where
  "ScriptResource_Update_body data =
     (let body = [(''name'', JStr (ValueString (sr_Name data))),
                  (''shell'', JStr (ValueString (sr_Shell data))),
                  (''script_body'', JStr (ValueString (sr_ScriptBody data)))];
          body = (if \<not> String_IsNull (sr_Description data)
                  then jset ''description'' (JStr (ValueString (sr_Description data))) body else body);
          body = (if \<not> String_IsNull (sr_Category data)
                  then jset ''category'' (JStr (ValueString (sr_Category data))) body else body);
          body = (if \<not> Int64_IsNull (sr_DefaultTimeout data)
                  then jset ''default_timeout'' (JNum (ValueInt64 (sr_DefaultTimeout data))) body
                  else body);
          body = (if \<not> Bool_IsNull (sr_Favorite data)
                  then jset ''favorite'' (JBool (ValueBool (sr_Favorite data))) body else body);
          body = (if \<not> Bool_IsNull (sr_Hidden data)
                  then jset ''hidden'' (JBool (ValueBool (sr_Hidden data))) body else body);
          body = (if \<not> Bool_IsNull (sr_RunAsUser data)
                  then jset ''run_as_user'' (JBool (ValueBool (sr_RunAsUser data))) body else body);
          body = (if \<not> String_IsNull (sr_Syntax data)
                  then jset ''syntax'' (JStr (ValueString (sr_Syntax data))) body else body);
          body = (if \<not> List_IsNull (sr_Args data)
                  then jset ''args'' (strings_json (ElementsAs (sr_Args data))) body else body);
          body = (if \<not> List_IsNull (sr_EnvVars data)
                  then jset ''env_vars'' (strings_json (ElementsAs (sr_EnvVars data))) body else body);
          body = (if \<not> List_IsNull (sr_SupportedPlatforms data)
                  then jset ''supported_platforms'' (strings_json (ElementsAs (sr_SupportedPlatforms data))) body
                  else body)
      in body)"

definition ScriptResource_Update_computed :: "ScriptResourceModel \<Rightarrow> jmap \<Rightarrow> ScriptResourceModel" where
  "ScriptResource_Update_computed data result =
     (let data = (case as_string (jget result ''script_type'') of
                    Some t \<Rightarrow> data\<lparr>sr_ScriptType := StringValue t\<rparr>
                  | None \<Rightarrow> data\<lparr>sr_ScriptType := StringValue ''userdefined''\<rparr>);
          data = (case as_float64 (jget result ''default_timeout'') of
                    Some t \<Rightarrow> data\<lparr>sr_DefaultTimeout := Int64Value t\<rparr>
                  | None \<Rightarrow>
                      if Int64_IsNull (sr_DefaultTimeout data) \<or> Int64_IsUnknown (sr_DefaultTimeout data)
                      then data\<lparr>sr_DefaultTimeout := Int64Value 90\<rparr> else data);
          data = (case as_bool (jget result ''favorite'') of
                    Some b \<Rightarrow> data\<lparr>sr_Favorite := BoolValue b\<rparr>
                  | None \<Rightarrow>
                      if Bool_IsNull (sr_Favorite data) \<or> Bool_IsUnknown (sr_Favorite data)
                      then data\<lparr>sr_Favorite := BoolValue False\<rparr> else data);
          data = (case as_bool (jget result ''hidden'') of
                    Some b \<Rightarrow> data\<lparr>sr_Hidden := BoolValue b\<rparr>
                  | None \<Rightarrow>
                      if Bool_IsNull (sr_Hidden data) \<or> Bool_IsUnknown (sr_Hidden data)
                      then data\<lparr>sr_Hidden := BoolValue False\<rparr> else data);
          data = (case as_bool (jget result ''run_as_user'') of
                    Some b \<Rightarrow> data\<lparr>sr_RunAsUser := BoolValue b\<rparr>
                  | None \<Rightarrow>
                      if Bool_IsNull (sr_RunAsUser data) \<or> Bool_IsUnknown (sr_RunAsUser data)
                      then data\<lparr>sr_RunAsUser := BoolValue False\<rparr> else data)
      in data)"

text \<open>Update takes the planned values and the prior state.\<close>

definition ScriptResource_Update :: "ClientConfig \<Rightarrow> world \<Rightarrow> ScriptResourceModel
    \<Rightarrow> ScriptResourceModel \<Rightarrow> request list \<times> ScriptResourceModel ending" where
  "ScriptResource_Update c w plan state =
     (let data = plan\<lparr>sr_Id := sr_Id state\<rparr> in
      case send c w ''PUT'' (ScriptResource_url c (ValueInt64 (sr_Id data)))
             (Some (ScriptResource_Update_body data)) of
        (sent, Inl err) \<Rightarrow>
          (sent, Failed ''Client Error'' (''Unable to update script, got error: '' @ err))
      | (sent, Inr httpResp) \<Rightarrow>
          if StatusCode httpResp \<noteq> StatusOK then
            (sent, Failed ''Client Error''
               (''Unable to update script, status code: '' @ fmt_d (StatusCode httpResp)))
          else
            (case send c w ''GET'' (ScriptResource_url c (ValueInt64 (sr_Id data))) None of
               (sent2, Inl err) \<Rightarrow>
                 (sent @ sent2,
                  Failed ''Client Error'' (''Unable to read updated script, got error: '' @ err))
             | (sent2, Inr getResp) \<Rightarrow>
                 if StatusCode getResp \<noteq> StatusOK then
                   (sent @ sent2, Failed ''Client Error''
                      (''Unable to read updated script, status code: '' @ fmt_d (StatusCode getResp)))
                 else
                   (case DecodeObject w (Body getResp) of
                      Inl err \<Rightarrow>
                        (sent @ sent2,
                         Failed ''Client Error'' (''Unable to parse response, got error: '' @ err))
                    | Inr result \<Rightarrow>
                        (sent @ sent2, Saved (ScriptResource_Update_computed data result)))))"

subsection \<open>Import\<close>

text \<open>
  \<open>strconv.ParseInt(s, 10, 64)\<close>: an optional sign, then \<open>ParseUint\<close> on the rest, whose
  loop stops at the first byte that is not a decimal digit or at the first overflow of
  64 bits, then the range check of a signed 64-bit value.
\<close>

datatype NumError = ErrSyntax | ErrRange

definition digit_val :: "char \<Rightarrow> nat option" where
  "digit_val ch =
     (if ch = CHR ''0'' then Some 0 else if ch = CHR ''1'' then Some 1
      else if ch = CHR ''2'' then Some 2 else if ch = CHR ''3'' then Some 3
      else if ch = CHR ''4'' then Some 4 else if ch = CHR ''5'' then Some 5
      else if ch = CHR ''6'' then Some 6 else if ch = CHR ''7'' then Some 7
      else if ch = CHR ''8'' then Some 8 else if ch = CHR ''9'' then Some 9
      else None)"

definition maxUint64 :: nat where "maxUint64 = 2 ^ 64 - 1"

fun ParseUint_loop :: "nat \<Rightarrow> string \<Rightarrow> NumError + nat" where
  "ParseUint_loop n [] = Inr n"
| "ParseUint_loop n (ch # cs) =
     (case digit_val ch of
        None \<Rightarrow> Inl ErrSyntax
      | Some d \<Rightarrow>
          if n \<ge> maxUint64 div 10 + 1 then Inl ErrRange
          else if n * 10 + d > maxUint64 then Inl ErrRange
          else ParseUint_loop (n * 10 + d) cs)"

definition ParseUint :: "string \<Rightarrow> NumError + nat" where
  "ParseUint s = (if s = [] then Inl ErrSyntax else ParseUint_loop 0 s)"

definition ParseInt :: "string \<Rightarrow> NumError + int" where
  "ParseInt s =
     (if s = [] then Inl ErrSyntax
      else
        let neg = (hd s = CHR ''-'');
            s' = (if hd s = CHR ''+'' \<or> hd s = CHR ''-'' then tl s else s)
        in case ParseUint s' of
             Inl e \<Rightarrow> Inl e
           | Inr un \<Rightarrow>
               if \<not> neg \<and> un \<ge> 2 ^ 63 then Inl ErrRange
               else if neg \<and> un > 2 ^ 63 then Inl ErrRange
               else Inr (if neg then - int un else int un))"

text \<open>
  The text of a \<open>*strconv.NumError\<close>. It quotes the input with \<open>strconv.Quote\<close>,
  which is a parameter here.
\<close>

definition NumError_Error :: "(string \<Rightarrow> string) \<Rightarrow> string \<Rightarrow> NumError \<Rightarrow> string" where
  "NumError_Error quote s e =
     ''strconv.ParseInt: parsing '' @ quote s @ '': ''
       @ (case e of ErrSyntax \<Rightarrow> ''invalid syntax'' | ErrRange \<Rightarrow> ''value out of range'')"

text \<open>
  The three resources import alike: the state receives the attribute \<open>id\<close> alone,
  here the value of \<open>Saved\<close>.
\<close>

definition ScriptResource_ImportState :: "(string \<Rightarrow> string) \<Rightarrow> string \<Rightarrow> int ending" where
  "ScriptResource_ImportState quote ID =
     (case ParseInt ID of
        Inl err \<Rightarrow> Failed ''Invalid ID'' (''Unable to parse ID: '' @ NumError_Error quote ID err)
      | Inr i \<Rightarrow> Saved i)"

definition ScriptSnippetResource_ImportState :: "(string \<Rightarrow> string) \<Rightarrow> string \<Rightarrow> int ending" where
  "ScriptSnippetResource_ImportState quote ID =
     (case ParseInt ID of
        Inl err \<Rightarrow> Failed ''Invalid ID'' (''Unable to parse ID: '' @ NumError_Error quote ID err)
      | Inr i \<Rightarrow> Saved i)"

definition KeyStoreResource_ImportState :: "(string \<Rightarrow> string) \<Rightarrow> string \<Rightarrow> int ending" where
  "KeyStoreResource_ImportState quote ID =
     (case ParseInt ID of
        Inl err \<Rightarrow> Failed ''Invalid ID'' (''Unable to parse ID: '' @ NumError_Error quote ID err)
      | Inr i \<Rightarrow> Saved i)"

section \<open>Script snippet resource\<close>

record ScriptSnippetResourceModel =
  nr_Id :: tf_int64
  nr_Name :: tf_string
  nr_Desc :: tf_string
  nr_Code :: tf_string
  nr_Shell :: tf_string

definition ScriptSnippetResource_url :: "ClientConfig \<Rightarrow> int \<Rightarrow> string" where
  "ScriptSnippetResource_url c i = BaseURL c @ ''/scripts/snippets/'' @ fmt_d i @ ''/''"

definition ScriptSnippetResource_Read_state :: "ScriptSnippetResourceModel \<Rightarrow> jmap
    \<Rightarrow> ScriptSnippetResourceModel" where
  "ScriptSnippetResource_Read_state data result =
     (let data = (case as_string (jget result ''name'') of
                    Some v \<Rightarrow> data\<lparr>nr_Name := StringValue v\<rparr> | None \<Rightarrow> data);
          data = (case as_string (jget result ''desc'') of
                    Some v \<Rightarrow> data\<lparr>nr_Desc := StringValue v\<rparr> | None \<Rightarrow> data);
          data = (case as_string (jget result ''code'') of
                    Some v \<Rightarrow> data\<lparr>nr_Code := StringValue v\<rparr> | None \<Rightarrow> data);
          data = (case as_string (jget result ''shell'') of
                    Some v \<Rightarrow> data\<lparr>nr_Shell := StringValue v\<rparr> | None \<Rightarrow> data)
      in data)"

definition ScriptSnippetResource_Read :: "ClientConfig \<Rightarrow> world \<Rightarrow> ScriptSnippetResourceModel
    \<Rightarrow> request list \<times> ScriptSnippetResourceModel ending" where
  "ScriptSnippetResource_Read c w data =
     (case send c w ''GET'' (ScriptSnippetResource_url c (ValueInt64 (nr_Id data))) None of
        (sent, Inl err) \<Rightarrow>
          (sent, Failed ''Client Error'' (''Unable to read script snippet, got error: '' @ err))
      | (sent, Inr httpResp) \<Rightarrow>
          if StatusCode httpResp = StatusNotFound then (sent, Removed)
          else if StatusCode httpResp \<noteq> StatusOK then
            (sent, Failed ''Client Error''
               (''Unable to read script snippet, status code: '' @ fmt_d (StatusCode httpResp)))
          else
            (case DecodeObject w (Body httpResp) of
               Inl err \<Rightarrow>
                 (sent, Failed ''Client Error'' (''Unable to parse response, got error: '' @ err))
             | Inr result \<Rightarrow> (sent, Saved (ScriptSnippetResource_Read_state data result))))"

definition ScriptSnippetResource_Update_body :: "ScriptSnippetResourceModel \<Rightarrow> jmap" where
  "ScriptSnippetResource_Update_body data =
     (let body = [(''name'', JStr (ValueString (nr_Name data))),
                  (''code'', JStr (ValueString (nr_Code data)))];
          body = (if \<not> String_IsNull (nr_Desc data)
                  then jset ''desc'' (JStr (ValueString (nr_Desc data))) body else body);
          body = (if \<not> String_IsNull (nr_Shell data)
                  then jset ''shell'' (JStr (ValueString (nr_Shell data))) body else body)
      in body)"

definition ScriptSnippetResource_Update_computed :: "ScriptSnippetResourceModel \<Rightarrow> jmap
    \<Rightarrow> ScriptSnippetResourceModel" where
  "ScriptSnippetResource_Update_computed data result =
     (case as_string (jget result ''shell'') of
        Some v \<Rightarrow> data\<lparr>nr_Shell := StringValue v\<rparr>
      | None \<Rightarrow>
          if String_IsNull (nr_Shell data) \<or> String_IsUnknown (nr_Shell data)
          then data\<lparr>nr_Shell := StringValue ''powershell''\<rparr> else data)"

definition ScriptSnippetResource_Update :: "ClientConfig \<Rightarrow> world \<Rightarrow> ScriptSnippetResourceModel
    \<Rightarrow> ScriptSnippetResourceModel \<Rightarrow> request list \<times> ScriptSnippetResourceModel ending" where
  "ScriptSnippetResource_Update c w plan state =
     (let data = plan\<lparr>nr_Id := nr_Id state\<rparr> in
      case send c w ''PUT'' (ScriptSnippetResource_url c (ValueInt64 (nr_Id data)))
             (Some (ScriptSnippetResource_Update_body data)) of
        (sent, Inl err) \<Rightarrow>
          (sent, Failed ''Client Error'' (''Unable to update script snippet, got error: '' @ err))
      | (sent, Inr httpResp) \<Rightarrow>
          if StatusCode httpResp \<noteq> StatusOK then
            (sent, Failed ''Client Error''
               (''Unable to update script snippet, status code: '' @ fmt_d (StatusCode httpResp)))
          else
            (case send c w ''GET'' (ScriptSnippetResource_url c (ValueInt64 (nr_Id data))) None of
               (sent2, Inl err) \<Rightarrow>
                 (sent @ sent2, Failed ''Client Error''
                    (''Unable to read updated script snippet, got error: '' @ err))
             | (sent2, Inr getResp) \<Rightarrow>
                 if StatusCode getResp \<noteq> StatusOK then
                   (sent @ sent2, Failed ''Client Error''
                      (''Unable to read updated script snippet, status code: ''
                         @ fmt_d (StatusCode getResp)))
                 else
                   (case DecodeObject w (Body getResp) of
                      Inl err \<Rightarrow>
                        (sent @ sent2,
                         Failed ''Client Error'' (''Unable to parse response, got error: '' @ err))
                    | Inr result \<Rightarrow>
                        (sent @ sent2, Saved (ScriptSnippetResource_Update_computed data result)))))"

section \<open>Keystore resource\<close>

record KeyStoreResourceModel =
  kr_Id :: tf_int64
  kr_Name :: tf_string
  kr_Value :: tf_string

text \<open>
  The scan of a listing for the first entry whose \<open>id\<close> is a number that converts to
  the wanted \<open>int64\<close>.
\<close>

fun find_by_id :: "int \<Rightarrow> jmap list \<Rightarrow> jmap option" where
  "find_by_id i [] = None"
| "find_by_id i (e # es) =
     (if as_float64 (jget e ''id'') = Some i then Some e else find_by_id i es)"

definition KeyStoreResource_Read_state :: "KeyStoreResourceModel \<Rightarrow> jmap \<Rightarrow> KeyStoreResourceModel" where
  "KeyStoreResource_Read_state data entry =
     (let data = (case as_string (jget entry ''name'') of
                    Some v \<Rightarrow> data\<lparr>kr_Name := StringValue v\<rparr> | None \<Rightarrow> data);
          data = (case as_string (jget entry ''value'') of
                    Some v \<Rightarrow> data\<lparr>kr_Value := StringValue v\<rparr> | None \<Rightarrow> data)
      in data)"

definition KeyStoreResource_Read :: "ClientConfig \<Rightarrow> world \<Rightarrow> KeyStoreResourceModel
    \<Rightarrow> request list \<times> KeyStoreResourceModel ending" where
  "KeyStoreResource_Read c w data =
     (case send c w ''GET'' (BaseURL c @ ''/core/keystore/'') None of
        (sent, Inl err) \<Rightarrow>
          (sent, Failed ''Client Error'' (''Unable to read keystore entries, got error: '' @ err))
      | (sent, Inr httpResp) \<Rightarrow>
          if StatusCode httpResp \<noteq> StatusOK then
            (sent, Failed ''Client Error''
               (''Unable to read keystore entries, status code: '' @ fmt_d (StatusCode httpResp)))
          else
            (case DecodeList w (Body httpResp) of
               Inl err \<Rightarrow>
                 (sent, Failed ''Client Error'' (''Unable to parse response, got error: '' @ err))
             | Inr entries \<Rightarrow>
                 (case find_by_id (ValueInt64 (kr_Id data)) entries of
                    None \<Rightarrow> (sent, Removed)
                  | Some entry \<Rightarrow> (sent, Saved (KeyStoreResource_Read_state data entry)))))"

definition KeyStoreResource_url :: "ClientConfig \<Rightarrow> int \<Rightarrow> string" where
  "KeyStoreResource_url c i = BaseURL c @ ''/core/keystore/'' @ fmt_d i @ ''/''"

definition KeyStoreResource_Update_body :: "KeyStoreResourceModel \<Rightarrow> jmap" where
  "KeyStoreResource_Update_body data =
     [(''name'', JStr (ValueString (kr_Name data))),
      (''value'', JStr (ValueString (kr_Value data)))]"

definition KeyStoreResource_Update :: "ClientConfig \<Rightarrow> world \<Rightarrow> KeyStoreResourceModel
    \<Rightarrow> KeyStoreResourceModel \<Rightarrow> request list \<times> KeyStoreResourceModel ending" where
  "KeyStoreResource_Update c w plan state =
     (let data = plan\<lparr>kr_Id := kr_Id state\<rparr>;
          updateURL = KeyStoreResource_url c (ValueInt64 (kr_Id data))
      in case send c w ''PUT'' updateURL (Some (KeyStoreResource_Update_body data)) of
        (sent, Inl err) \<Rightarrow>
          (sent, Failed ''Client Error'' (''Unable to update keystore entry, got error: '' @ err))
      | (sent, Inr httpResp) \<Rightarrow>
          if StatusCode httpResp \<noteq> StatusOK then
            (sent, Failed ''Client Error''
               (''Unable to update keystore entry ID '' @ fmt_d (ValueInt64 (kr_Id data))
                  @ '', status code: '' @ fmt_d (StatusCode httpResp)
                  @ '', URL: '' @ updateURL @ '', response: '' @ Body httpResp))
          else (sent, Saved data))"

section \<open>Data sources\<close>

text \<open>
  The data sources fill their models with the idiom
  \<open>if v, ok := m[k].(T); ok { field = Value(v) } else { field = ... }\<close>, where a
  missing \<open>else\<close> leaves the field as it was. The next functions are the value the
  field holds afterwards, given the decoded value and the value to keep or to fall
  back on. The \<open>nonempty\<close> variant is the test \<open>ok && v != ""\<close>.
\<close>

definition string_or :: "json \<Rightarrow> tf_string \<Rightarrow> tf_string" where
  "string_or v other = (case as_string v of Some s \<Rightarrow> StringValue s | None \<Rightarrow> other)"

definition nonempty_string_or :: "json \<Rightarrow> tf_string \<Rightarrow> tf_string" where
  "nonempty_string_or v other =
     (case as_string v of Some s \<Rightarrow> if s \<noteq> [] then StringValue s else other | None \<Rightarrow> other)"

definition int64_or :: "json \<Rightarrow> tf_int64 \<Rightarrow> tf_int64" where
  "int64_or v other = (case as_float64 v of Some i \<Rightarrow> Int64Value i | None \<Rightarrow> other)"

definition bool_or :: "json \<Rightarrow> tf_bool \<Rightarrow> tf_bool" where
  "bool_or v other = (case as_bool v of Some b \<Rightarrow> BoolValue b | None \<Rightarrow> other)"

text \<open>
  A list of a data source is the decoded array when that is not empty, and null
  otherwise; \<open>None\<close> is the panic of \<open>ListValueMust\<close>.
\<close>

definition ds_list :: "json \<Rightarrow> string tf_list option" where
  "ds_list v =
     (case as_array v of
        Some xs \<Rightarrow> if length xs > 0 then map_option ListValue (string_elements xs) else Some ListNull
      | None \<Rightarrow> Some ListNull)"

definition apostrophe :: string where
  "apostrophe = [CHR 0x27]"

subsection \<open>Singular script data source\<close>

record ScriptDataSourceModel =
  sd_Id :: tf_int64
  sd_Name :: tf_string
  sd_Description :: tf_string
  sd_Shell :: tf_string
  sd_ScriptType :: tf_string
  sd_Category :: tf_string
  sd_Filename :: tf_string
  sd_ScriptBody :: tf_string
  sd_ScriptHash :: tf_string
  sd_DefaultTimeout :: tf_int64
  sd_Favorite :: tf_bool
  sd_Hidden :: tf_bool
  sd_RunAsUser :: tf_bool
  sd_Args :: "string tf_list"
  sd_EnvVars :: "string tf_list"
  sd_SupportedPlatforms :: "string tf_list"
  sd_Syntax :: tf_string

definition ScriptDataSource_state :: "ScriptDataSourceModel \<Rightarrow> jmap \<Rightarrow> ScriptDataSourceModel option" where
  "ScriptDataSource_state data script =
     (case ds_list (jget script ''args'') of
        None \<Rightarrow> None
      | Some args \<Rightarrow>
     (case ds_list (jget script ''env_vars'') of
        None \<Rightarrow> None
      | Some envVars \<Rightarrow>
     (case ds_list (jget script ''supported_platforms'') of
        None \<Rightarrow> None
      | Some platforms \<Rightarrow>
          Some (data\<lparr>
            sd_Id := int64_or (jget script ''id'') (sd_Id data),
            sd_Name := string_or (jget script ''name'') (sd_Name data),
            sd_Description := string_or (jget script ''description'') StringNull,
            sd_Shell := string_or (jget script ''shell'') (sd_Shell data),
            sd_ScriptType := string_or (jget script ''script_type'') (sd_ScriptType data),
            sd_Category := nonempty_string_or (jget script ''category'') StringNull,
            sd_Filename := nonempty_string_or (jget script ''filename'') StringNull,
            sd_ScriptBody := string_or (jget script ''script_body'') (sd_ScriptBody data),
            sd_ScriptHash := nonempty_string_or (jget script ''script_hash'') StringNull,
            sd_DefaultTimeout := int64_or (jget script ''default_timeout'') (sd_DefaultTimeout data),
            sd_Favorite := bool_or (jget script ''favorite'') (sd_Favorite data),
            sd_Hidden := bool_or (jget script ''hidden'') (sd_Hidden data),
            sd_RunAsUser := bool_or (jget script ''run_as_user'') (sd_RunAsUser data),
            sd_Syntax := nonempty_string_or (jget script ''syntax'') StringNull,
            sd_Args := args, sd_EnvVars := envVars, sd_SupportedPlatforms := platforms\<rparr>))))"

definition ScriptDataSource_Read :: "ClientConfig \<Rightarrow> world \<Rightarrow> ScriptDataSourceModel
    \<Rightarrow> request list \<times> ScriptDataSourceModel ending" where
  "ScriptDataSource_Read c w data =
     (if Int64_IsNull (sd_Id data) \<and> String_IsNull (sd_Name data) then
        ([], Failed ''Missing Script Identifier''
               (''Either '' @ apostrophe @ ''id'' @ apostrophe @ '' or '' @ apostrophe @ ''name''
                  @ apostrophe @ '' must be specified to look up a script.''))
      else if \<not> Int64_IsNull (sd_Id data) then
        (case send c w ''GET'' (ScriptResource_url c (ValueInt64 (sd_Id data))) None of
           (sent, Inl err) \<Rightarrow>
             (sent, Failed ''Client Error'' (''Unable to read script, got error: '' @ err))
         | (sent, Inr httpResp) \<Rightarrow>
             if StatusCode httpResp = StatusNotFound then
               (sent, Failed ''Script Not Found''
                  (''Script with ID '' @ fmt_d (ValueInt64 (sd_Id data)) @ '' not found''))
             else if StatusCode httpResp \<noteq> StatusOK then
               (sent, Failed ''Client Error''
                  (''Unable to read script, status code: '' @ fmt_d (StatusCode httpResp)))
             else
               (case DecodeObject w (Body httpResp) of
                  Inl err \<Rightarrow>
                    (sent, Failed ''Client Error'' (''Unable to parse response, got error: '' @ err))
                | Inr script \<Rightarrow>
                    (case ScriptDataSource_state data script of
                       None \<Rightarrow> (sent, Panic)
                     | Some data' \<Rightarrow> (sent, Saved data'))))
      else
        (case send c w ''GET'' (BaseURL c @ ''/scripts/'') None of
           (sent, Inl err) \<Rightarrow>
             (sent, Failed ''Client Error'' (''Unable to list scripts, got error: '' @ err))
         | (sent, Inr httpResp) \<Rightarrow>
             if StatusCode httpResp \<noteq> StatusOK then
               (sent, Failed ''Client Error''
                  (''Unable to list scripts, status code: '' @ fmt_d (StatusCode httpResp)))
             else
               (case DecodeList w (Body httpResp) of
                  Inl err \<Rightarrow>
                    (sent, Failed ''Client Error'' (''Unable to parse scripts list, got error: '' @ err))
                | Inr scripts \<Rightarrow>
                    (case find_by_name (ValueString (sd_Name data)) scripts of
                       None \<Rightarrow>
                         (sent, Failed ''Script Not Found''
                            (''Script with name '' @ apostrophe @ ValueString (sd_Name data)
                               @ apostrophe @ '' not found''))
                     | Some script \<Rightarrow>
                         (case ScriptDataSource_state data script of
                            None \<Rightarrow> (sent, Panic)
                          | Some data' \<Rightarrow> (sent, Saved data'))))))"

subsection \<open>Singular script snippet data source\<close>

record ScriptSnippetDataSourceModel =
  nd_Id :: tf_int64
  nd_Name :: tf_string
  nd_Desc :: tf_string
  nd_Code :: tf_string
  nd_Shell :: tf_string

definition ScriptSnippetDataSource_state :: "ScriptSnippetDataSourceModel \<Rightarrow> jmap
    \<Rightarrow> ScriptSnippetDataSourceModel" where
  "ScriptSnippetDataSource_state data snippet =
     data\<lparr>nd_Id := int64_or (jget snippet ''id'') (nd_Id data),
          nd_Name := string_or (jget snippet ''name'') (nd_Name data),
          nd_Desc := string_or (jget snippet ''desc'') StringNull,
          nd_Code := string_or (jget snippet ''code'') (nd_Code data),
          nd_Shell := string_or (jget snippet ''shell'') (nd_Shell data)\<rparr>"

definition ScriptSnippetDataSource_Read :: "ClientConfig \<Rightarrow> world \<Rightarrow> ScriptSnippetDataSourceModel
    \<Rightarrow> request list \<times> ScriptSnippetDataSourceModel ending" where
  "ScriptSnippetDataSource_Read c w data =
     (if Int64_IsNull (nd_Id data) \<and> String_IsNull (nd_Name data) then
        ([], Failed ''Missing Script Snippet Identifier''
               (''Either '' @ apostrophe @ ''id'' @ apostrophe @ '' or '' @ apostrophe @ ''name''
                  @ apostrophe @ '' must be specified to look up a script snippet.''))
      else if \<not> Int64_IsNull (nd_Id data) then
        (case send c w ''GET'' (ScriptSnippetResource_url c (ValueInt64 (nd_Id data))) None of
           (sent, Inl err) \<Rightarrow>
             (sent, Failed ''Client Error'' (''Unable to read script snippet, got error: '' @ err))
         | (sent, Inr httpResp) \<Rightarrow>
             if StatusCode httpResp = StatusNotFound then
               (sent, Failed ''Script Snippet Not Found''
                  (''Script snippet with ID '' @ fmt_d (ValueInt64 (nd_Id data)) @ '' not found''))
             else if StatusCode httpResp \<noteq> StatusOK then
               (sent, Failed ''Client Error''
                  (''Unable to read script snippet, status code: '' @ fmt_d (StatusCode httpResp)))
             else
               (case DecodeObject w (Body httpResp) of
                  Inl err \<Rightarrow>
                    (sent, Failed ''Client Error'' (''Unable to parse response, got error: '' @ err))
                | Inr snippet \<Rightarrow> (sent, Saved (ScriptSnippetDataSource_state data snippet))))
      else
        (case send c w ''GET'' (BaseURL c @ ''/scripts/snippets/'') None of
           (sent, Inl err) \<Rightarrow>
             (sent, Failed ''Client Error'' (''Unable to list script snippets, got error: '' @ err))
         | (sent, Inr httpResp) \<Rightarrow>
             if StatusCode httpResp \<noteq> StatusOK then
               (sent, Failed ''Client Error''
                  (''Unable to list script snippets, status code: '' @ fmt_d (StatusCode httpResp)))
             else
               (case DecodeList w (Body httpResp) of
                  Inl err \<Rightarrow>
                    (sent, Failed ''Client Error''
                       (''Unable to parse script snippets list, got error: '' @ err))
                | Inr snippets \<Rightarrow>
                    (case find_by_name (ValueString (nd_Name data)) snippets of
                       None \<Rightarrow>
                         (sent, Failed ''Script Snippet Not Found''
                            (''Script snippet with name '' @ apostrophe @ ValueString (nd_Name data)
                               @ apostrophe @ '' not found''))
                     | Some snippet \<Rightarrow> (sent, Saved (ScriptSnippetDataSource_state data snippet))))))"

subsection \<open>Singular keystore data source\<close>

record KeyStoreDataSourceModel =
  kd_Id :: tf_int64
  kd_Name :: tf_string
  kd_Value :: tf_string

definition KeyStoreDataSource_state :: "KeyStoreDataSourceModel \<Rightarrow> jmap \<Rightarrow> KeyStoreDataSourceModel" where
  "KeyStoreDataSource_state data foundEntry =
     data\<lparr>kd_Id := int64_or (jget foundEntry ''id'') (kd_Id data),
          kd_Name := string_or (jget foundEntry ''name'') (kd_Name data),
          kd_Value := string_or (jget foundEntry ''value'') (kd_Value data)\<rparr>"

definition KeyStoreDataSource_Read :: "ClientConfig \<Rightarrow> world \<Rightarrow> KeyStoreDataSourceModel
    \<Rightarrow> request list \<times> KeyStoreDataSourceModel ending" where
  "KeyStoreDataSource_Read c w data =
     (if Int64_IsNull (kd_Id data) \<and> String_IsNull (kd_Name data) then
        ([], Failed ''Missing KeyStore Identifier''
               (''Either '' @ apostrophe @ ''id'' @ apostrophe @ '' or '' @ apostrophe @ ''name''
                  @ apostrophe @ '' must be specified to look up a keystore entry.''))
      else
        (case send c w ''GET'' (BaseURL c @ ''/core/keystore/'') None of
           (sent, Inl err) \<Rightarrow>
             (sent, Failed ''Client Error'' (''Unable to read keystore entries, got error: '' @ err))
         | (sent, Inr httpResp) \<Rightarrow>
             if StatusCode httpResp \<noteq> StatusOK then
               (sent, Failed ''Client Error''
                  (''Unable to read keystore entries, status code: '' @ fmt_d (StatusCode httpResp)))
             else
               (case DecodeList w (Body httpResp) of
                  Inl err \<Rightarrow>
                    (sent, Failed ''Client Error'' (''Unable to parse response, got error: '' @ err))
                | Inr entries \<Rightarrow>
                    if \<not> Int64_IsNull (kd_Id data) then
                      (case find_by_id (ValueInt64 (kd_Id data)) entries of
                         None \<Rightarrow>
                           (sent, Failed ''KeyStore Entry Not Found''
                              (''KeyStore entry with ID '' @ fmt_d (ValueInt64 (kd_Id data))
                                 @ '' not found''))
                       | Some foundEntry \<Rightarrow> (sent, Saved (KeyStoreDataSource_state data foundEntry)))
                    else
                      (case find_by_name (ValueString (kd_Name data)) entries of
                         None \<Rightarrow>
                           (sent, Failed ''KeyStore Entry Not Found''
                              (''KeyStore entry with name '' @ apostrophe @ ValueString (kd_Name data)
                                 @ apostrophe @ '' not found''))
                       | Some foundEntry \<Rightarrow>
                           (sent, Saved (KeyStoreDataSource_state data foundEntry))))))"

subsection \<open>Plural data sources\<close>

text \<open>
  The conversion of the filtered entries into models, one after the other; a panic in
  one conversion (\<open>None\<close>) ends the operation.
\<close>

fun convert_all :: "('a \<Rightarrow> 'b option) \<Rightarrow> 'a list \<Rightarrow> 'b list option" where
  "convert_all f [] = Some []"
| "convert_all f (x # xs) =
     (case f x of
        None \<Rightarrow> None
      | Some y \<Rightarrow> (case convert_all f xs of None \<Rightarrow> None | Some ys \<Rightarrow> Some (y # ys)))"

text \<open>
  The loop of a plural data source that appends the first entry with the wanted id and
  breaks.
\<close>

definition filter_by_id :: "int \<Rightarrow> jmap list \<Rightarrow> jmap list" where
  "filter_by_id targetId entries =
     (case find_by_id targetId entries of None \<Rightarrow> [] | Some entry \<Rightarrow> [entry])"

record ScriptModel =
  sm_Id :: tf_int64
  sm_Name :: tf_string
  sm_Description :: tf_string
  sm_Shell :: tf_string
  sm_ScriptType :: tf_string
  sm_Category :: tf_string
  sm_Filename :: tf_string
  sm_DefaultTimeout :: tf_int64
  sm_Favorite :: tf_bool
  sm_Hidden :: tf_bool
  sm_RunAsUser :: tf_bool
  sm_Args :: "string tf_list"
  sm_EnvVars :: "string tf_list"
  sm_SupportedPlatforms :: "string tf_list"
  sm_Syntax :: tf_string

record ScriptsDataSourceModel =
  ps_Id :: tf_int64
  ps_Name :: tf_string
  ps_ScriptType :: tf_string
  ps_Shell :: tf_string
  ps_Category :: tf_string
  ps_Hidden :: tf_bool
  ps_Scripts :: "ScriptModel tf_list"




text \<open>The body of the filter loop: the value of \<open>include\<close> for one script.\<close>

definition ScriptsDataSource_include :: "ScriptsDataSourceModel \<Rightarrow> jmap \<Rightarrow> bool" where
  "ScriptsDataSource_include data script =
     (let include = True;
          include = (if \<not> String_IsNull (ps_Name data) then
                       (if as_string (jget script ''name'') \<noteq> Some (ValueString (ps_Name data))
                        then False else include)
                     else include);
          include = (if include \<and> \<not> String_IsNull (ps_ScriptType data) then
                       (if as_string (jget script ''script_type'')
                             \<noteq> Some (ValueString (ps_ScriptType data))
                        then False else include)
                     else include);
          include = (if include \<and> \<not> String_IsNull (ps_Shell data) then
                       (if as_string (jget script ''shell'') \<noteq> Some (ValueString (ps_Shell data))
                        then False else include)
                     else include);
          include = (if include \<and> \<not> String_IsNull (ps_Category data) then
                       (if as_string (jget script ''category'') \<noteq> Some (ValueString (ps_Category data))
                        then False else include)
                     else include);
          include = (if include \<and> \<not> Bool_IsNull (ps_Hidden data) then
                       (if as_bool (jget script ''hidden'') \<noteq> Some (ValueBool (ps_Hidden data))
                        then False else include)
                     else include)
      in include)"

definition ScriptsDataSource_filter :: "ScriptsDataSourceModel \<Rightarrow> jmap list \<Rightarrow> jmap list" where
  "ScriptsDataSource_filter data scripts =
     (if \<not> Int64_IsNull (ps_Id data) then filter_by_id (ValueInt64 (ps_Id data)) scripts
      else filter (ScriptsDataSource_include data) scripts)"

definition ScriptsDataSource_model :: "jmap \<Rightarrow> ScriptModel option" where
  "ScriptsDataSource_model script =
     (case ds_list (jget script ''args'') of
        None \<Rightarrow> None
      | Some args \<Rightarrow>
     (case ds_list (jget script ''env_vars'') of
        None \<Rightarrow> None
      | Some envVars \<Rightarrow>
     (case ds_list (jget script ''supported_platforms'') of
        None \<Rightarrow> None
      | Some platforms \<Rightarrow>
          Some \<lparr>sm_Id = int64_or (jget script ''id'') Int64Null,
                sm_Name = string_or (jget script ''name'') StringNull,
                sm_Description = string_or (jget script ''description'') StringNull,
                sm_Shell = string_or (jget script ''shell'') StringNull,
                sm_ScriptType = string_or (jget script ''script_type'') StringNull,
                sm_Category = nonempty_string_or (jget script ''category'') StringNull,
                sm_Filename = nonempty_string_or (jget script ''filename'') StringNull,
                sm_DefaultTimeout = int64_or (jget script ''default_timeout'') Int64Null,
                sm_Favorite = bool_or (jget script ''favorite'') BoolNull,
                sm_Hidden = bool_or (jget script ''hidden'') BoolNull,
                sm_RunAsUser = bool_or (jget script ''run_as_user'') BoolNull,
                sm_Args = args, sm_EnvVars = envVars, sm_SupportedPlatforms = platforms,
                sm_Syntax = nonempty_string_or (jget script ''syntax'') StringNull\<rparr>)))"

definition ScriptsDataSource_Read :: "ClientConfig \<Rightarrow> world \<Rightarrow> ScriptsDataSourceModel
    \<Rightarrow> request list \<times> ScriptsDataSourceModel ending" where
  "ScriptsDataSource_Read c w data =
     (case send c w ''GET'' (BaseURL c @ ''/scripts/'') None of
        (sent, Inl err) \<Rightarrow>
          (sent, Failed ''Client Error'' (''Unable to list scripts, got error: '' @ err))
      | (sent, Inr httpResp) \<Rightarrow>
          if StatusCode httpResp \<noteq> StatusOK then
            (sent, Failed ''Client Error''
               (''Unable to list scripts, status code: '' @ fmt_d (StatusCode httpResp)))
          else
            (case DecodeList w (Body httpResp) of
               Inl err \<Rightarrow>
                 (sent, Failed ''Client Error'' (''Unable to parse scripts list, got error: '' @ err))
             | Inr scripts \<Rightarrow>
                 (case convert_all ScriptsDataSource_model (ScriptsDataSource_filter data scripts) of
                    None \<Rightarrow> (sent, Panic)
                  | Some scriptsList \<Rightarrow> (sent, Saved (data\<lparr>ps_Scripts := ListValue scriptsList\<rparr>)))))"

record ScriptSnippetModel =
  nm_Id :: tf_int64
  nm_Name :: tf_string
  nm_Desc :: tf_string
  nm_Code :: tf_string
  nm_Shell :: tf_string

record ScriptSnippetsDataSourceModel =
  pn_Id :: tf_int64
  pn_Name :: tf_string
  pn_Snippets :: "ScriptSnippetModel tf_list"

text \<open>
  The snippet and keystore plural data sources filter alike: by id, else by name, else
  not at all.
\<close>

definition filter_by_name :: "string \<Rightarrow> jmap list \<Rightarrow> jmap list" where
  "filter_by_name targetName entries =
     filter (\<lambda>entry. as_string (jget entry ''name'') = Some targetName) entries"

definition ScriptSnippetsDataSource_filter :: "ScriptSnippetsDataSourceModel \<Rightarrow> jmap list
    \<Rightarrow> jmap list" where
  "ScriptSnippetsDataSource_filter data snippets =
     (if \<not> Int64_IsNull (pn_Id data) then filter_by_id (ValueInt64 (pn_Id data)) snippets
      else if \<not> String_IsNull (pn_Name data) then filter_by_name (ValueString (pn_Name data)) snippets
      else snippets)"

definition ScriptSnippetsDataSource_model :: "jmap \<Rightarrow> ScriptSnippetModel" where
  "ScriptSnippetsDataSource_model snippet =
     \<lparr>nm_Id = int64_or (jget snippet ''id'') Int64Null,
      nm_Name = string_or (jget snippet ''name'') StringNull,
      nm_Desc = string_or (jget snippet ''desc'') StringNull,
      nm_Code = string_or (jget snippet ''code'') StringNull,
      nm_Shell = string_or (jget snippet ''shell'') StringNull\<rparr>"

definition ScriptSnippetsDataSource_Read :: "ClientConfig \<Rightarrow> world \<Rightarrow> ScriptSnippetsDataSourceModel
    \<Rightarrow> request list \<times> ScriptSnippetsDataSourceModel ending" where
  "ScriptSnippetsDataSource_Read c w data =
     (case send c w ''GET'' (BaseURL c @ ''/scripts/snippets/'') None of
        (sent, Inl err) \<Rightarrow>
          (sent, Failed ''Client Error'' (''Unable to list script snippets, got error: '' @ err))
      | (sent, Inr httpResp) \<Rightarrow>
          if StatusCode httpResp \<noteq> StatusOK then
            (sent, Failed ''Client Error''
               (''Unable to list script snippets, status code: '' @ fmt_d (StatusCode httpResp)))
          else
            (case DecodeList w (Body httpResp) of
               Inl err \<Rightarrow>
                 (sent, Failed ''Client Error''
                    (''Unable to parse script snippets list, got error: '' @ err))
             | Inr snippets \<Rightarrow>
                 (sent, Saved (data\<lparr>pn_Snippets :=
                    ListValue (map ScriptSnippetsDataSource_model
                                 (ScriptSnippetsDataSource_filter data snippets))\<rparr>))))"

record KeyStoreModel =
  km_Id :: tf_int64
  km_Name :: tf_string
  km_Value :: tf_string

record KeyStoresDataSourceModel =
  pk_Id :: tf_int64
  pk_Name :: tf_string
  pk_Keystores :: "KeyStoreModel tf_list"

definition KeyStoresDataSource_filter :: "KeyStoresDataSourceModel \<Rightarrow> jmap list \<Rightarrow> jmap list" where
  "KeyStoresDataSource_filter data entries =
     (if \<not> Int64_IsNull (pk_Id data) then filter_by_id (ValueInt64 (pk_Id data)) entries
      else if \<not> String_IsNull (pk_Name data) then filter_by_name (ValueString (pk_Name data)) entries
      else entries)"

definition KeyStoresDataSource_model :: "jmap \<Rightarrow> KeyStoreModel" where
  "KeyStoresDataSource_model entry =
     \<lparr>km_Id = int64_or (jget entry ''id'') Int64Null,
      km_Name = string_or (jget entry ''name'') StringNull,
      km_Value = string_or (jget entry ''value'') StringNull\<rparr>"

definition KeyStoresDataSource_Read :: "ClientConfig \<Rightarrow> world \<Rightarrow> KeyStoresDataSourceModel
    \<Rightarrow> request list \<times> KeyStoresDataSourceModel ending" where
  "KeyStoresDataSource_Read c w data =
     (case send c w ''GET'' (BaseURL c @ ''/core/keystore/'') None of
        (sent, Inl err) \<Rightarrow>
          (sent, Failed ''Client Error'' (''Unable to read keystore entries, got error: '' @ err))
      | (sent, Inr httpResp) \<Rightarrow>
          if StatusCode httpResp \<noteq> StatusOK then
            (sent, Failed ''Client Error''
               (''Unable to read keystore entries, status code: '' @ fmt_d (StatusCode httpResp)))
          else
            (case DecodeList w (Body httpResp) of
               Inl err \<Rightarrow>
                 (sent, Failed ''Client Error'' (''Unable to parse response, got error: '' @ err))
             | Inr entries \<Rightarrow>
                 (sent, Saved (data\<lparr>pk_Keystores :=
                    ListValue (map KeyStoresDataSource_model
                                 (KeyStoresDataSource_filter data entries))\<rparr>))))"

section \<open>Sequences of operations and example inputs\<close>

text \<open>
  The framework refreshes a resource by calling Read on the state the previous
  operation saved. \<open>ScriptResource_Reads\<close> is a run of successful Reads, each against
  the world of its moment; \<open>ScriptResource_Create_then_Reads\<close> starts the run from
  the state a successful Create saved.
\<close>

fun ScriptResource_Reads :: "ClientConfig \<Rightarrow> world list \<Rightarrow> ScriptResourceModel
    \<Rightarrow> ScriptResourceModel option" where
  "ScriptResource_Reads c [] s = Some s"
| "ScriptResource_Reads c (w # ws) s =
     (case snd (ScriptResource_Read c w s) of
        Saved s' \<Rightarrow> ScriptResource_Reads c ws s'
      | _ \<Rightarrow> None)"

definition ScriptResource_Create_then_Reads :: "ClientConfig \<Rightarrow> world \<Rightarrow> world list
    \<Rightarrow> ScriptResourceModel \<Rightarrow> ScriptResourceModel option" where
  "ScriptResource_Create_then_Reads c w ws plan =
     (case snd (ScriptResource_Create c w plan) of
        Saved s \<Rightarrow> ScriptResource_Reads c ws s
      | _ \<Rightarrow> None)"

text \<open>
  The test \<open>ok && len(xs) > 0\<close> on a decoded value.
\<close>

definition nonempty_array :: "json \<Rightarrow> bool" where
  "nonempty_array v = (case as_array v of Some xs \<Rightarrow> length xs > 0 | None \<Rightarrow> False)"

text \<open>
  The record an operation works from: the map \<open>result\<close> that Read decodes from the
  answer to its GET, and the map \<open>createdScript\<close> that Create finds in the listing.
  \<open>None\<close> when the operation returns before it has one.
\<close>

definition ScriptResource_Read_result :: "ClientConfig \<Rightarrow> world \<Rightarrow> ScriptResourceModel
    \<Rightarrow> jmap option" where
  "ScriptResource_Read_result c w data =
     (case send c w ''GET'' (ScriptResource_url c (ValueInt64 (sr_Id data))) None of
        (sent, Inl err) \<Rightarrow> None
      | (sent, Inr httpResp) \<Rightarrow>
          if StatusCode httpResp = StatusNotFound then None
          else if StatusCode httpResp \<noteq> StatusOK then None
          else (case DecodeObject w (Body httpResp) of
                  Inl err \<Rightarrow> None
                | Inr result \<Rightarrow> Some result))"

definition ScriptResource_Create_found :: "ClientConfig \<Rightarrow> world \<Rightarrow> ScriptResourceModel
    \<Rightarrow> jmap option" where
  "ScriptResource_Create_found c w data =
     (case send c w ''POST'' (BaseURL c @ ''/scripts/'') (Some (ScriptResource_Create_body data)) of
        (sent, Inl err) \<Rightarrow> None
      | (sent, Inr httpResp) \<Rightarrow>
          if StatusCode httpResp \<noteq> StatusOK then None
          else
            (case send c w ''GET'' (BaseURL c @ ''/scripts/'') None of
               (sent2, Inl err) \<Rightarrow> None
             | (sent2, Inr listResp) \<Rightarrow>
                 (case DecodeList w (Body listResp) of
                    Inl err \<Rightarrow> None
                  | Inr scripts \<Rightarrow> find_by_name (ValueString (sr_Name data)) scripts)))"

text \<open>
  The records read along a run of successful Reads, in the order of the Reads, and
  the same for a run that starts from the state a successful Create saved.
\<close>

fun ScriptResource_Reads_results :: "ClientConfig \<Rightarrow> world list \<Rightarrow> ScriptResourceModel
    \<Rightarrow> jmap list" where
  "ScriptResource_Reads_results c [] s = []"
| "ScriptResource_Reads_results c (w # ws) s =
     (case snd (ScriptResource_Read c w s) of
        Saved s' \<Rightarrow>
          (case ScriptResource_Read_result c w s of None \<Rightarrow> [] | Some result \<Rightarrow> [result])
            @ ScriptResource_Reads_results c ws s'
      | _ \<Rightarrow> [])"

definition ScriptResource_Create_then_Reads_results :: "ClientConfig \<Rightarrow> world \<Rightarrow> world list
    \<Rightarrow> ScriptResourceModel \<Rightarrow> jmap list" where
  "ScriptResource_Create_then_Reads_results c w ws plan =
     (case snd (ScriptResource_Create c w plan) of
        Saved s \<Rightarrow> ScriptResource_Reads_results c ws s
      | _ \<Rightarrow> [])"

text \<open>
  The list attribute of the script model that belongs to a JSON key: \<open>args\<close>,
  \<open>env_vars\<close> or \<open>supported_platforms\<close>.
\<close>

definition list_field :: "string \<Rightarrow> ScriptResourceModel \<Rightarrow> string tf_list" where
  "list_field k d =
     (if k = ''args'' then sr_Args d
      else if k = ''env_vars'' then sr_EnvVars d
      else sr_SupportedPlatforms d)"

subsection \<open>Example inputs\<close>

definition ex_client :: ClientConfig where
  "ex_client = \<lparr>BaseURL = ''https://rmm.example.com'', APIKey = ''secret''\<rparr>"

text \<open>
  A plan for a script named \<open>X\<close> with the given lists, and a world whose server
  holds that script under id 7 with the given \<open>args\<close> and answers every request
  with status 200.
\<close>

definition ex_plan :: "string tf_list \<Rightarrow> string tf_list \<Rightarrow> string tf_list \<Rightarrow> ScriptResourceModel" where
  "ex_plan args envVars platforms =
     \<lparr>sr_Id = Int64Unknown, sr_Name = StringValue ''X'', sr_Description = StringNull,
      sr_Shell = StringValue ''powershell'', sr_ScriptType = StringUnknown,
      sr_Category = StringNull, sr_ScriptBody = StringValue ''Write-Output 1'',
      sr_DefaultTimeout = Int64Unknown, sr_Favorite = BoolUnknown, sr_Hidden = BoolUnknown,
      sr_RunAsUser = BoolUnknown, sr_Args = args, sr_EnvVars = envVars,
      sr_SupportedPlatforms = platforms, sr_Syntax = StringNull\<rparr>"

definition ex_script :: "json \<Rightarrow> jmap" where
  "ex_script args =
     [(''id'', JNum 7), (''name'', JStr ''X''), (''shell'', JStr ''powershell''),
      (''script_type'', JStr ''userdefined''), (''script_body'', JStr ''Write-Output 1''),
      (''default_timeout'', JNum 90), (''favorite'', JBool False), (''hidden'', JBool False),
      (''run_as_user'', JBool False), (''args'', args), (''env_vars'', JArr []),
      (''supported_platforms'', JArr [])]"

definition ex_world :: "json \<Rightarrow> world" where
  "ex_world args =
     \<lparr>NewRequest_error = (\<lambda>m url. None),
      HTTPClient_Do = (\<lambda>req. Inr \<lparr>StatusCode = 200, Body = ''ok''\<rparr>),
      DecodeObject = (\<lambda>b. Inr (ex_script args)),
      DecodeList = (\<lambda>b. Inr [ex_script args])\<rparr>"

text \<open>
  A world that answers every request with the given status and body text, and whose
  decoder yields the example script.
\<close>

definition ex_world_status :: "int \<Rightarrow> string \<Rightarrow> world" where
  "ex_world_status st txt =
     \<lparr>NewRequest_error = (\<lambda>m url. None),
      HTTPClient_Do = (\<lambda>req. Inr \<lparr>StatusCode = st, Body = txt\<rparr>),
      DecodeObject = (\<lambda>b. Inr (ex_script (JArr []))),
      DecodeList = (\<lambda>b. Inr [ex_script (JArr [])])\<rparr>"

definition ex_state :: ScriptResourceModel where
  "ex_state = (ex_plan ListNull ListNull ListNull)\<lparr>sr_Id := Int64Value 7\<rparr>"

definition ex_key :: KeyStoreResourceModel where
  "ex_key = \<lparr>kr_Id = Int64Value 3, kr_Name = StringValue ''k'', kr_Value = StringValue ''v''\<rparr>"

text \<open>Whether a text occurs inside a message, as \<open>strings.Contains\<close> decides it.\<close>

fun starts_with :: "string \<Rightarrow> string \<Rightarrow> bool" where
  "starts_with s [] = True"
| "starts_with [] (p # ps) = False"
| "starts_with (x # xs) (p # ps) = (x = p \<and> starts_with xs ps)"

fun includes_text :: "string \<Rightarrow> string \<Rightarrow> bool" where
  "includes_text [] sub = (sub = [])"
| "includes_text (x # xs) sub = (starts_with (x # xs) sub \<or> includes_text xs sub)"

text \<open>
  A numeric identifier: an optional sign followed by one or more decimal digits.
\<close>

definition decimal_digits :: "string \<Rightarrow> bool" where
  "decimal_digits s = (s \<noteq> [] \<and> list_all (\<lambda>ch. ch \<in> set ''0123456789'') s)"

definition numeric :: "string \<Rightarrow> bool" where
  "numeric s =
     (decimal_digits s \<or>
      (s \<noteq> [] \<and> (hd s = CHR ''+'' \<or> hd s = CHR ''-'') \<and> decimal_digits (tl s)))"

text \<open>A query of the singular script data source with the given \<open>id\<close> and \<open>name\<close>.\<close>

definition ex_query :: "tf_int64 \<Rightarrow> tf_string \<Rightarrow> ScriptDataSourceModel" where
  "ex_query i n =
     \<lparr>sd_Id = i, sd_Name = n, sd_Description = StringNull, sd_Shell = StringNull,
      sd_ScriptType = StringNull, sd_Category = StringNull, sd_Filename = StringNull,
      sd_ScriptBody = StringNull, sd_ScriptHash = StringNull, sd_DefaultTimeout = Int64Null,
      sd_Favorite = BoolNull, sd_Hidden = BoolNull, sd_RunAsUser = BoolNull, sd_Args = ListNull,
      sd_EnvVars = ListNull, sd_SupportedPlatforms = ListNull, sd_Syntax = StringNull\<rparr>"

text \<open>A world whose keystore listing holds the entries 3 (\<open>k\<close>) and 4 (\<open>other\<close>).\<close>

definition ex_entries :: "jmap list" where
  "ex_entries =
     [[(''id'', JNum 3), (''name'', JStr ''k''), (''value'', JStr ''v'')],
      [(''id'', JNum 4), (''name'', JStr ''other''), (''value'', JStr ''w'')]]"

definition ex_keystore_world :: world where
  "ex_keystore_world =
     \<lparr>NewRequest_error = (\<lambda>m url. None),
      HTTPClient_Do = (\<lambda>req. Inr \<lparr>StatusCode = 200, Body = ''ok''\<rparr>),
      DecodeObject = (\<lambda>b. Inl ''unexpected''),
      DecodeList = (\<lambda>b. Inr ex_entries)\<rparr>"

text \<open>
  Three scripts as the list endpoint reports them, a world that lists them, and a
  query of the plural scripts data source with the given filters.
\<close>

definition ex_scripts :: "jmap list" where
  "ex_scripts =
     [[(''id'', JNum 1), (''name'', JStr ''Backup''), (''shell'', JStr ''powershell''),
       (''script_type'', JStr ''userdefined''), (''category'', JStr ''Maint''),
       (''hidden'', JBool False), (''favorite'', JBool True),
       (''supported_platforms'', JArr [JStr ''windows''])],
      [(''id'', JNum 2), (''name'', JStr ''Backup''), (''shell'', JStr ''powershell''),
       (''script_type'', JStr ''userdefined''), (''category'', JStr ''Maint''),
       (''hidden'', JBool False), (''favorite'', JBool False),
       (''supported_platforms'', JArr [JStr ''linux''])],
      [(''id'', JNum 3), (''name'', JStr ''Report''), (''shell'', JStr ''python''),
       (''script_type'', JStr ''builtin''), (''category'', JStr ''Other''),
       (''hidden'', JBool True), (''favorite'', JBool False),
       (''supported_platforms'', JArr [])]]"

definition ex_scripts_world :: world where
  "ex_scripts_world =
     \<lparr>NewRequest_error = (\<lambda>m url. None),
      HTTPClient_Do = (\<lambda>req. Inr \<lparr>StatusCode = 200, Body = ''ok''\<rparr>),
      DecodeObject = (\<lambda>b. Inl ''unexpected''),
      DecodeList = (\<lambda>b. Inr ex_scripts)\<rparr>"

definition ex_filter :: "tf_int64 \<Rightarrow> tf_string \<Rightarrow> tf_string \<Rightarrow> tf_string \<Rightarrow> tf_string \<Rightarrow> tf_bool
    \<Rightarrow> ScriptsDataSourceModel" where
  "ex_filter i n t sh cat hid =
     \<lparr>ps_Id = i, ps_Name = n, ps_ScriptType = t, ps_Shell = sh, ps_Category = cat,
      ps_Hidden = hid, ps_Scripts = ListNull\<rparr>"

section \<open>Properties\<close>

subsection \<open>Provider configuration\<close>

lemma Configure_missing_key:
  "ValueString (pm_APIKey (Config req)) = []
     \<Longrightarrow> trmmProvider_Configure req = ConfigureError ''Missing API Key'' Missing_API_Key_detail"
  by (simp add: trmmProvider_Configure_def Let_def)

lemma Configure_default_endpoint:
  "ValueString (pm_APIKey (Config req)) \<noteq> [] \<Longrightarrow> ValueString (pm_Endpoint (Config req)) = []
     \<Longrightarrow> trmmProvider_Configure req
         = ConfigureData \<lparr>BaseURL = ''https://api.tactical-rmm.com'',
                           APIKey = ValueString (pm_APIKey (Config req))\<rparr>"
  by (simp add: trmmProvider_Configure_def Let_def)

lemma Configure_environment_unused:
  "trmmProvider_Configure (req\<lparr>Environ := e\<rparr>) = trmmProvider_Configure req"
  by (simp add: trmmProvider_Configure_def Let_def)

text \<open>
  C2. The schema description, the comment in \<open>Configure\<close> and the error text all
  say that the API key and the endpoint can come from the environment variables
  \<open>TRMM_API_KEY\<close> and \<open>TRMM_ENDPOINT\<close>. \<open>Configure\<close> never reads the environment:
  with no \<open>api_key\<close> in the configuration block and both variables set, it reports
  the missing-key error and hands out no client.
\<close>

theorem Configure_ignores_environment:
  "trmmProvider_Configure
     \<lparr>Config = \<lparr>pm_Endpoint = StringNull, pm_APIKey = StringNull\<rparr>,
      Environ = [''TRMM_ENDPOINT'' \<mapsto> ''https://rmm.example.com'',
                 ''TRMM_API_KEY'' \<mapsto> ''secret'']\<rparr>
   = ConfigureError ''Missing API Key'' Missing_API_Key_detail"
  by (simp add: trmmProvider_Configure_def)

subsection \<open>Auxiliary facts\<close>

lemma let_inv: "P a \<Longrightarrow> (\<And>x. P x \<Longrightarrow> P (f x)) \<Longrightarrow> P (Let a f)"
  by simp

lemma string_elements_length: "string_elements xs = Some ss \<Longrightarrow> length ss = length xs"
  by (induction xs arbitrary: ss) (auto split: option.splits)

lemma find_by_name_mem: "find_by_name n ms = Some m \<Longrightarrow> m \<in> set ms"
  by (induction ms) (auto split: if_splits)

lemmas ex_eval = ScriptResource_Create_then_Reads_def ScriptResource_Create_def
  ScriptResource_Read_def send_def NewRequest_def ClientConfig_Do_def ex_world_def ex_client_def
  ex_plan_def ex_script_def StatusOK_def StatusNotFound_def ScriptResource_Create_state_def
  ScriptResource_Create_computed_def ScriptResource_Read_state_def ScriptResource_Read_scalars_def
  jget_def created_list_def read_list_def Header_Set_def ScriptResource_url_def jset_def keys_def

subsection \<open>The three lists of a script through Create and Read\<close>

lemma created_list_null: "created_list True v old = Some old"
  by (simp add: created_list_def)

lemma created_list_not_null: "created_list False v old = Some l \<Longrightarrow> l \<noteq> ListNull"
  by (auto simp: created_list_def split: option.splits)

lemma created_list_quiet:
  "created_list False v old = Some l \<Longrightarrow> \<not> nonempty_array v \<Longrightarrow> l = ListValue []"
  by (auto simp: created_list_def nonempty_array_def split: option.splits)

lemma read_list_cases:
  "read_list v old = Some l \<Longrightarrow> l = old \<or> (\<exists>ss. ss \<noteq> [] \<and> l = ListValue ss)"
  by (auto simp: read_list_def split: option.splits if_splits dest: string_elements_length)

lemma read_list_quiet: "\<not> nonempty_array v \<Longrightarrow> read_list v old = Some old"
  by (auto simp: read_list_def nonempty_array_def split: option.splits)

lemma Create_computed_lists:
  "sr_Args (ScriptResource_Create_computed data cs) = sr_Args data \<and>
   sr_EnvVars (ScriptResource_Create_computed data cs) = sr_EnvVars data \<and>
   sr_SupportedPlatforms (ScriptResource_Create_computed data cs) = sr_SupportedPlatforms data"
  unfolding ScriptResource_Create_computed_def
  by (intro let_inv [where P = "\<lambda>d. sr_Args d = sr_Args data \<and> sr_EnvVars d = sr_EnvVars data
        \<and> sr_SupportedPlatforms d = sr_SupportedPlatforms data"])
     (simp_all split: option.splits)

lemma Read_scalars_lists:
  "sr_Args (ScriptResource_Read_scalars data cs) = sr_Args data \<and>
   sr_EnvVars (ScriptResource_Read_scalars data cs) = sr_EnvVars data \<and>
   sr_SupportedPlatforms (ScriptResource_Read_scalars data cs) = sr_SupportedPlatforms data"
  unfolding ScriptResource_Read_scalars_def
  by (intro let_inv [where P = "\<lambda>d. sr_Args d = sr_Args data \<and> sr_EnvVars d = sr_EnvVars data
        \<and> sr_SupportedPlatforms d = sr_SupportedPlatforms data"])
     (simp_all split: option.splits)

lemma Create_state_lists:
  assumes "ScriptResource_Create_state data cs = Some d"
  shows "created_list (List_IsNull (sr_Args data)) (jget cs ''args'') (sr_Args data) = Some (sr_Args d)
    \<and> created_list (List_IsNull (sr_EnvVars data)) (jget cs ''env_vars'') (sr_EnvVars data)
        = Some (sr_EnvVars d)
    \<and> created_list (List_IsNull (sr_SupportedPlatforms data)) (jget cs ''supported_platforms'')
        (sr_SupportedPlatforms data) = Some (sr_SupportedPlatforms d)"
  using assms Create_computed_lists [of data cs]
  by (auto simp: ScriptResource_Create_state_def Let_def split: option.splits)

lemma Read_state_lists:
  assumes "ScriptResource_Read_state data r = Some d"
  shows "read_list (jget r ''args'') (sr_Args data) = Some (sr_Args d)
    \<and> read_list (jget r ''env_vars'') (sr_EnvVars data) = Some (sr_EnvVars d)
    \<and> read_list (jget r ''supported_platforms'') (sr_SupportedPlatforms data)
        = Some (sr_SupportedPlatforms d)"
  using assms Read_scalars_lists [of data r]
  by (auto simp: ScriptResource_Read_state_def Let_def split: option.splits)

lemma Read_Saved_result:
  assumes "snd (ScriptResource_Read c w data) = Saved s"
  shows "\<exists>r. ScriptResource_Read_result c w data = Some r \<and> ScriptResource_Read_state data r = Some s"
  using assms
  by (auto simp: ScriptResource_Read_def ScriptResource_Read_result_def
           split: prod.splits sum.splits if_splits option.splits)

lemma Create_Saved_found:
  assumes "snd (ScriptResource_Create c w plan) = Saved s"
  shows "\<exists>cs. ScriptResource_Create_found c w plan = Some cs
           \<and> ScriptResource_Create_state plan cs = Some s"
  using assms
  by (auto simp: ScriptResource_Create_def ScriptResource_Create_found_def
           split: prod.splits sum.splits if_splits option.splits)

lemma list_field_read:
  "ScriptResource_Read_state d r = Some s \<Longrightarrow> k \<in> {''args'', ''env_vars'', ''supported_platforms''}
     \<Longrightarrow> read_list (jget r k) (list_field k d) = Some (list_field k s)"
  using Read_state_lists [of d r s] by (auto simp: list_field_def)

lemma list_field_created:
  "ScriptResource_Create_state plan cs = Some s
     \<Longrightarrow> k \<in> {''args'', ''env_vars'', ''supported_platforms''}
     \<Longrightarrow> created_list (List_IsNull (list_field k plan)) (jget cs k) (list_field k plan)
           = Some (list_field k s)"
  using Create_state_lists [of plan cs s] by (auto simp: list_field_def)

lemma read_list_nonempty:
  "read_list v old = Some l \<Longrightarrow> as_array v = Some xs \<Longrightarrow> xs \<noteq> []
     \<Longrightarrow> map_option ListValue (string_elements xs) = Some l"
  by (simp add: read_list_def)

lemma created_list_array:
  "created_list False v old = Some l \<Longrightarrow> as_array v = Some xs
     \<Longrightarrow> map_option ListValue (string_elements xs) = Some l"
  by (simp add: created_list_def)

text \<open>
  One list attribute along a run of Reads: a Read keeps the list or replaces it by a
  non-empty one, and keeps it when the record it read holds no non-empty array.
\<close>

lemma Read_step_list:
  assumes "snd (ScriptResource_Read c w d) = Saved s"
    and "k \<in> {''args'', ''env_vars'', ''supported_platforms''}"
  shows "\<exists>r. ScriptResource_Read_result c w d = Some r
           \<and> read_list (jget r k) (list_field k d) = Some (list_field k s)"
  using Read_Saved_result [OF assms(1)] list_field_read [OF _ assms(2)] by blast

lemma Reads_results_length:
  "ScriptResource_Reads c ws s0 = Some s \<Longrightarrow> length (ScriptResource_Reads_results c ws s0) = length ws"
proof (induction ws arbitrary: s0)
  case Nil
  then show ?case by simp
next
  case (Cons w ws)
  from Cons.prems obtain s1 where s1: "snd (ScriptResource_Read c w s0) = Saved s1"
    and rest: "ScriptResource_Reads c ws s1 = Some s"
    by (auto split: ending.splits)
  from Read_Saved_result [OF s1] obtain r where "ScriptResource_Read_result c w s0 = Some r"
    by blast
  with s1 Cons.IH [OF rest] show ?case by simp
qed

lemma Reads_list_field:
  assumes k: "k \<in> {''args'', ''env_vars'', ''supported_platforms''}"
    and run: "ScriptResource_Reads c ws s0 = Some s"
  shows "(list_field k s0 \<noteq> ListValue [] \<longrightarrow> list_field k s \<noteq> ListValue [])
       \<and> (list_field k s0 \<noteq> ListNull \<longrightarrow> list_field k s \<noteq> ListNull)
       \<and> ((\<forall>r \<in> set (ScriptResource_Reads_results c ws s0). \<not> nonempty_array (jget r k))
            \<longrightarrow> list_field k s = list_field k s0)"
  using run
proof (induction ws arbitrary: s0)
  case Nil
  then show ?case by simp
next
  case (Cons w ws)
  from Cons.prems obtain s1 where s1: "snd (ScriptResource_Read c w s0) = Saved s1"
    and rest: "ScriptResource_Reads c ws s1 = Some s"
    by (auto split: ending.splits)
  from Read_step_list [OF s1 k] obtain r where res: "ScriptResource_Read_result c w s0 = Some r"
    and rl: "read_list (jget r k) (list_field k s0) = Some (list_field k s1)" by blast
  have results: "ScriptResource_Reads_results c (w # ws) s0 = r # ScriptResource_Reads_results c ws s1"
    using s1 res by simp
  from read_list_cases [OF rl]
  have a: "list_field k s0 \<noteq> ListValue [] \<longrightarrow> list_field k s1 \<noteq> ListValue []"
    and b: "list_field k s0 \<noteq> ListNull \<longrightarrow> list_field k s1 \<noteq> ListNull" by auto
  have q: "\<not> nonempty_array (jget r k) \<longrightarrow> list_field k s1 = list_field k s0"
    using rl read_list_quiet [of "jget r k" "list_field k s0"] by auto
  from Cons.IH [OF rest] a b q show ?case unfolding results by auto
qed

text \<open>
  C1, as stated, fails: the plan omits \<open>args\<close>, Create saves \<open>args\<close> as null, and a
  later successful Read against a server whose record carries \<open>args = ["-Verbose"]\<close>
  saves that list, not null.
\<close>

theorem Script_list_null_counterexample:
  "sr_Args (ex_plan ListNull ListNull ListNull) = ListNull \<and>
   map_option sr_Args
     (ScriptResource_Create_then_Reads ex_client (ex_world (JArr []))
        [ex_world (JArr [JStr ''-Verbose''])] (ex_plan ListNull ListNull ListNull))
   = Some (ListValue [''-Verbose''])"
  by (simp add: ex_eval)

text \<open>
  C1, amended. Let \<open>k\<close> be one of \<open>args\<close>, \<open>env_vars\<close> and \<open>supported_platforms\<close>, and
  let a Create succeed and be followed by any run of successful Reads, ending in the
  state \<open>s\<close> (the run may be empty: then \<open>s\<close> is the state Create saved). Each Read of
  the run reads one record. If the plan's list was null, the list in \<open>s\<close> is never an
  empty list, and it is null when no record read in the run carries a non-empty array
  under \<open>k\<close>. If the plan's list was an empty list, the list in \<open>s\<close> is never null, and
  it is the empty list when neither the record Create found nor a record read in the
  run carries a non-empty array under \<open>k\<close>. Step by step: a Create whose plan's list
  is not null saves the array of the record it found; a Read that reads a non-empty
  array saves that array; a Read that reads none keeps the list it started from.
\<close>

theorem Script_list_reconciliation:
  assumes "k \<in> {''args'', ''env_vars'', ''supported_platforms''}"
    and "ScriptResource_Create_then_Reads c w ws plan = Some s"
  shows "length (ScriptResource_Create_then_Reads_results c w ws plan) = length ws
     \<and> (list_field k plan = ListNull \<longrightarrow>
          list_field k s \<noteq> ListValue []
          \<and> ((\<forall>r \<in> set (ScriptResource_Create_then_Reads_results c w ws plan).
                 \<not> nonempty_array (jget r k))
               \<longrightarrow> list_field k s = ListNull))
     \<and> (list_field k plan = ListValue [] \<longrightarrow>
          list_field k s \<noteq> ListNull
          \<and> ((\<forall>cs. ScriptResource_Create_found c w plan = Some cs \<longrightarrow> \<not> nonempty_array (jget cs k))
               \<and> (\<forall>r \<in> set (ScriptResource_Create_then_Reads_results c w ws plan).
                     \<not> nonempty_array (jget r k))
               \<longrightarrow> list_field k s = ListValue []))
     \<and> (\<forall>s0 cs xs.
           list_field k plan \<noteq> ListNull \<and> snd (ScriptResource_Create c w plan) = Saved s0
           \<and> ScriptResource_Create_found c w plan = Some cs \<and> as_array (jget cs k) = Some xs
           \<longrightarrow> map_option ListValue (string_elements xs) = Some (list_field k s0))
     \<and> (\<forall>w' d s' r xs.
           snd (ScriptResource_Read c w' d) = Saved s' \<and> ScriptResource_Read_result c w' d = Some r
           \<and> as_array (jget r k) = Some xs \<and> xs \<noteq> []
           \<longrightarrow> map_option ListValue (string_elements xs) = Some (list_field k s'))
     \<and> (\<forall>w' d s' r.
           snd (ScriptResource_Read c w' d) = Saved s' \<and> ScriptResource_Read_result c w' d = Some r
           \<and> \<not> nonempty_array (jget r k)
           \<longrightarrow> list_field k s' = list_field k d)"
proof -
  note k = assms(1)
  from assms(2) obtain s0 where s0: "snd (ScriptResource_Create c w plan) = Saved s0"
    and rest: "ScriptResource_Reads c ws s0 = Some s"
    by (auto simp: ScriptResource_Create_then_Reads_def split: ending.splits)
  have results: "ScriptResource_Create_then_Reads_results c w ws plan
      = ScriptResource_Reads_results c ws s0"
    using s0 by (simp add: ScriptResource_Create_then_Reads_results_def)
  from Create_Saved_found [OF s0] obtain cs where cs: "ScriptResource_Create_found c w plan = Some cs"
    and st: "ScriptResource_Create_state plan cs = Some s0" by blast
  note cl = list_field_created [OF st k]
  have c1: "list_field k plan = ListNull \<longrightarrow> list_field k s0 = ListNull"
    using cl by (auto simp: created_list_null)
  have c2: "list_field k plan = ListValue [] \<longrightarrow> list_field k s0 \<noteq> ListNull"
    using cl created_list_not_null [of "jget cs k" "list_field k plan" "list_field k s0"] by auto
  have c3: "list_field k plan = ListValue [] \<longrightarrow> \<not> nonempty_array (jget cs k)
      \<longrightarrow> list_field k s0 = ListValue []"
    using cl created_list_quiet [of "jget cs k" "list_field k plan" "list_field k s0"] by auto
  note run = Reads_list_field [OF k rest]
  have p0: "length (ScriptResource_Create_then_Reads_results c w ws plan) = length ws"
    unfolding results by (rule Reads_results_length [OF rest])
  have p1: "list_field k plan = ListNull \<longrightarrow>
          list_field k s \<noteq> ListValue []
          \<and> ((\<forall>r \<in> set (ScriptResource_Create_then_Reads_results c w ws plan).
                 \<not> nonempty_array (jget r k))
               \<longrightarrow> list_field k s = ListNull)"
    unfolding results using c1 run by auto
  have p2: "list_field k plan = ListValue [] \<longrightarrow>
          list_field k s \<noteq> ListNull
          \<and> ((\<forall>cs. ScriptResource_Create_found c w plan = Some cs \<longrightarrow> \<not> nonempty_array (jget cs k))
               \<and> (\<forall>r \<in> set (ScriptResource_Create_then_Reads_results c w ws plan).
                     \<not> nonempty_array (jget r k))
               \<longrightarrow> list_field k s = ListValue [])"
    unfolding results using c2 c3 cs run by auto
  have p3: "\<forall>s0 cs xs.
           list_field k plan \<noteq> ListNull \<and> snd (ScriptResource_Create c w plan) = Saved s0
           \<and> ScriptResource_Create_found c w plan = Some cs \<and> as_array (jget cs k) = Some xs
           \<longrightarrow> map_option ListValue (string_elements xs) = Some (list_field k s0)"
  proof (intro allI impI)
    fix t0 ct xs
    assume h: "list_field k plan \<noteq> ListNull \<and> snd (ScriptResource_Create c w plan) = Saved t0
           \<and> ScriptResource_Create_found c w plan = Some ct \<and> as_array (jget ct k) = Some xs"
    with Create_Saved_found [of c w plan t0]
    have "ScriptResource_Create_state plan ct = Some t0" by auto
    from list_field_created [OF this k] h
    have "created_list False (jget ct k) (list_field k plan) = Some (list_field k t0)"
      by (cases "list_field k plan") auto
    from created_list_array [OF this] h
    show "map_option ListValue (string_elements xs) = Some (list_field k t0)" by blast
  qed
  have p4: "\<forall>w' d s' r xs.
           snd (ScriptResource_Read c w' d) = Saved s' \<and> ScriptResource_Read_result c w' d = Some r
           \<and> as_array (jget r k) = Some xs \<and> xs \<noteq> []
           \<longrightarrow> map_option ListValue (string_elements xs) = Some (list_field k s')"
  proof (intro allI impI)
    fix w' d s' r xs
    assume h: "snd (ScriptResource_Read c w' d) = Saved s' \<and> ScriptResource_Read_result c w' d = Some r
           \<and> as_array (jget r k) = Some xs \<and> xs \<noteq> []"
    with Read_step_list [of c w' d s' k] k
    have "read_list (jget r k) (list_field k d) = Some (list_field k s')" by auto
    from read_list_nonempty [OF this] h
    show "map_option ListValue (string_elements xs) = Some (list_field k s')" by blast
  qed
  have p5: "\<forall>w' d s' r.
           snd (ScriptResource_Read c w' d) = Saved s' \<and> ScriptResource_Read_result c w' d = Some r
           \<and> \<not> nonempty_array (jget r k)
           \<longrightarrow> list_field k s' = list_field k d"
  proof (intro allI impI)
    fix w' d s' r
    assume h: "snd (ScriptResource_Read c w' d) = Saved s' \<and> ScriptResource_Read_result c w' d = Some r
           \<and> \<not> nonempty_array (jget r k)"
    with Read_step_list [of c w' d s' k] k
    have "read_list (jget r k) (list_field k d) = Some (list_field k s')" by auto
    with h read_list_quiet [of "jget r k" "list_field k d"]
    show "list_field k s' = list_field k d" by auto
  qed
  from p0 p1 p2 p3 p4 p5 show ?thesis by blast
qed

lemmas run_eval = ScriptResource_Create_then_Reads_results_def ScriptResource_Read_result_def
  ScriptResource_Create_found_def ScriptResource_Create_body_def nonempty_array_def list_field_def
  ex_state_def ex_eval

theorem Script_list_reconciliation_witness:
  "map_option sr_Args
     (ScriptResource_Create_then_Reads ex_client (ex_world (JArr []))
        [ex_world (JArr []), ex_world (JArr [])] (ex_plan ListNull (ListValue []) ListNull))
   = Some ListNull
   \<and> map_option sr_EnvVars
     (ScriptResource_Create_then_Reads ex_client (ex_world (JArr []))
        [ex_world (JArr []), ex_world (JArr [])] (ex_plan ListNull (ListValue []) ListNull))
   = Some (ListValue [])
   \<and> (\<exists>s'. snd (ScriptResource_Read ex_client (ex_world (JArr [JStr ''-Verbose''])) ex_state) = Saved s'
          \<and> sr_Args s' = ListValue [''-Verbose''])"
proof -
  let ?w = "ex_world (JArr [])"
  let ?ws = "[ex_world (JArr []), ex_world (JArr [])]"
  let ?plan = "ex_plan ListNull (ListValue []) ListNull"
  let ?v = "ex_world (JArr [JStr ''-Verbose''])"
  obtain s where s: "ScriptResource_Create_then_Reads ex_client ?w ?ws ?plan = Some s"
    by (simp add: ex_eval)
  have p: "list_field ''args'' ?plan = ListNull" "list_field ''env_vars'' ?plan = ListValue []"
    by (simp_all add: ex_plan_def list_field_def)
  have q: "\<forall>r \<in> set (ScriptResource_Create_then_Reads_results ex_client ?w ?ws ?plan).
             \<not> nonempty_array (jget r k)" for k
    by (simp add: run_eval)
  have f: "\<forall>cs. ScriptResource_Create_found ex_client ?w ?plan = Some cs
             \<longrightarrow> \<not> nonempty_array (jget cs k)" for k
    by (simp add: run_eval)
  have a: "list_field ''args'' s = ListNull"
    using Script_list_reconciliation [of "''args''" ex_client ?w ?ws ?plan s] s p q by simp
  have e: "list_field ''env_vars'' s = ListValue []"
    using Script_list_reconciliation [of "''env_vars''" ex_client ?w ?ws ?plan s] s p q f by simp
  obtain s' where s': "snd (ScriptResource_Read ex_client ?v ex_state) = Saved s'"
    by (simp add: run_eval)
  have r: "ScriptResource_Read_result ex_client ?v ex_state = Some (ex_script (JArr [JStr ''-Verbose'']))"
    by (simp add: run_eval)
  have x: "as_array (jget (ex_script (JArr [JStr ''-Verbose''])) ''args'') = Some [JStr ''-Verbose'']"
    by (simp add: ex_script_def jget_def)
  have "map_option ListValue (string_elements [JStr ''-Verbose'']) = Some (list_field ''args'' s')"
    using Script_list_reconciliation [of "''args''" ex_client ?w ?ws ?plan s] s s' r x by blast
  then have v: "sr_Args s' = ListValue [''-Verbose'']"
    by (simp add: list_field_def)
  from a e v s s' show ?thesis
    by (auto simp: list_field_def)
qed

subsection \<open>Requests and their bodies\<close>

lemma jget_jset: "jget (jset k v m) k' = (if k' = k then v else jget m k')"
  by (simp add: jget_def jset_def)

lemma keys_jset: "keys (jset k v m) = insert k (keys m)"
  by (simp add: keys_def jset_def)

lemma send_cases:
  "send c w m url body = (sent, r) \<Longrightarrow>
     (sent = [] \<and> (\<exists>e. r = Inl e \<and> NewRequest_error w m url = Some e)) \<or>
     (NewRequest_error w m url = None
        \<and> (\<exists>h. sent = [\<lparr>Method = m, URL = url, Header = h, ReqBody = body\<rparr>]))"
  by (auto simp: send_def NewRequest_def ClientConfig_Do_def Let_def split: option.splits)

lemma Create_body_script_type:
  "jget (ScriptResource_Create_body data) ''script_type'' = JStr ''userdefined''"
  unfolding ScriptResource_Create_body_def
  by (intro let_inv [where P = "\<lambda>b. jget b ''script_type'' = JStr ''userdefined''"])
     (simp_all add: jget_jset, simp add: jget_def)

text \<open>
  C10. Every POST that Create sends carries a body whose \<open>script_type\<close> is the string
  \<open>userdefined\<close>, whatever the plan holds (its own \<open>script_type\<close> included); and Create
  does send the POST once the request can be built.
\<close>

theorem Create_posts_userdefined:
  "(\<forall>req \<in> set (fst (ScriptResource_Create c w data)).
      Method req = ''POST'' \<longrightarrow>
      (\<exists>body. ReqBody req = Some body \<and> jget body ''script_type'' = JStr ''userdefined''))
   \<and> (NewRequest_error w ''POST'' (BaseURL c @ ''/scripts/'') = None \<longrightarrow>
       (\<exists>req \<in> set (fst (ScriptResource_Create c w data)). Method req = ''POST''))"
proof -
  obtain sent r where s1: "send c w ''POST'' (BaseURL c @ ''/scripts/'')
      (Some (ScriptResource_Create_body data)) = (sent, r)"
    by (cases "send c w ''POST'' (BaseURL c @ ''/scripts/'') (Some (ScriptResource_Create_body data))")
  obtain sent2 r2 where s2: "send c w ''GET'' (BaseURL c @ ''/scripts/'') None = (sent2, r2)"
    by (cases "send c w ''GET'' (BaseURL c @ ''/scripts/'') None")
  have f: "fst (ScriptResource_Create c w data) = sent
         \<or> fst (ScriptResource_Create c w data) = sent @ sent2"
    using s1 s2 by (auto simp: ScriptResource_Create_def split: sum.splits option.splits)
  from send_cases [OF s1] send_cases [OF s2] f Create_body_script_type [of data]
  show ?thesis by auto
qed

theorem Create_posts_userdefined_witness:
  "\<exists>req \<in> set (fst (ScriptResource_Create ex_client (ex_world (JArr []))
        ((ex_plan ListNull ListNull ListNull)\<lparr>sr_ScriptType := StringValue ''builtin''\<rparr>))).
     Method req = ''POST''
     \<and> (\<exists>body. ReqBody req = Some body \<and> jget body ''script_type'' = JStr ''userdefined'')"
proof -
  have "NewRequest_error (ex_world (JArr [])) ''POST'' (BaseURL ex_client @ ''/scripts/'') = None"
    by (simp add: ex_world_def)
  with Create_posts_userdefined [of ex_client "ex_world (JArr [])"
      "(ex_plan ListNull ListNull ListNull)\<lparr>sr_ScriptType := StringValue ''builtin''\<rparr>"]
  show ?thesis by blast
qed

subsection \<open>Update: what is sent and which identifier is kept\<close>

lemma send_body:
  "send c w m url body = (sent, r) \<Longrightarrow> req \<in> set sent \<Longrightarrow> ReqBody req = body"
  by (drule send_cases) auto

lemma Script_Update_body_keys:
  "''id'' \<notin> keys (ScriptResource_Update_body data)
   \<and> ''script_type'' \<notin> keys (ScriptResource_Update_body data)"
  unfolding ScriptResource_Update_body_def
  by (intro let_inv [where P = "\<lambda>b. ''id'' \<notin> keys b \<and> ''script_type'' \<notin> keys b"])
     (simp_all add: keys_jset, simp add: keys_def)

lemma Snippet_Update_body_keys:
  "''id'' \<notin> keys (ScriptSnippetResource_Update_body data)
   \<and> ''script_type'' \<notin> keys (ScriptSnippetResource_Update_body data)"
  unfolding ScriptSnippetResource_Update_body_def
  by (intro let_inv [where P = "\<lambda>b. ''id'' \<notin> keys b \<and> ''script_type'' \<notin> keys b"])
     (simp_all add: keys_jset, simp add: keys_def)

lemma KeyStore_Update_body_keys:
  "''id'' \<notin> keys (KeyStoreResource_Update_body data)
   \<and> ''script_type'' \<notin> keys (KeyStoreResource_Update_body data)"
  by (simp add: KeyStoreResource_Update_body_def keys_def)

lemma Script_Update_computed_Id: "sr_Id (ScriptResource_Update_computed data r) = sr_Id data"
  unfolding ScriptResource_Update_computed_def
  by (intro let_inv [where P = "\<lambda>d. sr_Id d = sr_Id data"]) (simp_all split: option.splits)

lemma Snippet_Update_computed_Id:
  "nr_Id (ScriptSnippetResource_Update_computed data r) = nr_Id data"
  by (simp add: ScriptSnippetResource_Update_computed_def split: option.splits)

lemma Script_Update_frame:
  "(\<forall>req \<in> set (fst (ScriptResource_Update c w plan state)).
      \<forall>b. ReqBody req = Some b \<longrightarrow> ''id'' \<notin> keys b \<and> ''script_type'' \<notin> keys b)
   \<and> (\<forall>s. snd (ScriptResource_Update c w plan state) = Saved s \<longrightarrow> sr_Id s = sr_Id state)"
proof -
  let ?data = "plan\<lparr>sr_Id := sr_Id state\<rparr>"
  let ?url = "ScriptResource_url c (ValueInt64 (sr_Id ?data))"
  obtain sent r where s1: "send c w ''PUT'' ?url (Some (ScriptResource_Update_body ?data)) = (sent, r)"
    by (cases "send c w ''PUT'' ?url (Some (ScriptResource_Update_body ?data))")
  obtain sent2 r2 where s2: "send c w ''GET'' ?url None = (sent2, r2)"
    by (cases "send c w ''GET'' ?url None")
  have f: "fst (ScriptResource_Update c w plan state) = sent
         \<or> fst (ScriptResource_Update c w plan state) = sent @ sent2"
    using s1 s2 by (auto simp: ScriptResource_Update_def Let_def split: sum.splits)
  have g: "\<And>s. snd (ScriptResource_Update c w plan state) = Saved s
        \<Longrightarrow> \<exists>res. s = ScriptResource_Update_computed ?data res"
    using s1 s2 by (auto simp: ScriptResource_Update_def Let_def split: sum.splits if_splits)
  have a: "\<forall>req \<in> set sent. \<forall>b. ReqBody req = Some b
             \<longrightarrow> ''id'' \<notin> keys b \<and> ''script_type'' \<notin> keys b"
    using send_body [OF s1] Script_Update_body_keys [of ?data] by auto
  have b: "\<forall>req \<in> set sent2. \<forall>b. ReqBody req = Some b
             \<longrightarrow> ''id'' \<notin> keys b \<and> ''script_type'' \<notin> keys b"
    using send_body [OF s2] by auto
  have p1: "\<forall>req \<in> set (fst (ScriptResource_Update c w plan state)).
      \<forall>b. ReqBody req = Some b \<longrightarrow> ''id'' \<notin> keys b \<and> ''script_type'' \<notin> keys b"
    using f a b by auto
  have p2: "\<forall>s. snd (ScriptResource_Update c w plan state) = Saved s \<longrightarrow> sr_Id s = sr_Id state"
    using g by (auto simp: Script_Update_computed_Id)
  show ?thesis using p1 p2 by blast
qed

lemma Snippet_Update_frame:
  "(\<forall>req \<in> set (fst (ScriptSnippetResource_Update c w plan state)).
      \<forall>b. ReqBody req = Some b \<longrightarrow> ''id'' \<notin> keys b \<and> ''script_type'' \<notin> keys b)
   \<and> (\<forall>s. snd (ScriptSnippetResource_Update c w plan state) = Saved s \<longrightarrow> nr_Id s = nr_Id state)"
proof -
  let ?data = "plan\<lparr>nr_Id := nr_Id state\<rparr>"
  let ?url = "ScriptSnippetResource_url c (ValueInt64 (nr_Id ?data))"
  obtain sent r where s1:
    "send c w ''PUT'' ?url (Some (ScriptSnippetResource_Update_body ?data)) = (sent, r)"
    by (cases "send c w ''PUT'' ?url (Some (ScriptSnippetResource_Update_body ?data))")
  obtain sent2 r2 where s2: "send c w ''GET'' ?url None = (sent2, r2)"
    by (cases "send c w ''GET'' ?url None")
  have f: "fst (ScriptSnippetResource_Update c w plan state) = sent
         \<or> fst (ScriptSnippetResource_Update c w plan state) = sent @ sent2"
    using s1 s2 by (auto simp: ScriptSnippetResource_Update_def Let_def split: sum.splits)
  have g: "\<And>s. snd (ScriptSnippetResource_Update c w plan state) = Saved s
       \<Longrightarrow> \<exists>res. s = ScriptSnippetResource_Update_computed ?data res"
    using s1 s2 by (auto simp: ScriptSnippetResource_Update_def Let_def split: sum.splits if_splits)
  have a: "\<forall>req \<in> set sent. \<forall>b. ReqBody req = Some b
             \<longrightarrow> ''id'' \<notin> keys b \<and> ''script_type'' \<notin> keys b"
    using send_body [OF s1] Snippet_Update_body_keys [of ?data] by auto
  have b: "\<forall>req \<in> set sent2. \<forall>b. ReqBody req = Some b
             \<longrightarrow> ''id'' \<notin> keys b \<and> ''script_type'' \<notin> keys b"
    using send_body [OF s2] by auto
  have p1: "\<forall>req \<in> set (fst (ScriptSnippetResource_Update c w plan state)).
      \<forall>b. ReqBody req = Some b \<longrightarrow> ''id'' \<notin> keys b \<and> ''script_type'' \<notin> keys b"
    using f a b by auto
  have p2: "\<forall>s. snd (ScriptSnippetResource_Update c w plan state) = Saved s
              \<longrightarrow> nr_Id s = nr_Id state"
    using g by (auto simp: Snippet_Update_computed_Id)
  show ?thesis using p1 p2 by blast
qed

lemma KeyStore_Update_frame:
  "(\<forall>req \<in> set (fst (KeyStoreResource_Update c w plan state)).
      \<forall>b. ReqBody req = Some b \<longrightarrow> ''id'' \<notin> keys b \<and> ''script_type'' \<notin> keys b)
   \<and> (\<forall>s. snd (KeyStoreResource_Update c w plan state) = Saved s \<longrightarrow> kr_Id s = kr_Id state)"
proof -
  let ?data = "plan\<lparr>kr_Id := kr_Id state\<rparr>"
  let ?url = "KeyStoreResource_url c (ValueInt64 (kr_Id ?data))"
  obtain sent r where s1: "send c w ''PUT'' ?url (Some (KeyStoreResource_Update_body ?data)) = (sent, r)"
    by (cases "send c w ''PUT'' ?url (Some (KeyStoreResource_Update_body ?data))")
  have f: "fst (KeyStoreResource_Update c w plan state) = sent"
    using s1 by (auto simp: KeyStoreResource_Update_def Let_def split: sum.splits)
  have g: "\<And>s. snd (KeyStoreResource_Update c w plan state) = Saved s
        \<Longrightarrow> kr_Id s = kr_Id state"
    using s1 by (auto simp: KeyStoreResource_Update_def Let_def split: sum.splits if_splits)
  have a: "\<forall>req \<in> set sent. \<forall>b. ReqBody req = Some b
             \<longrightarrow> ''id'' \<notin> keys b \<and> ''script_type'' \<notin> keys b"
    using send_body [OF s1] KeyStore_Update_body_keys [of ?data] by auto
  have p2: "\<forall>s. snd (KeyStoreResource_Update c w plan state) = Saved s \<longrightarrow> kr_Id s = kr_Id state"
    using g by blast
  show ?thesis using a p2 unfolding f by blast
qed

text \<open>
  C8. For each of the three resources, no request that Update sends has a body with
  the key \<open>id\<close> or the key \<open>script_type\<close>, and the state a successful Update saves
  holds the identifier of the prior state.
\<close>

theorem Update_body_frame:
  "(\<forall>req \<in> set (fst (ScriptResource_Update c w plan state)).
      \<forall>b. ReqBody req = Some b \<longrightarrow> ''id'' \<notin> keys b \<and> ''script_type'' \<notin> keys b)
   \<and> (\<forall>s. snd (ScriptResource_Update c w plan state) = Saved s \<longrightarrow> sr_Id s = sr_Id state)
   \<and> (\<forall>req \<in> set (fst (ScriptSnippetResource_Update c w nplan nstate)).
      \<forall>b. ReqBody req = Some b \<longrightarrow> ''id'' \<notin> keys b \<and> ''script_type'' \<notin> keys b)
   \<and> (\<forall>s. snd (ScriptSnippetResource_Update c w nplan nstate) = Saved s \<longrightarrow> nr_Id s = nr_Id nstate)
   \<and> (\<forall>req \<in> set (fst (KeyStoreResource_Update c w kplan kstate)).
      \<forall>b. ReqBody req = Some b \<longrightarrow> ''id'' \<notin> keys b \<and> ''script_type'' \<notin> keys b)
   \<and> (\<forall>s. snd (KeyStoreResource_Update c w kplan kstate) = Saved s \<longrightarrow> kr_Id s = kr_Id kstate)"
  using Script_Update_frame [of c w plan state] Snippet_Update_frame [of c w nplan nstate]
    KeyStore_Update_frame [of c w kplan kstate]
  by blast

theorem Update_body_frame_witness:
  "(\<exists>b. ReqBody (hd (fst (ScriptResource_Update ex_client (ex_world (JArr []))
            ((ex_plan ListNull ListNull ListNull)\<lparr>sr_ScriptType := StringValue ''userdefined''\<rparr>)
            ((ex_plan ListNull ListNull ListNull)\<lparr>sr_Id := Int64Value 7\<rparr>)))) = Some b
        \<and> ''id'' \<notin> keys b \<and> ''script_type'' \<notin> keys b)
   \<and> (\<exists>s. snd (ScriptResource_Update ex_client (ex_world (JArr []))
            ((ex_plan ListNull ListNull ListNull)\<lparr>sr_ScriptType := StringValue ''userdefined''\<rparr>)
            ((ex_plan ListNull ListNull ListNull)\<lparr>sr_Id := Int64Value 7\<rparr>)) = Saved s
        \<and> sr_Id s = Int64Value 7)"
proof -
  let ?U = "ScriptResource_Update ex_client (ex_world (JArr []))
            ((ex_plan ListNull ListNull ListNull)\<lparr>sr_ScriptType := StringValue ''userdefined''\<rparr>)
            ((ex_plan ListNull ListNull ListNull)\<lparr>sr_Id := Int64Value 7\<rparr>)"
  have e: "length (fst ?U) = 2 \<and> (\<exists>b. ReqBody (hd (fst ?U)) = Some b) \<and> (\<exists>s. snd ?U = Saved s)"
    by (simp add: ScriptResource_Update_def ScriptResource_Update_body_def
          ScriptResource_Update_computed_def ex_eval Let_def)
  then have m: "hd (fst ?U) \<in> set (fst ?U)"
    by (cases "fst ?U") auto
  have i: "sr_Id ((ex_plan ListNull ListNull ListNull)\<lparr>sr_Id := Int64Value 7\<rparr>) = Int64Value 7"
    by simp
  from Update_body_frame [of ex_client "ex_world (JArr [])"
      "(ex_plan ListNull ListNull ListNull)\<lparr>sr_ScriptType := StringValue ''userdefined''\<rparr>"
      "(ex_plan ListNull ListNull ListNull)\<lparr>sr_Id := Int64Value 7\<rparr>"] e m
  show ?thesis unfolding i by blast
qed

subsection \<open>Update: what an error reports\<close>

lemma starts_with_iff: "starts_with s p \<longleftrightarrow> (\<exists>post. s = p @ post)"
  by (induction s p rule: starts_with.induct) auto

lemma includes_text_iff: "includes_text s sub \<longleftrightarrow> (\<exists>pre post. s = pre @ sub @ post)"
proof (induction s)
  case Nil
  then show ?case by auto
next
  case (Cons x xs)
  show ?case
  proof
    assume "includes_text (x # xs) sub"
    then consider "starts_with (x # xs) sub" | "includes_text xs sub" by auto
    then show "\<exists>pre post. x # xs = pre @ sub @ post"
    proof cases
      case 1
      then obtain post where "x # xs = sub @ post" by (auto simp: starts_with_iff)
      then have "x # xs = [] @ sub @ post" by simp
      then show ?thesis by blast
    next
      case 2
      with Cons.IH obtain pre post where "xs = pre @ sub @ post" by blast
      then have "x # xs = (x # pre) @ sub @ post" by simp
      then show ?thesis by blast
    qed
  next
    assume "\<exists>pre post. x # xs = pre @ sub @ post"
    then obtain pre post where e: "x # xs = pre @ sub @ post" by blast
    show "includes_text (x # xs) sub"
    proof (cases pre)
      case Nil
      with e have "starts_with (x # xs) sub" by (auto simp: starts_with_iff)
      then show ?thesis by simp
    next
      case (Cons y ys)
      with e have "xs = ys @ sub @ post" by simp
      with Cons.IH have "includes_text xs sub" by blast
      then show ?thesis by simp
    qed
  qed
qed

lemma includes_suffix: "includes_text (pre @ sub) sub"
  using includes_text_iff [of "pre @ sub" sub] by (metis append_Nil2)

lemma Script_Update_errors:
  "(snd (send c w ''PUT'' (ScriptResource_url c (ValueInt64 (sr_Id state)))
            (Some (ScriptResource_Update_body (plan\<lparr>sr_Id := sr_Id state\<rparr>)))) = Inr r
      \<longrightarrow>
      (StatusCode r \<noteq> StatusOK \<longrightarrow>
         snd (ScriptResource_Update c w plan state)
           = Failed ''Client Error'' (''Unable to update script, status code: '' @ fmt_d (StatusCode r)))
      \<and> (StatusCode r = StatusOK
            \<and> snd (send c w ''GET'' (ScriptResource_url c (ValueInt64 (sr_Id state))) None) = Inr r2
            \<and> StatusCode r2 \<noteq> StatusOK \<longrightarrow>
         snd (ScriptResource_Update c w plan state)
           = Failed ''Client Error''
               (''Unable to read updated script, status code: '' @ fmt_d (StatusCode r2))))"
  by (auto simp: ScriptResource_Update_def Let_def split: prod.splits sum.splits)

lemma Snippet_Update_errors:
  "(snd (send c w ''PUT'' (ScriptSnippetResource_url c (ValueInt64 (nr_Id state)))
            (Some (ScriptSnippetResource_Update_body (plan\<lparr>nr_Id := nr_Id state\<rparr>)))) = Inr r
      \<longrightarrow>
      (StatusCode r \<noteq> StatusOK \<longrightarrow>
         snd (ScriptSnippetResource_Update c w plan state)
           = Failed ''Client Error''
               (''Unable to update script snippet, status code: '' @ fmt_d (StatusCode r)))
      \<and> (StatusCode r = StatusOK
            \<and> snd (send c w ''GET'' (ScriptSnippetResource_url c (ValueInt64 (nr_Id state))) None) = Inr r2
            \<and> StatusCode r2 \<noteq> StatusOK \<longrightarrow>
         snd (ScriptSnippetResource_Update c w plan state)
           = Failed ''Client Error''
               (''Unable to read updated script snippet, status code: '' @ fmt_d (StatusCode r2))))"
  by (auto simp: ScriptSnippetResource_Update_def Let_def split: prod.splits sum.splits)

lemma KeyStore_Update_errors:
  "snd (send c w ''PUT'' (KeyStoreResource_url c (ValueInt64 (kr_Id state)))
            (Some (KeyStoreResource_Update_body (plan\<lparr>kr_Id := kr_Id state\<rparr>)))) = Inr r
      \<and> StatusCode r \<noteq> StatusOK \<longrightarrow>
      (\<exists>detail. snd (KeyStoreResource_Update c w plan state) = Failed ''Client Error'' detail
         \<and> includes_text detail (Body r))"
proof -
  have "includes_text ((''Unable to update keystore entry ID '' @ fmt_d (ValueInt64 (kr_Id state))
                  @ '', status code: '' @ fmt_d (StatusCode r)
                  @ '', URL: '' @ KeyStoreResource_url c (ValueInt64 (kr_Id state)) @ '', response: '') @ Body r) (Body r)"
    by (rule includes_suffix)
  then show ?thesis
    by (auto simp: KeyStoreResource_Update_def Let_def split: prod.splits sum.splits)
qed

text \<open>
  C9, as stated, fails for the script resource: the PUT is answered with status 400
  and the body text \<open>name: too long\<close>, and the error Update reports carries the
  status code only.
\<close>

theorem Script_Update_error_counterexample:
  "snd (ScriptResource_Update ex_client (ex_world_status 400 ''name: too long'') ex_state ex_state)
     = Failed ''Client Error'' ''Unable to update script, status code: 400''
   \<and> \<not> includes_text ''Unable to update script, status code: 400'' ''name: too long''"
  by (simp add: ScriptResource_Update_def ex_world_status_def ex_state_def ex_eval fmt_d_def
        Let_def digit_char_def)

text \<open>
  C9, amended. An Update whose PUT is answered with a status other than 200 ends with
  one error and saves no state; so does an Update of a script or a snippet whose PUT
  succeeds and whose follow-up GET is answered with a status other than 200. The
  message of the keystore Update includes the text of the response body. The messages
  of the script and snippet Updates are a fixed text followed by the status code.
\<close>

theorem Update_error_detail:
  "(snd (send c w ''PUT'' (ScriptResource_url c (ValueInt64 (sr_Id state)))
            (Some (ScriptResource_Update_body (plan\<lparr>sr_Id := sr_Id state\<rparr>)))) = Inr r
      \<longrightarrow>
      (StatusCode r \<noteq> StatusOK \<longrightarrow>
         snd (ScriptResource_Update c w plan state)
           = Failed ''Client Error'' (''Unable to update script, status code: '' @ fmt_d (StatusCode r)))
      \<and> (StatusCode r = StatusOK
            \<and> snd (send c w ''GET'' (ScriptResource_url c (ValueInt64 (sr_Id state))) None) = Inr r2
            \<and> StatusCode r2 \<noteq> StatusOK \<longrightarrow>
         snd (ScriptResource_Update c w plan state)
           = Failed ''Client Error''
               (''Unable to read updated script, status code: '' @ fmt_d (StatusCode r2))))
   \<and> (snd (send c w ''PUT'' (ScriptSnippetResource_url c (ValueInt64 (nr_Id nstate)))
            (Some (ScriptSnippetResource_Update_body (nplan\<lparr>nr_Id := nr_Id nstate\<rparr>)))) = Inr n
      \<longrightarrow>
      (StatusCode n \<noteq> StatusOK \<longrightarrow>
         snd (ScriptSnippetResource_Update c w nplan nstate)
           = Failed ''Client Error''
               (''Unable to update script snippet, status code: '' @ fmt_d (StatusCode n)))
      \<and> (StatusCode n = StatusOK
            \<and> snd (send c w ''GET'' (ScriptSnippetResource_url c (ValueInt64 (nr_Id nstate))) None)
                = Inr n2
            \<and> StatusCode n2 \<noteq> StatusOK \<longrightarrow>
         snd (ScriptSnippetResource_Update c w nplan nstate)
           = Failed ''Client Error''
               (''Unable to read updated script snippet, status code: '' @ fmt_d (StatusCode n2))))
   \<and> (snd (send c w ''PUT'' (KeyStoreResource_url c (ValueInt64 (kr_Id kstate)))
            (Some (KeyStoreResource_Update_body (kplan\<lparr>kr_Id := kr_Id kstate\<rparr>)))) = Inr k
      \<and> StatusCode k \<noteq> StatusOK \<longrightarrow>
      (\<exists>detail. snd (KeyStoreResource_Update c w kplan kstate) = Failed ''Client Error'' detail
         \<and> includes_text detail (Body k)))"
  using Script_Update_errors [of c w state plan r r2]
    Snippet_Update_errors [of c w nstate nplan n n2]
    KeyStore_Update_errors [of c w kstate kplan k]
  by blast

theorem Update_error_detail_witness:
  "(\<exists>detail. snd (KeyStoreResource_Update ex_client (ex_world_status 400 ''name: too long'')
                    ex_key ex_key) = Failed ''Client Error'' detail
        \<and> includes_text detail ''name: too long'')
   \<and> snd (ScriptResource_Update ex_client (ex_world_status 400 ''name: too long'') ex_state ex_state)
       = Failed ''Client Error'' (''Unable to update script, status code: '' @ fmt_d 400)"
proof -
  let ?w = "ex_world_status 400 ''name: too long''"
  let ?r = "\<lparr>StatusCode = 400, Body = ''name: too long''\<rparr>"
  have k: "snd (send ex_client ?w ''PUT'' (KeyStoreResource_url ex_client (ValueInt64 (kr_Id ex_key)))
            (Some (KeyStoreResource_Update_body (ex_key\<lparr>kr_Id := kr_Id ex_key\<rparr>)))) = Inr ?r"
    by (simp add: send_def NewRequest_def ClientConfig_Do_def ex_world_status_def Let_def)
  have s: "snd (send ex_client ?w ''PUT'' (ScriptResource_url ex_client (ValueInt64 (sr_Id ex_state)))
            (Some (ScriptResource_Update_body (ex_state\<lparr>sr_Id := sr_Id ex_state\<rparr>)))) = Inr ?r"
    by (simp add: send_def NewRequest_def ClientConfig_Do_def ex_world_status_def Let_def)
  have n: "StatusCode ?r \<noteq> StatusOK" "Body ?r = ''name: too long''" "StatusCode ?r = 400"
    by (simp_all add: StatusOK_def)
  from Update_error_detail [of ex_client ?w ex_state ex_state ?r _ _ _ _ _ ex_key ex_key ?r] k s n
  show ?thesis by simp
qed

subsection \<open>Read of an entity that is gone\<close>

lemma find_by_id_None:
  "find_by_id i es = None \<longleftrightarrow> (\<forall>e \<in> set es. as_float64 (jget e ''id'') \<noteq> Some i)"
  by (induction es) auto

lemma Script_Read_status:
  "snd (send c w ''GET'' (ScriptResource_url c (ValueInt64 (sr_Id data))) None) = Inr r \<longrightarrow>
     (StatusCode r = StatusNotFound \<longrightarrow> snd (ScriptResource_Read c w data) = Removed)
     \<and> (StatusCode r \<noteq> StatusNotFound \<and> StatusCode r \<noteq> StatusOK \<longrightarrow>
          snd (ScriptResource_Read c w data)
            = Failed ''Client Error'' (''Unable to read script, status code: '' @ fmt_d (StatusCode r)))"
  by (auto simp: ScriptResource_Read_def split: prod.splits sum.splits)

lemma Snippet_Read_status:
  "snd (send c w ''GET'' (ScriptSnippetResource_url c (ValueInt64 (nr_Id data))) None) = Inr r \<longrightarrow>
     (StatusCode r = StatusNotFound \<longrightarrow> snd (ScriptSnippetResource_Read c w data) = Removed)
     \<and> (StatusCode r \<noteq> StatusNotFound \<and> StatusCode r \<noteq> StatusOK \<longrightarrow>
          snd (ScriptSnippetResource_Read c w data)
            = Failed ''Client Error''
                (''Unable to read script snippet, status code: '' @ fmt_d (StatusCode r)))"
  by (auto simp: ScriptSnippetResource_Read_def split: prod.splits sum.splits)

lemma KeyStore_Read_status:
  "snd (send c w ''GET'' (BaseURL c @ ''/core/keystore/'') None) = Inr r \<longrightarrow>
     (StatusCode r = StatusOK \<and> DecodeList w (Body r) = Inr entries
        \<and> (\<forall>e \<in> set entries. as_float64 (jget e ''id'') \<noteq> Some (ValueInt64 (kr_Id data)))
        \<longrightarrow> snd (KeyStoreResource_Read c w data) = Removed)
     \<and> (StatusCode r \<noteq> StatusOK \<longrightarrow>
          snd (KeyStoreResource_Read c w data)
            = Failed ''Client Error''
                (''Unable to read keystore entries, status code: '' @ fmt_d (StatusCode r)))"
  using find_by_id_None [of "ValueInt64 (kr_Id data)" entries]
  by (auto simp: KeyStoreResource_Read_def split: prod.splits sum.splits)

text \<open>
  C7. A Read of a script or of a snippet that is answered with status 404 removes the
  resource from the state and reports no error; answered with any other status than
  200 it reports an error and leaves the state alone. A Read of a keystore entry
  whose listing (status 200) holds no entry with the stored id removes the resource
  and reports no error; a listing answered with a status other than 200 is an error
  and leaves the state alone.
\<close>

theorem Read_not_found_is_soft:
  "(snd (send c w ''GET'' (ScriptResource_url c (ValueInt64 (sr_Id data))) None) = Inr r \<longrightarrow>
     (StatusCode r = StatusNotFound \<longrightarrow> snd (ScriptResource_Read c w data) = Removed)
     \<and> (StatusCode r \<noteq> StatusNotFound \<and> StatusCode r \<noteq> StatusOK \<longrightarrow>
          snd (ScriptResource_Read c w data)
            = Failed ''Client Error'' (''Unable to read script, status code: '' @ fmt_d (StatusCode r))))
   \<and> (snd (send c w ''GET'' (ScriptSnippetResource_url c (ValueInt64 (nr_Id ndata))) None) = Inr n \<longrightarrow>
     (StatusCode n = StatusNotFound \<longrightarrow> snd (ScriptSnippetResource_Read c w ndata) = Removed)
     \<and> (StatusCode n \<noteq> StatusNotFound \<and> StatusCode n \<noteq> StatusOK \<longrightarrow>
          snd (ScriptSnippetResource_Read c w ndata)
            = Failed ''Client Error''
                (''Unable to read script snippet, status code: '' @ fmt_d (StatusCode n))))
   \<and> (snd (send c w ''GET'' (BaseURL c @ ''/core/keystore/'') None) = Inr k \<longrightarrow>
     (StatusCode k = StatusOK \<and> DecodeList w (Body k) = Inr entries
        \<and> (\<forall>e \<in> set entries. as_float64 (jget e ''id'') \<noteq> Some (ValueInt64 (kr_Id kdata)))
        \<longrightarrow> snd (KeyStoreResource_Read c w kdata) = Removed)
     \<and> (StatusCode k \<noteq> StatusOK \<longrightarrow>
          snd (KeyStoreResource_Read c w kdata)
            = Failed ''Client Error''
                (''Unable to read keystore entries, status code: '' @ fmt_d (StatusCode k))))"
  using Script_Read_status [of c w data r] Snippet_Read_status [of c w ndata n]
    KeyStore_Read_status [of c w k entries kdata]
  by blast

theorem Read_not_found_is_soft_witness:
  "snd (ScriptResource_Read ex_client (ex_world_status 404 ''Not found'') ex_state) = Removed
   \<and> snd (ScriptResource_Read ex_client (ex_world_status 500 ''Server Error'') ex_state)
       = Failed ''Client Error'' (''Unable to read script, status code: '' @ fmt_d 500)
   \<and> snd (KeyStoreResource_Read ex_client (ex_world_status 200 ''[]'') ex_key) = Removed
   \<and> snd (KeyStoreResource_Read ex_client (ex_world_status 404 ''Not found'') ex_key)
       = Failed ''Client Error'' (''Unable to read keystore entries, status code: '' @ fmt_d 404)"
proof -
  let ?nf = "\<lparr>StatusCode = 404, Body = ''Not found''\<rparr>"
  let ?se = "\<lparr>StatusCode = 500, Body = ''Server Error''\<rparr>"
  let ?ok = "\<lparr>StatusCode = 200, Body = ''[]''\<rparr>"
  have s: "\<And>st txt m url. snd (send ex_client (ex_world_status st txt) m url None)
      = Inr \<lparr>StatusCode = st, Body = txt\<rparr>"
    by (simp add: send_def NewRequest_def ClientConfig_Do_def ex_world_status_def Let_def)
  have d: "DecodeList (ex_world_status 200 ''[]'') (Body ?ok) = Inr [ex_script (JArr [])]"
    by (simp add: ex_world_status_def)
  have i: "\<forall>e \<in> set [ex_script (JArr [])]. as_float64 (jget e ''id'') \<noteq> Some (ValueInt64 (kr_Id ex_key))"
    by (simp add: ex_script_def ex_key_def jget_def)
  have n: "StatusCode ?nf = StatusNotFound" "StatusCode ?nf \<noteq> StatusOK" "StatusCode ?ok = StatusOK"
    "StatusCode ?se \<noteq> StatusNotFound \<and> StatusCode ?se \<noteq> StatusOK"
    by (simp_all add: StatusOK_def StatusNotFound_def)
  from Read_not_found_is_soft [of ex_client "ex_world_status 404 ''Not found''" ex_state ?nf
      _ _ ?nf _ ex_key] s n
  have a: "snd (ScriptResource_Read ex_client (ex_world_status 404 ''Not found'') ex_state) = Removed"
    and b: "snd (KeyStoreResource_Read ex_client (ex_world_status 404 ''Not found'') ex_key)
       = Failed ''Client Error'' (''Unable to read keystore entries, status code: '' @ fmt_d 404)"
    by simp_all
  from Read_not_found_is_soft [of ex_client "ex_world_status 500 ''Server Error''" ex_state ?se] s n
  have c: "snd (ScriptResource_Read ex_client (ex_world_status 500 ''Server Error'') ex_state)
       = Failed ''Client Error'' (''Unable to read script, status code: '' @ fmt_d 500)"
    by simp
  from Read_not_found_is_soft [of ex_client "ex_world_status 200 ''[]''" _ _ _ _ ?ok
      "[ex_script (JArr [])]" ex_key] s n d i
  have e: "snd (KeyStoreResource_Read ex_client (ex_world_status 200 ''[]'') ex_key) = Removed"
    by simp
  from a b c e show ?thesis by simp
qed

subsection \<open>Validation of the input of a lookup and of an import\<close>

lemma digit_val_Some: "digit_val ch = Some d \<Longrightarrow> ch \<in> set ''0123456789''"
  by (auto simp: digit_val_def split: if_splits)

lemma ParseUint_loop_digits: "ParseUint_loop n s = Inr m \<Longrightarrow> list_all (\<lambda>ch. ch \<in> set ''0123456789'') s"
  by (induction s arbitrary: n) (auto split: option.splits if_splits dest: digit_val_Some)

lemma ParseUint_digits: "ParseUint s = Inr m \<Longrightarrow> decimal_digits s"
  by (auto simp: ParseUint_def decimal_digits_def split: if_splits dest: ParseUint_loop_digits)

lemma ParseInt_numeric: "ParseInt s = Inr i \<Longrightarrow> numeric s"
  by (auto simp: ParseInt_def numeric_def Let_def split: if_splits sum.splits dest!: ParseUint_digits)

lemma ParseInt_not_numeric: "\<not> numeric s \<Longrightarrow> \<exists>e. ParseInt s = Inl e"
  using ParseInt_numeric [of s] by (cases "ParseInt s") auto

lemma ScriptDataSource_state_Name:
  "ScriptDataSource_state (d\<lparr>sd_Name := n\<rparr>) rec
     = map_option (\<lambda>s. s\<lparr>sd_Name := string_or (jget rec ''name'') n\<rparr>) (ScriptDataSource_state d rec)"
  by (simp add: ScriptDataSource_state_def split: option.splits)

lemma ScriptDataSource_by_id:
  assumes "\<not> Int64_IsNull (sd_Id d)"
  shows "fst (ScriptDataSource_Read c w (d\<lparr>sd_Name := n\<rparr>)) = fst (ScriptDataSource_Read c w d)"
    and "map_ending (\<lambda>s. s\<lparr>sd_Name := StringNull\<rparr>) (snd (ScriptDataSource_Read c w (d\<lparr>sd_Name := n\<rparr>)))
       = map_ending (\<lambda>s. s\<lparr>sd_Name := StringNull\<rparr>) (snd (ScriptDataSource_Read c w d))"
  using assms
  by (auto simp: ScriptDataSource_Read_def ScriptDataSource_state_Name
           split: prod.splits sum.splits option.splits)

lemma SnippetDataSource_by_id:
  assumes "\<not> Int64_IsNull (nd_Id d)"
  shows "fst (ScriptSnippetDataSource_Read c w (d\<lparr>nd_Name := n\<rparr>)) = fst (ScriptSnippetDataSource_Read c w d)"
    and "map_ending (\<lambda>s. s\<lparr>nd_Name := StringNull\<rparr>) (snd (ScriptSnippetDataSource_Read c w (d\<lparr>nd_Name := n\<rparr>)))
       = map_ending (\<lambda>s. s\<lparr>nd_Name := StringNull\<rparr>) (snd (ScriptSnippetDataSource_Read c w d))"
  using assms
  by (auto simp: ScriptSnippetDataSource_Read_def ScriptSnippetDataSource_state_def
           split: prod.splits sum.splits option.splits)

lemma KeyStoreDataSource_by_id:
  assumes "\<not> Int64_IsNull (kd_Id d)"
  shows "fst (KeyStoreDataSource_Read c w (d\<lparr>kd_Name := n\<rparr>)) = fst (KeyStoreDataSource_Read c w d)"
    and "map_ending (\<lambda>s. s\<lparr>kd_Name := StringNull\<rparr>) (snd (KeyStoreDataSource_Read c w (d\<lparr>kd_Name := n\<rparr>)))
       = map_ending (\<lambda>s. s\<lparr>kd_Name := StringNull\<rparr>) (snd (KeyStoreDataSource_Read c w d))"
  using assms
  by (auto simp: KeyStoreDataSource_Read_def KeyStoreDataSource_state_def
           split: prod.splits sum.splits option.splits)

lemma kind_of_erased: "map_ending (\<lambda>_. ()) (map_ending f x) = map_ending (\<lambda>_. ()) x"
  by (simp add: ending.map_comp o_def)

lemma ScriptDataSource_both:
  assumes "\<not> Int64_IsNull (sd_Id d)"
  shows "fst (ScriptDataSource_Read c w d) = fst (ScriptDataSource_Read c w (d\<lparr>sd_Name := StringNull\<rparr>))
    \<and> map_ending (\<lambda>_. ()) (snd (ScriptDataSource_Read c w d))
       = map_ending (\<lambda>_. ()) (snd (ScriptDataSource_Read c w (d\<lparr>sd_Name := StringNull\<rparr>)))"
  using ScriptDataSource_by_id [OF assms, of c w StringNull]
    kind_of_erased [of "\<lambda>s. s\<lparr>sd_Name := StringNull\<rparr>" "snd (ScriptDataSource_Read c w d)"]
    kind_of_erased [of "\<lambda>s. s\<lparr>sd_Name := StringNull\<rparr>"
      "snd (ScriptDataSource_Read c w (d\<lparr>sd_Name := StringNull\<rparr>))"]
  by simp

lemma SnippetDataSource_both:
  assumes "\<not> Int64_IsNull (nd_Id d)"
  shows "fst (ScriptSnippetDataSource_Read c w d)
       = fst (ScriptSnippetDataSource_Read c w (d\<lparr>nd_Name := StringNull\<rparr>))
    \<and> map_ending (\<lambda>_. ()) (snd (ScriptSnippetDataSource_Read c w d))
       = map_ending (\<lambda>_. ()) (snd (ScriptSnippetDataSource_Read c w (d\<lparr>nd_Name := StringNull\<rparr>)))"
  using SnippetDataSource_by_id [OF assms, of c w StringNull]
    kind_of_erased [of "\<lambda>s. s\<lparr>nd_Name := StringNull\<rparr>" "snd (ScriptSnippetDataSource_Read c w d)"]
    kind_of_erased [of "\<lambda>s. s\<lparr>nd_Name := StringNull\<rparr>"
      "snd (ScriptSnippetDataSource_Read c w (d\<lparr>nd_Name := StringNull\<rparr>))"]
  by simp

lemma KeyStoreDataSource_both:
  assumes "\<not> Int64_IsNull (kd_Id d)"
  shows "fst (KeyStoreDataSource_Read c w d)
       = fst (KeyStoreDataSource_Read c w (d\<lparr>kd_Name := StringNull\<rparr>))
    \<and> map_ending (\<lambda>_. ()) (snd (KeyStoreDataSource_Read c w d))
       = map_ending (\<lambda>_. ()) (snd (KeyStoreDataSource_Read c w (d\<lparr>kd_Name := StringNull\<rparr>)))"
  using KeyStoreDataSource_by_id [OF assms, of c w StringNull]
    kind_of_erased [of "\<lambda>s. s\<lparr>kd_Name := StringNull\<rparr>" "snd (KeyStoreDataSource_Read c w d)"]
    kind_of_erased [of "\<lambda>s. s\<lparr>kd_Name := StringNull\<rparr>"
      "snd (KeyStoreDataSource_Read c w (d\<lparr>kd_Name := StringNull\<rparr>))"]
  by simp

lemmas ds_eval = ScriptDataSource_Read_def ScriptDataSource_state_def KeyStoreDataSource_Read_def
  KeyStoreDataSource_state_def ex_query_def ex_entries_def ex_keystore_world_def string_or_def
  nonempty_string_or_def int64_or_def bool_or_def ds_list_def ex_eval

text \<open>
  C3, as stated, fails: a query of the singular script data source with both \<open>id\<close>
  and \<open>name\<close> set is no error. It succeeds, here with the script that has the id 7
  and the name \<open>X\<close>.
\<close>

theorem Lookup_both_counterexample:
  "\<not> Int64_IsNull (sd_Id (ex_query (Int64Value 7) (StringValue ''Y'')))
   \<and> \<not> String_IsNull (sd_Name (ex_query (Int64Value 7) (StringValue ''Y'')))
   \<and> map_ending sd_Name
        (snd (ScriptDataSource_Read ex_client (ex_world (JArr []))
               (ex_query (Int64Value 7) (StringValue ''Y''))))
      = Saved (StringValue ''X'')"
  by (simp add: ds_eval)

text \<open>
  C3, amended. A singular data source with neither \<open>id\<close> nor \<open>name\<close> ends with the
  error \<open>Missing ... Identifier\<close> before any request is sent. An import identifier
  that is not numeric ends with the error \<open>Invalid ID\<close>. A query with both \<open>id\<close> and
  \<open>name\<close> is accepted: it sends the requests and ends in the diagnostics of the same
  query without the name.
\<close>

theorem Lookup_input_validation:
  "(Int64_IsNull (sd_Id sd) \<and> String_IsNull (sd_Name sd) \<longrightarrow>
      ScriptDataSource_Read c w sd
        = ([], Failed ''Missing Script Identifier''
                 (''Either '' @ apostrophe @ ''id'' @ apostrophe @ '' or '' @ apostrophe @ ''name''
                    @ apostrophe @ '' must be specified to look up a script.'')))
   \<and> (Int64_IsNull (nd_Id nd) \<and> String_IsNull (nd_Name nd) \<longrightarrow>
      ScriptSnippetDataSource_Read c w nd
        = ([], Failed ''Missing Script Snippet Identifier''
                 (''Either '' @ apostrophe @ ''id'' @ apostrophe @ '' or '' @ apostrophe @ ''name''
                    @ apostrophe @ '' must be specified to look up a script snippet.'')))
   \<and> (Int64_IsNull (kd_Id kd) \<and> String_IsNull (kd_Name kd) \<longrightarrow>
      KeyStoreDataSource_Read c w kd
        = ([], Failed ''Missing KeyStore Identifier''
                 (''Either '' @ apostrophe @ ''id'' @ apostrophe @ '' or '' @ apostrophe @ ''name''
                    @ apostrophe @ '' must be specified to look up a keystore entry.'')))
   \<and> (\<not> numeric ID \<longrightarrow>
      (\<exists>e. ScriptResource_ImportState quote ID
              = Failed ''Invalid ID'' (''Unable to parse ID: '' @ NumError_Error quote ID e)
          \<and> ScriptSnippetResource_ImportState quote ID
              = Failed ''Invalid ID'' (''Unable to parse ID: '' @ NumError_Error quote ID e)
          \<and> KeyStoreResource_ImportState quote ID
              = Failed ''Invalid ID'' (''Unable to parse ID: '' @ NumError_Error quote ID e)))
   \<and> (\<not> Int64_IsNull (sd_Id sd) \<longrightarrow>
        fst (ScriptDataSource_Read c w sd) = fst (ScriptDataSource_Read c w (sd\<lparr>sd_Name := StringNull\<rparr>))
        \<and> map_ending (\<lambda>_. ()) (snd (ScriptDataSource_Read c w sd))
          = map_ending (\<lambda>_. ()) (snd (ScriptDataSource_Read c w (sd\<lparr>sd_Name := StringNull\<rparr>))))
   \<and> (\<not> Int64_IsNull (nd_Id nd) \<longrightarrow>
        fst (ScriptSnippetDataSource_Read c w nd)
          = fst (ScriptSnippetDataSource_Read c w (nd\<lparr>nd_Name := StringNull\<rparr>))
        \<and> map_ending (\<lambda>_. ()) (snd (ScriptSnippetDataSource_Read c w nd))
          = map_ending (\<lambda>_. ())
              (snd (ScriptSnippetDataSource_Read c w (nd\<lparr>nd_Name := StringNull\<rparr>))))
   \<and> (\<not> Int64_IsNull (kd_Id kd) \<longrightarrow>
        fst (KeyStoreDataSource_Read c w kd)
          = fst (KeyStoreDataSource_Read c w (kd\<lparr>kd_Name := StringNull\<rparr>))
        \<and> map_ending (\<lambda>_. ()) (snd (KeyStoreDataSource_Read c w kd))
          = map_ending (\<lambda>_. ()) (snd (KeyStoreDataSource_Read c w (kd\<lparr>kd_Name := StringNull\<rparr>))))"
proof -
  have a: "Int64_IsNull (sd_Id sd) \<and> String_IsNull (sd_Name sd) \<longrightarrow>
      ScriptDataSource_Read c w sd
        = ([], Failed ''Missing Script Identifier''
                 (''Either '' @ apostrophe @ ''id'' @ apostrophe @ '' or '' @ apostrophe @ ''name''
                    @ apostrophe @ '' must be specified to look up a script.''))"
    by (simp add: ScriptDataSource_Read_def)
  have b: "Int64_IsNull (nd_Id nd) \<and> String_IsNull (nd_Name nd) \<longrightarrow>
      ScriptSnippetDataSource_Read c w nd
        = ([], Failed ''Missing Script Snippet Identifier''
                 (''Either '' @ apostrophe @ ''id'' @ apostrophe @ '' or '' @ apostrophe @ ''name''
                    @ apostrophe @ '' must be specified to look up a script snippet.''))"
    by (simp add: ScriptSnippetDataSource_Read_def)
  have k: "Int64_IsNull (kd_Id kd) \<and> String_IsNull (kd_Name kd) \<longrightarrow>
      KeyStoreDataSource_Read c w kd
        = ([], Failed ''Missing KeyStore Identifier''
                 (''Either '' @ apostrophe @ ''id'' @ apostrophe @ '' or '' @ apostrophe @ ''name''
                    @ apostrophe @ '' must be specified to look up a keystore entry.''))"
    by (simp add: KeyStoreDataSource_Read_def)
  have i: "\<not> numeric ID \<longrightarrow>
      (\<exists>e. ScriptResource_ImportState quote ID
              = Failed ''Invalid ID'' (''Unable to parse ID: '' @ NumError_Error quote ID e)
          \<and> ScriptSnippetResource_ImportState quote ID
              = Failed ''Invalid ID'' (''Unable to parse ID: '' @ NumError_Error quote ID e)
          \<and> KeyStoreResource_ImportState quote ID
              = Failed ''Invalid ID'' (''Unable to parse ID: '' @ NumError_Error quote ID e))"
  proof
    assume "\<not> numeric ID"
    then obtain e where "ParseInt ID = Inl e"
      using ParseInt_not_numeric by blast
    then have "ScriptResource_ImportState quote ID
              = Failed ''Invalid ID'' (''Unable to parse ID: '' @ NumError_Error quote ID e)
          \<and> ScriptSnippetResource_ImportState quote ID
              = Failed ''Invalid ID'' (''Unable to parse ID: '' @ NumError_Error quote ID e)
          \<and> KeyStoreResource_ImportState quote ID
              = Failed ''Invalid ID'' (''Unable to parse ID: '' @ NumError_Error quote ID e)"
      by (simp add: ScriptResource_ImportState_def ScriptSnippetResource_ImportState_def
          KeyStoreResource_ImportState_def)
    then show "\<exists>e. ScriptResource_ImportState quote ID
              = Failed ''Invalid ID'' (''Unable to parse ID: '' @ NumError_Error quote ID e)
          \<and> ScriptSnippetResource_ImportState quote ID
              = Failed ''Invalid ID'' (''Unable to parse ID: '' @ NumError_Error quote ID e)
          \<and> KeyStoreResource_ImportState quote ID
              = Failed ''Invalid ID'' (''Unable to parse ID: '' @ NumError_Error quote ID e)"
      by blast
  qed
  from a b k i ScriptDataSource_both [of sd c w] SnippetDataSource_both [of nd c w]
    KeyStoreDataSource_both [of kd c w]
  show ?thesis by blast
qed

theorem Lookup_input_validation_witness:
  "fst (ScriptDataSource_Read ex_client (ex_world (JArr [])) (ex_query Int64Null StringNull)) = []
   \<and> (\<exists>d. snd (ScriptDataSource_Read ex_client (ex_world (JArr [])) (ex_query Int64Null StringNull))
            = Failed ''Missing Script Identifier'' d)
   \<and> (\<exists>d. ScriptResource_ImportState (\<lambda>s. s) ''12a'' = Failed ''Invalid ID'' d)
   \<and> map_ending (\<lambda>_. ())
        (snd (ScriptDataSource_Read ex_client (ex_world (JArr []))
               (ex_query (Int64Value 7) (StringValue ''Y''))))
      = Saved ()"
proof -
  have n: "Int64_IsNull (sd_Id (ex_query Int64Null StringNull))
         \<and> String_IsNull (sd_Name (ex_query Int64Null StringNull))"
    by (simp add: ex_query_def)
  have m: "\<not> numeric ''12a''"
    by (simp add: numeric_def decimal_digits_def)
  have q: "\<not> Int64_IsNull (sd_Id (ex_query (Int64Value 7) (StringValue ''Y'')))"
    by (simp add: ex_query_def)
  have r: "map_ending (\<lambda>_. ())
        (snd (ScriptDataSource_Read ex_client (ex_world (JArr []))
               ((ex_query (Int64Value 7) (StringValue ''Y''))\<lparr>sd_Name := StringNull\<rparr>)))
      = Saved ()"
    by (simp add: ds_eval)
  from Lookup_input_validation [of "ex_query Int64Null StringNull" ex_client "ex_world (JArr [])"
      _ _ "''12a''" "\<lambda>s. s"] n m
  have 1: "fst (ScriptDataSource_Read ex_client (ex_world (JArr [])) (ex_query Int64Null StringNull)) = []
   \<and> (\<exists>d. snd (ScriptDataSource_Read ex_client (ex_world (JArr [])) (ex_query Int64Null StringNull))
            = Failed ''Missing Script Identifier'' d)
   \<and> (\<exists>d. ScriptResource_ImportState (\<lambda>s. s) ''12a'' = Failed ''Invalid ID'' d)"
    by auto
  from Lookup_input_validation [of "ex_query (Int64Value 7) (StringValue ''Y'')" ex_client
      "ex_world (JArr [])"] q r
  have 2: "map_ending (\<lambda>_. ())
        (snd (ScriptDataSource_Read ex_client (ex_world (JArr []))
               (ex_query (Int64Value 7) (StringValue ''Y''))))
      = Saved ()"
    by simp
  from 1 2 show ?thesis by blast
qed

subsection \<open>Lookup by id and by name together\<close>

lemma find_by_id_Some:
  "find_by_id i es = Some e \<Longrightarrow> e \<in> set es \<and> as_float64 (jget e ''id'') = Some i"
  by (induction es) (auto split: if_splits)

lemma find_by_id_index:
  "n < length es \<Longrightarrow> as_float64 (jget (es ! n) ''id'') = Some i
     \<Longrightarrow> (\<forall>m < n. as_float64 (jget (es ! m) ''id'') \<noteq> Some i)
     \<Longrightarrow> find_by_id i es = Some (es ! n)"
proof (induction es arbitrary: n)
  case Nil
  then show ?case by simp
next
  case (Cons e es)
  show ?case
  proof (cases n)
    case 0
    with Cons.prems show ?thesis by simp
  next
    case (Suc j)
    with Cons.prems have h: "as_float64 (jget e ''id'') \<noteq> Some i" by auto
    from Suc Cons.prems have "j < length es" "as_float64 (jget (es ! j) ''id'') = Some i"
      "\<forall>m < j. as_float64 (jget (es ! m) ''id'') \<noteq> Some i" by auto
    from Cons.IH [OF this] h Suc show ?thesis by simp
  qed
qed

lemma send_sent:
  "NewRequest_error w m url = None \<Longrightarrow>
     map (\<lambda>q. (Method q, URL q, ReqBody q)) (fst (send c w m url body)) = [(m, url, body)]"
  by (simp add: send_def NewRequest_def ClientConfig_Do_def Let_def)

lemma ScriptDataSource_by_id_sent:
  "\<not> Int64_IsNull (sd_Id d) \<Longrightarrow>
     fst (ScriptDataSource_Read c w d)
       = fst (send c w ''GET'' (ScriptResource_url c (ValueInt64 (sd_Id d))) None)"
  by (auto simp: ScriptDataSource_Read_def split: prod.splits sum.splits option.splits)

lemma SnippetDataSource_by_id_sent:
  "\<not> Int64_IsNull (nd_Id d) \<Longrightarrow>
     fst (ScriptSnippetDataSource_Read c w d)
       = fst (send c w ''GET'' (ScriptSnippetResource_url c (ValueInt64 (nd_Id d))) None)"
  by (auto simp: ScriptSnippetDataSource_Read_def split: prod.splits sum.splits option.splits)

lemma KeyStoreDataSource_by_id_sent:
  "\<not> Int64_IsNull (kd_Id d) \<Longrightarrow>
     fst (KeyStoreDataSource_Read c w d) = fst (send c w ''GET'' (BaseURL c @ ''/core/keystore/'') None)"
  by (auto simp: KeyStoreDataSource_Read_def split: prod.splits sum.splits option.splits)

lemma ScriptDataSource_by_id_record:
  assumes "\<not> Int64_IsNull (sd_Id d)"
    and "snd (send c w ''GET'' (ScriptResource_url c (ValueInt64 (sd_Id d))) None) = Inr r"
    and "StatusCode r = StatusOK" and "DecodeObject w (Body r) = Inr rec"
  shows "snd (ScriptDataSource_Read c w d)
     = (case ScriptDataSource_state d rec of None \<Rightarrow> Panic | Some s \<Rightarrow> Saved s)"
  using assms
  by (auto simp: ScriptDataSource_Read_def StatusOK_def StatusNotFound_def
           split: prod.splits sum.splits option.splits)

lemma ScriptDataSource_state_fields:
  assumes "ScriptDataSource_state d rec = Some s"
  shows "(\<forall>v. as_string (jget rec ''name'') = Some v \<longrightarrow> sd_Name s = StringValue v)
     \<and> (as_string (jget rec ''name'') = None \<longrightarrow> sd_Name s = sd_Name d)
     \<and> (\<forall>i. as_float64 (jget rec ''id'') = Some i \<longrightarrow> sd_Id s = Int64Value i)"
  using assms
  by (auto simp: ScriptDataSource_state_def string_or_def int64_or_def split: option.splits)

lemma SnippetDataSource_by_id_record:
  assumes "\<not> Int64_IsNull (nd_Id d)"
    and "snd (send c w ''GET'' (ScriptSnippetResource_url c (ValueInt64 (nd_Id d))) None) = Inr r"
    and "StatusCode r = StatusOK" and "DecodeObject w (Body r) = Inr rec"
  shows "snd (ScriptSnippetDataSource_Read c w d) = Saved (ScriptSnippetDataSource_state d rec)"
  using assms
  by (auto simp: ScriptSnippetDataSource_Read_def StatusOK_def StatusNotFound_def
           split: prod.splits sum.splits option.splits)

lemma SnippetDataSource_state_fields:
  "(\<forall>v. as_string (jget rec ''name'') = Some v
        \<longrightarrow> nd_Name (ScriptSnippetDataSource_state d rec) = StringValue v)
   \<and> (as_string (jget rec ''name'') = None
        \<longrightarrow> nd_Name (ScriptSnippetDataSource_state d rec) = nd_Name d)
   \<and> (\<forall>i. as_float64 (jget rec ''id'') = Some i
        \<longrightarrow> nd_Id (ScriptSnippetDataSource_state d rec) = Int64Value i)"
  by (auto simp: ScriptSnippetDataSource_state_def string_or_def int64_or_def)

lemma KeyStoreDataSource_by_id_entries:
  assumes "\<not> Int64_IsNull (kd_Id d)"
    and "snd (send c w ''GET'' (BaseURL c @ ''/core/keystore/'') None) = Inr r"
    and "StatusCode r = StatusOK" and "DecodeList w (Body r) = Inr entries"
  shows "snd (KeyStoreDataSource_Read c w d)
     = (case find_by_id (ValueInt64 (kd_Id d)) entries of
          None \<Rightarrow> Failed ''KeyStore Entry Not Found''
                    (''KeyStore entry with ID '' @ fmt_d (ValueInt64 (kd_Id d)) @ '' not found'')
        | Some e \<Rightarrow> Saved (KeyStoreDataSource_state d e))"
  using assms
  by (auto simp: KeyStoreDataSource_Read_def split: prod.splits sum.splits option.splits)

lemma KeyStoreDataSource_state_fields:
  "(\<forall>v. as_string (jget e ''name'') = Some v \<longrightarrow> kd_Name (KeyStoreDataSource_state d e) = StringValue v)
   \<and> (as_string (jget e ''name'') = None \<longrightarrow> kd_Name (KeyStoreDataSource_state d e) = kd_Name d)
   \<and> (\<forall>i. as_float64 (jget e ''id'') = Some i \<longrightarrow> kd_Id (KeyStoreDataSource_state d e) = Int64Value i)"
  by (auto simp: KeyStoreDataSource_state_def string_or_def int64_or_def)

lemma Script_lookup_by_id:
  assumes i: "\<not> Int64_IsNull (sd_Id sd)"
  shows "fst (ScriptDataSource_Read c w sd)
        = fst (send c w ''GET'' (ScriptResource_url c (ValueInt64 (sd_Id sd))) None)
     \<and> (NewRequest_error w ''GET'' (ScriptResource_url c (ValueInt64 (sd_Id sd))) = None \<longrightarrow>
          map (\<lambda>q. (Method q, URL q, ReqBody q)) (fst (ScriptDataSource_Read c w sd))
            = [(''GET'', ScriptResource_url c (ValueInt64 (sd_Id sd)), None)])
     \<and> (snd (send c w ''GET'' (ScriptResource_url c (ValueInt64 (sd_Id sd))) None) = Inr r
          \<and> StatusCode r = StatusOK \<and> DecodeObject w (Body r) = Inr rec \<longrightarrow>
          snd (ScriptDataSource_Read c w sd)
            = (case ScriptDataSource_state sd rec of None \<Rightarrow> Panic | Some s \<Rightarrow> Saved s)
          \<and> (\<forall>s. ScriptDataSource_state sd rec = Some s \<longrightarrow>
                (\<forall>v. as_string (jget rec ''name'') = Some v \<longrightarrow> sd_Name s = StringValue v)
                \<and> (as_string (jget rec ''name'') = None \<longrightarrow> sd_Name s = sd_Name sd)
                \<and> (\<forall>i. as_float64 (jget rec ''id'') = Some i \<longrightarrow> sd_Id s = Int64Value i)))
     \<and> fst (ScriptDataSource_Read c w (sd\<lparr>sd_Name := n\<rparr>)) = fst (ScriptDataSource_Read c w sd)
     \<and> map_ending (\<lambda>s. s\<lparr>sd_Name := StringNull\<rparr>) (snd (ScriptDataSource_Read c w (sd\<lparr>sd_Name := n\<rparr>)))
        = map_ending (\<lambda>s. s\<lparr>sd_Name := StringNull\<rparr>) (snd (ScriptDataSource_Read c w sd))"
  using ScriptDataSource_by_id_sent [OF i, of c w]
    send_sent [of w "''GET''" "ScriptResource_url c (ValueInt64 (sd_Id sd))" c None]
    ScriptDataSource_by_id_record [OF i, of c w r rec]
    ScriptDataSource_state_fields [of sd rec]
    ScriptDataSource_by_id [OF i, of c w n]
  by (simp (no_asm_simp))

lemma Snippet_lookup_by_id:
  assumes i: "\<not> Int64_IsNull (nd_Id nd)"
  shows "fst (ScriptSnippetDataSource_Read c w nd)
        = fst (send c w ''GET'' (ScriptSnippetResource_url c (ValueInt64 (nd_Id nd))) None)
     \<and> (NewRequest_error w ''GET'' (ScriptSnippetResource_url c (ValueInt64 (nd_Id nd))) = None \<longrightarrow>
          map (\<lambda>q. (Method q, URL q, ReqBody q)) (fst (ScriptSnippetDataSource_Read c w nd))
            = [(''GET'', ScriptSnippetResource_url c (ValueInt64 (nd_Id nd)), None)])
     \<and> (snd (send c w ''GET'' (ScriptSnippetResource_url c (ValueInt64 (nd_Id nd))) None) = Inr r
          \<and> StatusCode r = StatusOK \<and> DecodeObject w (Body r) = Inr rec \<longrightarrow>
          snd (ScriptSnippetDataSource_Read c w nd) = Saved (ScriptSnippetDataSource_state nd rec)
          \<and> (\<forall>v. as_string (jget rec ''name'') = Some v
                \<longrightarrow> nd_Name (ScriptSnippetDataSource_state nd rec) = StringValue v)
          \<and> (as_string (jget rec ''name'') = None
                \<longrightarrow> nd_Name (ScriptSnippetDataSource_state nd rec) = nd_Name nd)
          \<and> (\<forall>i. as_float64 (jget rec ''id'') = Some i
                \<longrightarrow> nd_Id (ScriptSnippetDataSource_state nd rec) = Int64Value i))
     \<and> fst (ScriptSnippetDataSource_Read c w (nd\<lparr>nd_Name := n\<rparr>))
        = fst (ScriptSnippetDataSource_Read c w nd)
     \<and> map_ending (\<lambda>s. s\<lparr>nd_Name := StringNull\<rparr>)
            (snd (ScriptSnippetDataSource_Read c w (nd\<lparr>nd_Name := n\<rparr>)))
        = map_ending (\<lambda>s. s\<lparr>nd_Name := StringNull\<rparr>) (snd (ScriptSnippetDataSource_Read c w nd))"
  using SnippetDataSource_by_id_sent [OF i, of c w]
    send_sent [of w "''GET''" "ScriptSnippetResource_url c (ValueInt64 (nd_Id nd))" c None]
    SnippetDataSource_by_id_record [OF i, of c w r rec]
    SnippetDataSource_state_fields [of rec nd]
    SnippetDataSource_by_id [OF i, of c w n]
  by (simp (no_asm_simp))

lemma KeyStore_lookup_by_id:
  assumes i: "\<not> Int64_IsNull (kd_Id kd)"
  shows "fst (KeyStoreDataSource_Read c w kd) = fst (send c w ''GET'' (BaseURL c @ ''/core/keystore/'') None)
     \<and> (NewRequest_error w ''GET'' (BaseURL c @ ''/core/keystore/'') = None \<longrightarrow>
          map (\<lambda>q. (Method q, URL q, ReqBody q)) (fst (KeyStoreDataSource_Read c w kd))
            = [(''GET'', BaseURL c @ ''/core/keystore/'', None)])
     \<and> (snd (send c w ''GET'' (BaseURL c @ ''/core/keystore/'') None) = Inr r
          \<and> StatusCode r = StatusOK \<and> DecodeList w (Body r) = Inr entries \<longrightarrow>
          ((\<forall>e \<in> set entries. as_float64 (jget e ''id'') \<noteq> Some (ValueInt64 (kd_Id kd))) \<longrightarrow>
             snd (KeyStoreDataSource_Read c w kd)
               = Failed ''KeyStore Entry Not Found''
                   (''KeyStore entry with ID '' @ fmt_d (ValueInt64 (kd_Id kd)) @ '' not found''))
          \<and> (\<forall>j < length entries.
                as_float64 (jget (entries ! j) ''id'') = Some (ValueInt64 (kd_Id kd))
                \<and> (\<forall>m < j. as_float64 (jget (entries ! m) ''id'') \<noteq> Some (ValueInt64 (kd_Id kd)))
                \<longrightarrow>
                snd (KeyStoreDataSource_Read c w kd)
                  = Saved (KeyStoreDataSource_state kd (entries ! j))
                \<and> kd_Id (KeyStoreDataSource_state kd (entries ! j))
                  = Int64Value (ValueInt64 (kd_Id kd))
                \<and> (\<forall>v. as_string (jget (entries ! j) ''name'') = Some v
                      \<longrightarrow> kd_Name (KeyStoreDataSource_state kd (entries ! j)) = StringValue v)
                \<and> (as_string (jget (entries ! j) ''name'') = None
                      \<longrightarrow> kd_Name (KeyStoreDataSource_state kd (entries ! j)) = kd_Name kd)))
     \<and> fst (KeyStoreDataSource_Read c w (kd\<lparr>kd_Name := n\<rparr>)) = fst (KeyStoreDataSource_Read c w kd)
     \<and> map_ending (\<lambda>s. s\<lparr>kd_Name := StringNull\<rparr>)
            (snd (KeyStoreDataSource_Read c w (kd\<lparr>kd_Name := n\<rparr>)))
        = map_ending (\<lambda>s. s\<lparr>kd_Name := StringNull\<rparr>) (snd (KeyStoreDataSource_Read c w kd))"
proof -
  have rec: "snd (send c w ''GET'' (BaseURL c @ ''/core/keystore/'') None) = Inr r
          \<and> StatusCode r = StatusOK \<and> DecodeList w (Body r) = Inr entries \<longrightarrow>
          ((\<forall>e \<in> set entries. as_float64 (jget e ''id'') \<noteq> Some (ValueInt64 (kd_Id kd))) \<longrightarrow>
             snd (KeyStoreDataSource_Read c w kd)
               = Failed ''KeyStore Entry Not Found''
                   (''KeyStore entry with ID '' @ fmt_d (ValueInt64 (kd_Id kd)) @ '' not found''))
          \<and> (\<forall>j < length entries.
                as_float64 (jget (entries ! j) ''id'') = Some (ValueInt64 (kd_Id kd))
                \<and> (\<forall>m < j. as_float64 (jget (entries ! m) ''id'') \<noteq> Some (ValueInt64 (kd_Id kd)))
                \<longrightarrow>
                snd (KeyStoreDataSource_Read c w kd)
                  = Saved (KeyStoreDataSource_state kd (entries ! j))
                \<and> kd_Id (KeyStoreDataSource_state kd (entries ! j))
                  = Int64Value (ValueInt64 (kd_Id kd))
                \<and> (\<forall>v. as_string (jget (entries ! j) ''name'') = Some v
                      \<longrightarrow> kd_Name (KeyStoreDataSource_state kd (entries ! j)) = StringValue v)
                \<and> (as_string (jget (entries ! j) ''name'') = None
                      \<longrightarrow> kd_Name (KeyStoreDataSource_state kd (entries ! j)) = kd_Name kd))"
  proof (intro impI conjI allI)
    assume h: "snd (send c w ''GET'' (BaseURL c @ ''/core/keystore/'') None) = Inr r
          \<and> StatusCode r = StatusOK \<and> DecodeList w (Body r) = Inr entries"
    note e = KeyStoreDataSource_by_id_entries [OF i, of c w r entries]
    {
      assume "\<forall>e \<in> set entries. as_float64 (jget e ''id'') \<noteq> Some (ValueInt64 (kd_Id kd))"
      then have "find_by_id (ValueInt64 (kd_Id kd)) entries = None"
        by (simp add: find_by_id_None)
      with e h show "snd (KeyStoreDataSource_Read c w kd)
               = Failed ''KeyStore Entry Not Found''
                   (''KeyStore entry with ID '' @ fmt_d (ValueInt64 (kd_Id kd)) @ '' not found'')"
        by simp
    }
    fix j
    assume j: "j < length entries"
      and m: "as_float64 (jget (entries ! j) ''id'') = Some (ValueInt64 (kd_Id kd))
                \<and> (\<forall>m < j. as_float64 (jget (entries ! m) ''id'') \<noteq> Some (ValueInt64 (kd_Id kd)))"
    from find_by_id_index [OF j] m
    have "find_by_id (ValueInt64 (kd_Id kd)) entries = Some (entries ! j)" by blast
    with e h show "snd (KeyStoreDataSource_Read c w kd)
                  = Saved (KeyStoreDataSource_state kd (entries ! j))" by simp
    from m KeyStoreDataSource_state_fields [of "entries ! j" kd]
    show "kd_Id (KeyStoreDataSource_state kd (entries ! j)) = Int64Value (ValueInt64 (kd_Id kd))"
      by blast
    fix v
    assume "as_string (jget (entries ! j) ''name'') = Some v"
    with KeyStoreDataSource_state_fields [of "entries ! j" kd]
    show "kd_Name (KeyStoreDataSource_state kd (entries ! j)) = StringValue v" by blast
  next
    fix j
    assume "as_string (jget (entries ! j) ''name'') = None"
    with KeyStoreDataSource_state_fields [of "entries ! j" kd]
    show "kd_Name (KeyStoreDataSource_state kd (entries ! j)) = kd_Name kd" by blast
  qed
  from KeyStoreDataSource_by_id_sent [OF i, of c w]
    send_sent [of w "''GET''" "BaseURL c @ ''/core/keystore/''" c None]
    rec KeyStoreDataSource_by_id [OF i, of c w n]
  show ?thesis by (simp (no_asm_simp))
qed

text \<open>
  C4. Let \<open>id\<close> be set on a singular data source, with any \<open>name\<close> beside it. The
  lookup goes by id only: the script and snippet data sources send the GET of the
  entity with that id and nothing else, the keystore data source sends the GET of the
  listing. When that GET is answered with status 200 and decoded, the script and
  snippet data sources save the state of the decoded record, and the keystore data
  source saves the state of the first entry of the listing whose id is the id of the
  query (or reports that no entry has it). The saved name is the name of that record,
  whether or not it equals the name of the query; the query's own name stays only when
  the record carries none. With any other name in the query the same requests are sent
  and the outcome is the same up to that attribute.
\<close>

theorem Lookup_by_id_ignores_name:
  "(\<not> Int64_IsNull (sd_Id sd) \<longrightarrow>
      fst (ScriptDataSource_Read c w sd)
        = fst (send c w ''GET'' (ScriptResource_url c (ValueInt64 (sd_Id sd))) None)
      \<and> (NewRequest_error w ''GET'' (ScriptResource_url c (ValueInt64 (sd_Id sd))) = None \<longrightarrow>
          map (\<lambda>q. (Method q, URL q, ReqBody q)) (fst (ScriptDataSource_Read c w sd))
            = [(''GET'', ScriptResource_url c (ValueInt64 (sd_Id sd)), None)])
      \<and> (snd (send c w ''GET'' (ScriptResource_url c (ValueInt64 (sd_Id sd))) None) = Inr r
          \<and> StatusCode r = StatusOK \<and> DecodeObject w (Body r) = Inr rec \<longrightarrow>
          snd (ScriptDataSource_Read c w sd)
            = (case ScriptDataSource_state sd rec of None \<Rightarrow> Panic | Some s \<Rightarrow> Saved s)
          \<and> (\<forall>s. ScriptDataSource_state sd rec = Some s \<longrightarrow>
                (\<forall>v. as_string (jget rec ''name'') = Some v \<longrightarrow> sd_Name s = StringValue v)
                \<and> (as_string (jget rec ''name'') = None \<longrightarrow> sd_Name s = sd_Name sd)
                \<and> (\<forall>i. as_float64 (jget rec ''id'') = Some i \<longrightarrow> sd_Id s = Int64Value i)))
      \<and> fst (ScriptDataSource_Read c w (sd\<lparr>sd_Name := n\<rparr>)) = fst (ScriptDataSource_Read c w sd)
      \<and> map_ending (\<lambda>s. s\<lparr>sd_Name := StringNull\<rparr>) (snd (ScriptDataSource_Read c w (sd\<lparr>sd_Name := n\<rparr>)))
        = map_ending (\<lambda>s. s\<lparr>sd_Name := StringNull\<rparr>) (snd (ScriptDataSource_Read c w sd)))
   \<and> (\<not> Int64_IsNull (nd_Id nd) \<longrightarrow>
      fst (ScriptSnippetDataSource_Read c w nd)
        = fst (send c w ''GET'' (ScriptSnippetResource_url c (ValueInt64 (nd_Id nd))) None)
      \<and> (NewRequest_error w ''GET'' (ScriptSnippetResource_url c (ValueInt64 (nd_Id nd))) = None \<longrightarrow>
          map (\<lambda>q. (Method q, URL q, ReqBody q)) (fst (ScriptSnippetDataSource_Read c w nd))
            = [(''GET'', ScriptSnippetResource_url c (ValueInt64 (nd_Id nd)), None)])
      \<and> (snd (send c w ''GET'' (ScriptSnippetResource_url c (ValueInt64 (nd_Id nd))) None) = Inr ra
          \<and> StatusCode ra = StatusOK \<and> DecodeObject w (Body ra) = Inr reca \<longrightarrow>
          snd (ScriptSnippetDataSource_Read c w nd) = Saved (ScriptSnippetDataSource_state nd reca)
          \<and> (\<forall>v. as_string (jget reca ''name'') = Some v
                \<longrightarrow> nd_Name (ScriptSnippetDataSource_state nd reca) = StringValue v)
          \<and> (as_string (jget reca ''name'') = None
                \<longrightarrow> nd_Name (ScriptSnippetDataSource_state nd reca) = nd_Name nd)
          \<and> (\<forall>i. as_float64 (jget reca ''id'') = Some i
                \<longrightarrow> nd_Id (ScriptSnippetDataSource_state nd reca) = Int64Value i))
      \<and> fst (ScriptSnippetDataSource_Read c w (nd\<lparr>nd_Name := n\<rparr>))
        = fst (ScriptSnippetDataSource_Read c w nd)
      \<and> map_ending (\<lambda>s. s\<lparr>nd_Name := StringNull\<rparr>)
            (snd (ScriptSnippetDataSource_Read c w (nd\<lparr>nd_Name := n\<rparr>)))
        = map_ending (\<lambda>s. s\<lparr>nd_Name := StringNull\<rparr>) (snd (ScriptSnippetDataSource_Read c w nd)))
   \<and> (\<not> Int64_IsNull (kd_Id kd) \<longrightarrow>
      fst (KeyStoreDataSource_Read c w kd) = fst (send c w ''GET'' (BaseURL c @ ''/core/keystore/'') None)
      \<and> (NewRequest_error w ''GET'' (BaseURL c @ ''/core/keystore/'') = None \<longrightarrow>
          map (\<lambda>q. (Method q, URL q, ReqBody q)) (fst (KeyStoreDataSource_Read c w kd))
            = [(''GET'', BaseURL c @ ''/core/keystore/'', None)])
      \<and> (snd (send c w ''GET'' (BaseURL c @ ''/core/keystore/'') None) = Inr rb
          \<and> StatusCode rb = StatusOK \<and> DecodeList w (Body rb) = Inr entries \<longrightarrow>
          ((\<forall>e \<in> set entries. as_float64 (jget e ''id'') \<noteq> Some (ValueInt64 (kd_Id kd))) \<longrightarrow>
             snd (KeyStoreDataSource_Read c w kd)
               = Failed ''KeyStore Entry Not Found''
                   (''KeyStore entry with ID '' @ fmt_d (ValueInt64 (kd_Id kd)) @ '' not found''))
          \<and> (\<forall>j < length entries.
                as_float64 (jget (entries ! j) ''id'') = Some (ValueInt64 (kd_Id kd))
                \<and> (\<forall>m < j. as_float64 (jget (entries ! m) ''id'') \<noteq> Some (ValueInt64 (kd_Id kd)))
                \<longrightarrow>
                snd (KeyStoreDataSource_Read c w kd)
                  = Saved (KeyStoreDataSource_state kd (entries ! j))
                \<and> kd_Id (KeyStoreDataSource_state kd (entries ! j))
                  = Int64Value (ValueInt64 (kd_Id kd))
                \<and> (\<forall>v. as_string (jget (entries ! j) ''name'') = Some v
                      \<longrightarrow> kd_Name (KeyStoreDataSource_state kd (entries ! j)) = StringValue v)
                \<and> (as_string (jget (entries ! j) ''name'') = None
                      \<longrightarrow> kd_Name (KeyStoreDataSource_state kd (entries ! j)) = kd_Name kd)))
      \<and> fst (KeyStoreDataSource_Read c w (kd\<lparr>kd_Name := n\<rparr>)) = fst (KeyStoreDataSource_Read c w kd)
      \<and> map_ending (\<lambda>s. s\<lparr>kd_Name := StringNull\<rparr>)
            (snd (KeyStoreDataSource_Read c w (kd\<lparr>kd_Name := n\<rparr>)))
        = map_ending (\<lambda>s. s\<lparr>kd_Name := StringNull\<rparr>) (snd (KeyStoreDataSource_Read c w kd)))"
  apply (rule conjI)
   apply (rule impI)
   apply (erule Script_lookup_by_id)
  apply (rule conjI)
   apply (rule impI)
   apply (erule Snippet_lookup_by_id)
  apply (rule impI)
  apply (erule KeyStore_lookup_by_id)
  done

theorem Lookup_by_id_ignores_name_witness:
  "(\<exists>s. snd (ScriptDataSource_Read ex_client (ex_world (JArr []))
              (ex_query (Int64Value 7) (StringValue ''Y''))) = Saved s
        \<and> sd_Name s = StringValue ''X'' \<and> sd_Id s = Int64Value 7)
   \<and> map (\<lambda>q. (Method q, URL q, ReqBody q))
        (fst (ScriptDataSource_Read ex_client (ex_world (JArr []))
                (ex_query (Int64Value 7) (StringValue ''Y''))))
      = [(''GET'', ''https://rmm.example.com/scripts/7/'', None)]
   \<and> map_prod (map (\<lambda>q. (Method q, URL q, ReqBody q))) id
        (ScriptSnippetDataSource_Read ex_client (ex_world (JArr []))
           \<lparr>nd_Id = Int64Value 7, nd_Name = StringValue ''Y'', nd_Desc = StringNull,
            nd_Code = StringNull, nd_Shell = StringNull\<rparr>)
      = ([(''GET'', ''https://rmm.example.com/scripts/snippets/7/'', None)],
         Saved \<lparr>nd_Id = Int64Value 7, nd_Name = StringValue ''X'', nd_Desc = StringNull,
           nd_Code = StringNull, nd_Shell = StringValue ''powershell''\<rparr>)
   \<and> snd (KeyStoreDataSource_Read ex_client ex_keystore_world
        \<lparr>kd_Id = Int64Value 3, kd_Name = StringValue ''other'', kd_Value = StringNull\<rparr>)
      = Saved \<lparr>kd_Id = Int64Value 3, kd_Name = StringValue ''k'', kd_Value = StringValue ''v''\<rparr>"
proof -
  let ?q = "ex_query (Int64Value 7) (StringValue ''Y'')"
  let ?w = "ex_world (JArr [])"
  let ?r = "\<lparr>StatusCode = 200, Body = ''ok''\<rparr>"
  let ?k = "\<lparr>kd_Id = Int64Value 3, kd_Name = StringValue ''other'', kd_Value = StringNull\<rparr>"
  have i: "\<not> Int64_IsNull (sd_Id ?q)"
    by (simp add: ex_query_def)
  have i7: "ValueInt64 (sd_Id ?q) = 7"
    by (simp add: ex_query_def)
  have nr: "NewRequest_error ?w ''GET'' (ScriptResource_url ex_client (ValueInt64 (sd_Id ?q))) = None"
    by (simp add: ex_world_def)
  have sn: "snd (send ex_client ?w ''GET'' (ScriptResource_url ex_client (ValueInt64 (sd_Id ?q))) None)
      = Inr ?r"
    by (simp add: send_def NewRequest_def ClientConfig_Do_def ex_world_def Let_def)
  have dc: "StatusCode ?r = StatusOK \<and> DecodeObject ?w (Body ?r) = Inr (ex_script (JArr []))"
    by (simp add: StatusOK_def ex_world_def)
  obtain s where st: "ScriptDataSource_state ?q (ex_script (JArr [])) = Some s"
    by (simp add: ds_eval)
  have nm: "as_string (jget (ex_script (JArr [])) ''name'') = Some ''X''"
    by (simp add: ex_script_def jget_def)
  have idv: "as_float64 (jget (ex_script (JArr [])) ''id'') = Some 7"
    by (simp add: ex_script_def jget_def)
  note t = Lookup_by_id_ignores_name [where sd = ?q and c = ex_client and w = ?w and r = ?r
      and rec = "ex_script (JArr [])", THEN conjunct1, THEN mp, OF i]
  note e = t [THEN conjunct2, THEN conjunct1, THEN mp, OF nr]
  note cc = t [THEN conjunct2, THEN conjunct2, THEN conjunct1, THEN mp, OF conjI [OF sn dc]]
  note a = cc [THEN conjunct1]
  note f = cc [THEN conjunct2, THEN spec, THEN mp, OF st]
  have b: "sd_Name s = StringValue ''X'' \<and> sd_Id s = Int64Value 7"
    using f nm idv by blast
  have url: "ScriptResource_url ex_client 7 = ''https://rmm.example.com/scripts/7/''"
    by (simp add: ScriptResource_url_def ex_client_def fmt_d_def digit_char_def)
  have 1: "\<exists>s. snd (ScriptDataSource_Read ex_client ?w ?q) = Saved s
        \<and> sd_Name s = StringValue ''X'' \<and> sd_Id s = Int64Value 7"
    using a b st by simp
  have 2: "map (\<lambda>q. (Method q, URL q, ReqBody q)) (fst (ScriptDataSource_Read ex_client ?w ?q))
      = [(''GET'', ''https://rmm.example.com/scripts/7/'', None)]"
    using e i7 url by simp
  have ki: "\<not> Int64_IsNull (kd_Id ?k)"
    by simp
  have ks: "snd (send ex_client ex_keystore_world ''GET'' (BaseURL ex_client @ ''/core/keystore/'') None)
      = Inr ?r"
    by (simp add: send_def NewRequest_def ClientConfig_Do_def ex_keystore_world_def Let_def)
  have kc: "StatusCode ?r = StatusOK \<and> DecodeList ex_keystore_world (Body ?r) = Inr ex_entries"
    by (simp add: StatusOK_def ex_keystore_world_def)
  have kn: "(0::nat) < length ex_entries
      \<and> as_float64 (jget (ex_entries ! 0) ''id'') = Some (ValueInt64 (kd_Id ?k))
      \<and> (\<forall>m < (0::nat). as_float64 (jget (ex_entries ! m) ''id'') \<noteq> Some (ValueInt64 (kd_Id ?k)))"
    by (simp add: ex_entries_def jget_def)
  note u = Lookup_by_id_ignores_name [where kd = ?k and c = ex_client and w = ex_keystore_world
      and rb = ?r and entries = ex_entries, THEN conjunct2, THEN conjunct2, THEN mp, OF ki]
  note v = u [THEN conjunct2, THEN conjunct2, THEN conjunct1, THEN mp, OF conjI [OF ks kc],
      THEN conjunct2]
  have "snd (KeyStoreDataSource_Read ex_client ex_keystore_world ?k)
      = Saved (KeyStoreDataSource_state ?k (ex_entries ! 0))"
    using v kn by blast
  then have 3: "snd (KeyStoreDataSource_Read ex_client ex_keystore_world ?k)
      = Saved \<lparr>kd_Id = Int64Value 3, kd_Name = StringValue ''k'', kd_Value = StringValue ''v''\<rparr>"
    by (simp add: ds_eval)
  let ?n = "\<lparr>nd_Id = Int64Value 7, nd_Name = StringValue ''Y'', nd_Desc = StringNull,
      nd_Code = StringNull, nd_Shell = StringNull\<rparr>"
  have ni: "\<not> Int64_IsNull (nd_Id ?n)"
    by simp
  have nnr: "NewRequest_error ?w ''GET'' (ScriptSnippetResource_url ex_client (ValueInt64 (nd_Id ?n)))
      = None"
    by (simp add: ex_world_def)
  have nsn: "snd (send ex_client ?w ''GET''
        (ScriptSnippetResource_url ex_client (ValueInt64 (nd_Id ?n))) None) = Inr ?r"
    by (simp add: send_def NewRequest_def ClientConfig_Do_def ex_world_def Let_def)
  note x = Lookup_by_id_ignores_name [where nd = ?n and c = ex_client and w = ?w and ra = ?r
      and reca = "ex_script (JArr [])", THEN conjunct2, THEN conjunct1, THEN mp, OF ni]
  note xe = x [THEN conjunct2, THEN conjunct1, THEN mp, OF nnr]
  note xs = x [THEN conjunct2, THEN conjunct2, THEN conjunct1, THEN mp, OF conjI [OF nsn dc],
      THEN conjunct1]
  have nurl: "ScriptSnippetResource_url ex_client (ValueInt64 (nd_Id ?n))
      = ''https://rmm.example.com/scripts/snippets/7/''"
    by (simp add: ScriptSnippetResource_url_def ex_client_def fmt_d_def digit_char_def)
  have nst: "ScriptSnippetDataSource_state ?n (ex_script (JArr []))
      = \<lparr>nd_Id = Int64Value 7, nd_Name = StringValue ''X'', nd_Desc = StringNull,
           nd_Code = StringNull, nd_Shell = StringValue ''powershell''\<rparr>"
    by (simp add: ScriptSnippetDataSource_state_def ds_eval)
  have 4: "map_prod (map (\<lambda>q. (Method q, URL q, ReqBody q))) id
        (ScriptSnippetDataSource_Read ex_client ?w ?n)
      = ([(''GET'', ''https://rmm.example.com/scripts/snippets/7/'', None)],
         Saved \<lparr>nd_Id = Int64Value 7, nd_Name = StringValue ''X'', nd_Desc = StringNull,
           nd_Code = StringNull, nd_Shell = StringValue ''powershell''\<rparr>)"
    using xe xs nurl nst by (simp add: prod_eq_iff)
  from 1 2 3 4 show ?thesis by blast
qed

subsection \<open>Plural data sources: the id filter\<close>

lemma find_by_id_first:
  "n < length es \<Longrightarrow> as_float64 (jget (es ! n) ''id'') = Some i
     \<Longrightarrow> (\<forall>m < n. as_float64 (jget (es ! m) ''id'') \<noteq> Some i)
     \<Longrightarrow> find_by_id i es = Some (es ! n)"
proof (induction es arbitrary: n)
  case Nil
  then show ?case by simp
next
  case (Cons e es)
  show ?case
  proof (cases n)
    case 0
    with Cons.prems show ?thesis by simp
  next
    case (Suc k)
    with Cons.prems have h: "as_float64 (jget e ''id'') \<noteq> Some i" by auto
    from Suc Cons.prems have "k < length es" "as_float64 (jget (es ! k) ''id'') = Some i"
      "\<forall>m < k. as_float64 (jget (es ! m) ''id'') \<noteq> Some i" by auto
    from Cons.IH [OF this] h Suc show ?thesis by simp
  qed
qed

lemma filter_by_id_none:
  "(\<forall>e \<in> set es. as_float64 (jget e ''id'') \<noteq> Some i) \<Longrightarrow> filter_by_id i es = []"
  using find_by_id_None [of i es] by (simp add: filter_by_id_def)

lemma filter_by_id_first:
  "n < length es \<Longrightarrow> as_float64 (jget (es ! n) ''id'') = Some i
     \<Longrightarrow> (\<forall>m < n. as_float64 (jget (es ! m) ''id'') \<noteq> Some i)
     \<Longrightarrow> filter_by_id i es = [es ! n]"
  by (simp add: filter_by_id_def find_by_id_first)

lemma Scripts_by_id:
  assumes "\<not> Int64_IsNull (ps_Id data)"
    and "snd (send c w ''GET'' (BaseURL c @ ''/scripts/'') None) = Inr r"
    and "StatusCode r = StatusOK" and "DecodeList w (Body r) = Inr scripts"
  shows "snd (ScriptsDataSource_Read c w data)
     = (case convert_all ScriptsDataSource_model (filter_by_id (ValueInt64 (ps_Id data)) scripts) of
          None \<Rightarrow> Panic | Some ms \<Rightarrow> Saved (data\<lparr>ps_Scripts := ListValue ms\<rparr>))"
  using assms
  by (auto simp: ScriptsDataSource_Read_def ScriptsDataSource_filter_def
           split: prod.splits sum.splits option.splits)

lemma Snippets_by_id:
  assumes "\<not> Int64_IsNull (pn_Id data)"
    and "snd (send c w ''GET'' (BaseURL c @ ''/scripts/snippets/'') None) = Inr r"
    and "StatusCode r = StatusOK" and "DecodeList w (Body r) = Inr snippets"
  shows "snd (ScriptSnippetsDataSource_Read c w data)
     = Saved (data\<lparr>pn_Snippets := ListValue (map ScriptSnippetsDataSource_model
                 (filter_by_id (ValueInt64 (pn_Id data)) snippets))\<rparr>)"
  using assms
  by (auto simp: ScriptSnippetsDataSource_Read_def ScriptSnippetsDataSource_filter_def
           split: prod.splits sum.splits option.splits)

lemma KeyStores_by_id:
  assumes "\<not> Int64_IsNull (pk_Id data)"
    and "snd (send c w ''GET'' (BaseURL c @ ''/core/keystore/'') None) = Inr r"
    and "StatusCode r = StatusOK" and "DecodeList w (Body r) = Inr entries"
  shows "snd (KeyStoresDataSource_Read c w data)
     = Saved (data\<lparr>pk_Keystores := ListValue (map KeyStoresDataSource_model
                 (filter_by_id (ValueInt64 (pk_Id data)) entries))\<rparr>)"
  using assms
  by (auto simp: KeyStoresDataSource_Read_def KeyStoresDataSource_filter_def
           split: prod.splits sum.splits option.splits)

text \<open>
  C6. Let the id filter of a plural data source be set and the listing be fetched and
  decoded. If no element of the listing has that id, the result is the empty list.
  Otherwise the result is the one-element list holding the model of the first element
  with that id. The result is determined by the id alone: no other filter of the
  query occurs in it.
\<close>

theorem Plural_id_short_circuit:
  "(\<not> Int64_IsNull (ps_Id ps) \<and> snd (send c w ''GET'' (BaseURL c @ ''/scripts/'') None) = Inr r
      \<and> StatusCode r = StatusOK \<and> DecodeList w (Body r) = Inr scripts \<longrightarrow>
      ((\<forall>e \<in> set scripts. as_float64 (jget e ''id'') \<noteq> Some (ValueInt64 (ps_Id ps))) \<longrightarrow>
         snd (ScriptsDataSource_Read c w ps) = Saved (ps\<lparr>ps_Scripts := ListValue []\<rparr>))
      \<and> (\<forall>n < length scripts.
            as_float64 (jget (scripts ! n) ''id'') = Some (ValueInt64 (ps_Id ps))
            \<and> (\<forall>m < n. as_float64 (jget (scripts ! m) ''id'') \<noteq> Some (ValueInt64 (ps_Id ps)))
            \<longrightarrow> snd (ScriptsDataSource_Read c w ps)
                  = (case ScriptsDataSource_model (scripts ! n) of
                       None \<Rightarrow> Panic
                     | Some m \<Rightarrow> Saved (ps\<lparr>ps_Scripts := ListValue [m]\<rparr>))))
   \<and> (\<not> Int64_IsNull (pn_Id pn)
      \<and> snd (send c w ''GET'' (BaseURL c @ ''/scripts/snippets/'') None) = Inr r'
      \<and> StatusCode r' = StatusOK \<and> DecodeList w (Body r') = Inr snippets \<longrightarrow>
      ((\<forall>e \<in> set snippets. as_float64 (jget e ''id'') \<noteq> Some (ValueInt64 (pn_Id pn))) \<longrightarrow>
         snd (ScriptSnippetsDataSource_Read c w pn) = Saved (pn\<lparr>pn_Snippets := ListValue []\<rparr>))
      \<and> (\<forall>n < length snippets.
            as_float64 (jget (snippets ! n) ''id'') = Some (ValueInt64 (pn_Id pn))
            \<and> (\<forall>m < n. as_float64 (jget (snippets ! m) ''id'') \<noteq> Some (ValueInt64 (pn_Id pn)))
            \<longrightarrow> snd (ScriptSnippetsDataSource_Read c w pn)
                  = Saved (pn\<lparr>pn_Snippets :=
                             ListValue [ScriptSnippetsDataSource_model (snippets ! n)]\<rparr>)))
   \<and> (\<not> Int64_IsNull (pk_Id pk)
      \<and> snd (send c w ''GET'' (BaseURL c @ ''/core/keystore/'') None) = Inr r''
      \<and> StatusCode r'' = StatusOK \<and> DecodeList w (Body r'') = Inr entries \<longrightarrow>
      ((\<forall>e \<in> set entries. as_float64 (jget e ''id'') \<noteq> Some (ValueInt64 (pk_Id pk))) \<longrightarrow>
         snd (KeyStoresDataSource_Read c w pk) = Saved (pk\<lparr>pk_Keystores := ListValue []\<rparr>))
      \<and> (\<forall>n < length entries.
            as_float64 (jget (entries ! n) ''id'') = Some (ValueInt64 (pk_Id pk))
            \<and> (\<forall>m < n. as_float64 (jget (entries ! m) ''id'') \<noteq> Some (ValueInt64 (pk_Id pk)))
            \<longrightarrow> snd (KeyStoresDataSource_Read c w pk)
                  = Saved (pk\<lparr>pk_Keystores :=
                             ListValue [KeyStoresDataSource_model (entries ! n)]\<rparr>)))"
  using Scripts_by_id [of ps c w r scripts] Snippets_by_id [of pn c w r' snippets]
    KeyStores_by_id [of pk c w r'' entries]
  by (auto simp: filter_by_id_none filter_by_id_first split: option.splits)

lemmas plural_eval = ScriptsDataSource_Read_def ScriptsDataSource_filter_def
  ScriptsDataSource_include_def ScriptsDataSource_model_def filter_by_id_def ex_scripts_def
  ex_scripts_world_def ex_filter_def ds_eval

theorem Plural_id_short_circuit_witness:
  "map_ending (map_tf_list sm_Id \<circ> ps_Scripts)
     (snd (ScriptsDataSource_Read ex_client ex_scripts_world
        (ex_filter (Int64Value 2) StringNull StringNull StringNull (StringValue ''Other'') BoolNull)))
   = Saved (ListValue [Int64Value 2])"
proof -
  let ?q = "ex_filter (Int64Value 2) StringNull StringNull StringNull (StringValue ''Other'') BoolNull"
  let ?r = "\<lparr>StatusCode = 200, Body = ''ok''\<rparr>"
  have a: "\<not> Int64_IsNull (ps_Id ?q) \<and> ValueInt64 (ps_Id ?q) = 2"
    by (simp add: ex_filter_def)
  have b: "snd (send ex_client ex_scripts_world ''GET'' (BaseURL ex_client @ ''/scripts/'') None) = Inr ?r"
    by (simp add: send_def NewRequest_def ClientConfig_Do_def ex_scripts_world_def Let_def)
  have d: "StatusCode ?r = StatusOK \<and> DecodeList ex_scripts_world (Body ?r) = Inr ex_scripts"
    by (simp add: StatusOK_def ex_scripts_world_def)
  have n: "(1::nat) < length ex_scripts \<and> as_float64 (jget (ex_scripts ! 1) ''id'') = Some 2
      \<and> (\<forall>m < (1::nat). as_float64 (jget (ex_scripts ! m) ''id'') \<noteq> Some 2)"
    by (simp add: ex_scripts_def jget_def)
  from Plural_id_short_circuit [where ps = ?q and c = ex_client and w = ex_scripts_world and r = ?r
      and scripts = ex_scripts] a b d n
  have "snd (ScriptsDataSource_Read ex_client ex_scripts_world ?q)
      = (case ScriptsDataSource_model (ex_scripts ! 1) of
           None \<Rightarrow> Panic | Some m \<Rightarrow> Saved (?q\<lparr>ps_Scripts := ListValue [m]\<rparr>))"
    by simp
  then show ?thesis
    by (simp add: plural_eval)
qed

subsection \<open>Plural scripts data source: the other filters\<close>

lemma ScriptsDataSource_include_iff:
  "ScriptsDataSource_include data s \<longleftrightarrow>
     (\<not> String_IsNull (ps_Name data)
        \<longrightarrow> as_string (jget s ''name'') = Some (ValueString (ps_Name data)))
     \<and> (\<not> String_IsNull (ps_ScriptType data)
        \<longrightarrow> as_string (jget s ''script_type'') = Some (ValueString (ps_ScriptType data)))
     \<and> (\<not> String_IsNull (ps_Shell data)
        \<longrightarrow> as_string (jget s ''shell'') = Some (ValueString (ps_Shell data)))
     \<and> (\<not> String_IsNull (ps_Category data)
        \<longrightarrow> as_string (jget s ''category'') = Some (ValueString (ps_Category data)))
     \<and> (\<not> Bool_IsNull (ps_Hidden data)
        \<longrightarrow> as_bool (jget s ''hidden'') = Some (ValueBool (ps_Hidden data)))"
  by (simp add: ScriptsDataSource_include_def Let_def)

text \<open>
  Whatever the query, the filter loop never looks at the \<open>favorite\<close> field or at
  the \<open>supported_platforms\<close> field of a script: setting either to any value leaves
  the decision on the script as it was.
\<close>

lemma ScriptsDataSource_include_ignores:
  "ScriptsDataSource_include data (jset ''favorite'' v s) = ScriptsDataSource_include data s"
  "ScriptsDataSource_include data (jset ''supported_platforms'' v s)
     = ScriptsDataSource_include data s"
  by (simp_all add: ScriptsDataSource_include_iff jget_jset)


text \<open>
  The filters that the schema declares work as documented. With no id filter, the
  plural scripts data source fetches the whole collection and keeps, in the order of
  the listing, exactly the scripts that satisfy every filter that is set among
  \<open>name\<close>, \<open>script_type\<close>, \<open>shell\<close>, \<open>category\<close> and \<open>hidden\<close>, each an equality
  on the field of that name; the output is the list of their models.
\<close>

lemma Scripts_filtering:
  "Int64_IsNull (ps_Id data) \<and> snd (send c w ''GET'' (BaseURL c @ ''/scripts/'') None) = Inr r
     \<and> StatusCode r = StatusOK \<and> DecodeList w (Body r) = Inr scripts \<longrightarrow>
   snd (ScriptsDataSource_Read c w data)
     = (case convert_all ScriptsDataSource_model
               (filter (\<lambda>s.
                    (\<not> String_IsNull (ps_Name data)
                       \<longrightarrow> as_string (jget s ''name'') = Some (ValueString (ps_Name data)))
                    \<and> (\<not> String_IsNull (ps_ScriptType data)
                       \<longrightarrow> as_string (jget s ''script_type'') = Some (ValueString (ps_ScriptType data)))
                    \<and> (\<not> String_IsNull (ps_Shell data)
                       \<longrightarrow> as_string (jget s ''shell'') = Some (ValueString (ps_Shell data)))
                    \<and> (\<not> String_IsNull (ps_Category data)
                       \<longrightarrow> as_string (jget s ''category'') = Some (ValueString (ps_Category data)))
                    \<and> (\<not> Bool_IsNull (ps_Hidden data)
                       \<longrightarrow> as_bool (jget s ''hidden'') = Some (ValueBool (ps_Hidden data))))
                  scripts) of
          None \<Rightarrow> Panic
        | Some ms \<Rightarrow> Saved (data\<lparr>ps_Scripts := ListValue ms\<rparr>))"
proof -
  have "ScriptsDataSource_include data = (\<lambda>s.
                    (\<not> String_IsNull (ps_Name data)
                       \<longrightarrow> as_string (jget s ''name'') = Some (ValueString (ps_Name data)))
                    \<and> (\<not> String_IsNull (ps_ScriptType data)
                       \<longrightarrow> as_string (jget s ''script_type'') = Some (ValueString (ps_ScriptType data)))
                    \<and> (\<not> String_IsNull (ps_Shell data)
                       \<longrightarrow> as_string (jget s ''shell'') = Some (ValueString (ps_Shell data)))
                    \<and> (\<not> String_IsNull (ps_Category data)
                       \<longrightarrow> as_string (jget s ''category'') = Some (ValueString (ps_Category data)))
                    \<and> (\<not> Bool_IsNull (ps_Hidden data)
                       \<longrightarrow> as_bool (jget s ''hidden'') = Some (ValueBool (ps_Hidden data))))"
    by (rule ext) (rule ScriptsDataSource_include_iff)
  then show ?thesis
    by (auto simp: ScriptsDataSource_Read_def ScriptsDataSource_filter_def
             split: prod.splits sum.splits option.splits)
qed

lemma Scripts_filtering_example:
  "map_ending (map_tf_list sm_Id \<circ> ps_Scripts)
     (snd (ScriptsDataSource_Read ex_client ex_scripts_world
        (ex_filter Int64Null StringNull StringNull (StringValue ''powershell'') StringNull
           (BoolValue False))))
   = Saved (ListValue [Int64Value 1, Int64Value 2])"
proof -
  let ?q = "ex_filter Int64Null StringNull StringNull (StringValue ''powershell'') StringNull
              (BoolValue False)"
  let ?r = "\<lparr>StatusCode = 200, Body = ''ok''\<rparr>"
  have a: "Int64_IsNull (ps_Id ?q)"
    by (simp add: ex_filter_def)
  have b: "snd (send ex_client ex_scripts_world ''GET'' (BaseURL ex_client @ ''/scripts/'') None) = Inr ?r"
    by (simp add: send_def NewRequest_def ClientConfig_Do_def ex_scripts_world_def Let_def)
  have d: "StatusCode ?r = StatusOK \<and> DecodeList ex_scripts_world (Body ?r) = Inr ex_scripts"
    by (simp add: StatusOK_def ex_scripts_world_def)
  note t = Scripts_filtering [where data = ?q and c = ex_client and w = ex_scripts_world and r = ?r
      and scripts = ex_scripts]
  note e = t [THEN mp, OF conjI [OF a conjI [OF b d]]]
  show ?thesis
    by (simp only: e) (simp add: plural_eval)
qed

end
